theory Spec2Isabelle
  imports Complex_Main
begin

section \<open>Configuration constants of the notification-gated simulator\<close>

text \<open>
  The development follows the fixed-timestep, deterministic-spawn variant of
  \<^verbatim>\<open>DrivingSimulator\<close> whose run ends at the finish line once all notifications
  have been read.  JavaScript numbers are modelled as exact reals, millisecond
  timestamps of \<^verbatim>\<open>Date.now()\<close> as integers.
\<close>

definition AUTOPILOT_BLIND_DISTANCE :: real where
  "AUTOPILOT_BLIND_DISTANCE = 1000"

definition TRACK_LENGTH :: int where
  "TRACK_LENGTH = 6500"

definition AUTOPILOT_SPEED_UNITS :: real where
  "AUTOPILOT_SPEED_UNITS = 1.6"

definition AUTOPILOT_MAX_MPH :: real where
  "AUTOPILOT_MAX_MPH = 120"

definition MANUAL_MAX_MPH :: real where
  "MANUAL_MAX_MPH = 75"

definition CAR_UNITS_TO_MPH :: real where
  "CAR_UNITS_TO_MPH = AUTOPILOT_MAX_MPH / AUTOPILOT_SPEED_UNITS"

definition MANUAL_MAX_VELOCITY :: real where
  "MANUAL_MAX_VELOCITY = MANUAL_MAX_MPH / CAR_UNITS_TO_MPH"

definition FIXED_FPS :: real where
  "FIXED_FPS = 60"

definition FIXED_DELTA :: real where
  "FIXED_DELTA = 1 / FIXED_FPS"

definition finishLineZ :: real where
  "finishLineZ = - real_of_int TRACK_LENGTH"

definition baseBlockSpawnDistance :: real where
  "baseBlockSpawnDistance = 140"

definition lanes :: "real list" where
  "lanes = [-2, 0, 2]"

definition notificationTimes :: "int list" where
  "notificationTimes = [9, 18, 27, 36, 45]"

definition labelCondition :: string where
  "labelCondition = ''copilot''"

definition modeLabelOf :: "bool \<Rightarrow> string" where
  "modeLabelOf autopilot = (if autopilot then labelCondition else ''manual'')"

section \<open>Data model\<close>

text \<open>
  Obstacles are the positions of the scene meshes.  The field \<open>ident\<close> stands for
  the identity of the JavaScript object; the program itself never reads it.
\<close>

datatype obstacle = Traffic nat | FinalBlock nat

record mesh =
  posX :: real
  posZ :: real
  isBlindLane :: bool
  ident :: obstacle

text \<open>Keys of the \<^verbatim>\<open>collisionCooldown\<close> map: the traffic index, or the text
  \<^verbatim>\<open>block_i\<close> built from the position \<open>i\<close> of a block in \<^verbatim>\<open>finalBlocks\<close>.\<close>

datatype cooldownKey = TrafficKey nat | BlockKey nat

text \<open>
  A collision record as pushed to \<^verbatim>\<open>collisionEvents\<close>.  The last two fields are
  not stored by the program: they note the obstacle object that was hit and the
  value of \<^verbatim>\<open>frameCount\<close> at the hit, so that statements about the cooldown can
  refer to them.
\<close>

record collisionEvent =
  ev_unit :: int
  ev_mode :: string
  ev_lane :: nat
  ev_z :: real
  ev_type :: string
  ev_isBlindLane :: "bool option"
  ev_obstacle :: obstacle
  ev_frame :: int

text \<open>Of a notification only the fields that the simulation loop or the click
  handler read or write are kept; texts, icons and open-session intervals are
  presentation data.\<close>

record notification =
  n_id :: nat
  seen :: bool
  arrivalSecond :: "real option"
  clickedSecond :: "real option"
  reactionTime :: "real option"

record simulationData =
  modeBySecond :: "(int \<times> string) list"
  whiteBlocksHit :: nat
  failureLaneHits :: nat
  modeByUnit :: "string option list"
  collisionEvents :: "collisionEvent list"
  finalScore :: int
  sd_notifications :: "notification list"
  notificationsSeen :: nat
  notificationsTotal :: nat
  finishLineCrossSecond :: "real option"

record laneInfoEntry =
  safe :: bool
  nearestObstacle :: "real option"

datatype key = ArrowUp | ArrowDown | ArrowLeft | ArrowRight

text \<open>
  The state gathers the React refs and state variables that the simulation
  reads, and the variables of the closure created when the component mounts.
  Scene graph, camera, road segments, speed and progress displays and the
  colour-flash timeouts only feed the renderer and are left out.
\<close>

record state =
  showInstructions :: bool
  countdownActive :: bool
  isAutopilot :: bool
  isComplete :: bool
  isCompleteRef :: bool
  gameStartedRef :: bool
  startTimeRef :: "int option"
  autopilotRef :: bool
  autopilotPendingRef :: bool
  scoreRef :: int
  failureLaneHitsRef :: nat
  lastDistanceUnitLoggedRef :: int
  notificationsRef :: "notification list"
  showViewAllNotificationsPopup :: bool
  lastTabHiddenTimeRef :: "int option"
  simulationDataRef :: simulationData
  carGroup :: mesh
  otherCars :: "mesh list"
  finalBlocks :: "mesh list"
  lastBlockSpawnZ :: real
  lastLateBlockSpawnZ :: real
  lastFinishBurstSpawnZ :: real
  blockSpawnCount :: nat
  carVelocity :: real
  carLaneOffset :: real
  targetLane :: real
  currentLaneIndex :: nat
  collisionCooldown :: "cooldownKey \<rightharpoonup> int"
  wasAutopilot :: bool
  finishLineCrossed :: bool
  finishLineCrossTime :: "int option"
  keyArrowUp :: bool
  keyArrowDown :: bool
  keyArrowLeft :: bool
  keyArrowRight :: bool
  lastScoreDeduction :: int
  lastSecondLogged :: int
  notificationsShown :: "nat list"
  shuffledIds :: "nat list"
  timerCleared :: bool
  autopilotTimer :: real
  autopilotDecisionLane :: nat
  frameCount :: int
  accumulatedTime :: real
  lastAnimationTime :: "real option"

text \<open>JavaScript truthiness of a timestamp that may be \<^verbatim>\<open>null\<close>.\<close>

definition truthy :: "int option \<Rightarrow> bool" where
  "truthy t = (case t of None \<Rightarrow> False | Some v \<Rightarrow> v \<noteq> 0)"

text \<open>Assignment \<^verbatim>\<open>a[i] = v\<close> to a JavaScript array: writing past the end
  extends the array and leaves holes (\<open>None\<close>) in between.\<close>

definition jsArraySet :: "'a option list \<Rightarrow> int \<Rightarrow> 'a \<Rightarrow> 'a option list" where
  "jsArraySet xs i v =
     (if i < 0 then xs
      else if nat i < length xs then xs[nat i := Some v]
      else xs @ replicate (nat i - length xs) None @ [Some v])"

text \<open>The state after mounting: \<^verbatim>\<open>useState\<close>/\<^verbatim>\<open>useRef\<close> initial values, the
  mount effects that mirror \<^verbatim>\<open>isAutopilot\<close> and \<^verbatim>\<open>isComplete\<close> into their refs,
  and the initial values of the closure.  The shuffled order of notification ids
  is drawn once at mount and is a parameter here.\<close>

definition initialSimulationData :: simulationData where
  "initialSimulationData =
     \<lparr> modeBySecond = [], whiteBlocksHit = 0, failureLaneHits = 0, modeByUnit = [],
       collisionEvents = [], finalScore = 0, sd_notifications = [],
       notificationsSeen = 0, notificationsTotal = 0, finishLineCrossSecond = None \<rparr>"

definition trafficPatterns :: "(nat \<times> real) list" where
  "trafficPatterns = [(0, -400), (2, -1200)]"

definition initialTraffic :: "mesh list" where
  "initialTraffic =
     map (\<lambda>(i, p). \<lparr> posX = lanes ! fst p, posZ = snd p, isBlindLane = False, ident = Traffic i \<rparr>)
         (zip [0 ..< length trafficPatterns] trafficPatterns)"

definition initialState :: "nat list \<Rightarrow> state" where
  "initialState ids =
     \<lparr> showInstructions = True, countdownActive = False, isAutopilot = True,
       isComplete = False, isCompleteRef = False, gameStartedRef = False,
       startTimeRef = None, autopilotRef = True, autopilotPendingRef = False,
       scoreRef = 1000, failureLaneHitsRef = 0, lastDistanceUnitLoggedRef = -1,
       notificationsRef = [], showViewAllNotificationsPopup = False,
       lastTabHiddenTimeRef = None, simulationDataRef = initialSimulationData,
       carGroup = \<lparr> posX = 0, posZ = 0, isBlindLane = False, ident = Traffic 0 \<rparr>,
       otherCars = initialTraffic, finalBlocks = [],
       lastBlockSpawnZ = 0, lastLateBlockSpawnZ = 0, lastFinishBurstSpawnZ = 0,
       blockSpawnCount = 0, carVelocity = 0, carLaneOffset = 0, targetLane = 0,
       currentLaneIndex = 1, collisionCooldown = Map.empty, wasAutopilot = False,
       finishLineCrossed = False, finishLineCrossTime = None,
       keyArrowUp = False, keyArrowDown = False, keyArrowLeft = False, keyArrowRight = False,
       lastScoreDeduction = 0, lastSecondLogged = -1, notificationsShown = [],
       shuffledIds = ids, timerCleared = False, autopilotTimer = 0,
       autopilotDecisionLane = 1, frameCount = 0, accumulatedTime = 0,
       lastAnimationTime = None \<rparr>"

section \<open>Autopilot speed decision\<close>

text \<open>
  The speed part of the autopilot branch of \<^verbatim>\<open>animate\<close>: emergency brake, light
  brake, otherwise approach the cruising speed by the fixed per-tick rate.
\<close>

definition autopilotSpeedControl :: "bool \<Rightarrow> bool \<Rightarrow> real \<Rightarrow> real" where
  "autopilotSpeedControl shouldEmergencyBrake immediateObstacleAhead v =
     (let autopilotSpeed = AUTOPILOT_SPEED_UNITS in
      if shouldEmergencyBrake then max (v - 0.06 * 1.0) 0.2
      else if immediateObstacleAhead then max (v - 0.02 * 1.0) 0.4
      else if v < autopilotSpeed then min (v + 0.05 * 1.0) autopilotSpeed
      else if v > autopilotSpeed then max (v - 0.05 * 1.0) autopilotSpeed
      else v)"

section \<open>Time-based score deduction\<close>

text \<open>
  The deduction at the end of the 100 ms \<^verbatim>\<open>timerInterval\<close> callback, on the pair
  (\<^verbatim>\<open>lastScoreDeduction\<close>, \<^verbatim>\<open>scoreRef.current\<close>).
\<close>

definition timeScoreDeduction :: "int \<Rightarrow> int \<times> int \<Rightarrow> int \<times> int" where
  "timeScoreDeduction now ls =
     (let lastDeduction = (if fst ls = 0 then now else fst ls);
          score = snd ls
      in if now - lastDeduction \<ge> 1000
         then (now, max 0 (score - 5))
         else (lastDeduction, score))"

text \<open>
  The same step in the 45-second sibling variant, which deducts ten points per
  second and catches up on every whole second that has passed.
\<close>

definition timeScoreDeductionCatchUp :: "int \<Rightarrow> int \<times> int \<Rightarrow> int \<times> int" where
  "timeScoreDeductionCatchUp now ls =
     (let lastDeduction = (if fst ls = 0 then now else fst ls);
          score = snd ls;
          timeSinceLastDeduction = now - lastDeduction
      in if timeSinceLastDeduction \<ge> 1000
         then (let secondsPassed = timeSinceLastDeduction div 1000;
                   pointsToDeduct = 10 * secondsPassed
               in (now - (timeSinceLastDeduction mod 1000), max 0 (score - pointsToDeduct)))
         else (lastDeduction, score))"


section \<open>One fixed simulation step\<close>

text \<open>
  The body of the \<^verbatim>\<open>while (accumulatedTime >= FIXED_DELTA)\<close> loop of
  \<^verbatim>\<open>animate\<close>, split into the stages the source runs in order.  The argument
  \<open>now\<close> is the value of \<^verbatim>\<open>Date.now()\<close> during the callback.
\<close>

definition elapsedOf :: "int \<Rightarrow> state \<Rightarrow> int" where
  "elapsedOf now s =
     (if truthy (startTimeRef s) \<and> gameStartedRef s
      then (now - the (startTimeRef s)) div 1000 else -1)"

definition distanceTravelled :: "state \<Rightarrow> real" where
  "distanceTravelled s = \<bar>posZ (carGroup s)\<bar>"

definition distanceToFinish :: "state \<Rightarrow> real" where
  "distanceToFinish s = posZ (carGroup s) - finishLineZ"

definition allNotificationsSeen :: "notification list \<Rightarrow> bool" where
  "allNotificationsSeen currentNotifications =
     (length currentNotifications > 0 \<and> list_all seen currentNotifications)"

subsection \<open>Telemetry helpers\<close>

definition fillModeByUnit :: "string \<Rightarrow> int \<Rightarrow> int \<Rightarrow> string option list \<Rightarrow> string option list" where
  "fillModeByUnit modeLabel first lastUnit arr =
     fold (\<lambda>unit a. jsArraySet a unit modeLabel) [first..lastUnit] arr"

definition ensureModeByUnitComplete :: "state \<Rightarrow> state" where
  "ensureModeByUnitComplete s =
     (if lastDistanceUnitLoggedRef s \<ge> TRACK_LENGTH then s
      else let modeLabel = modeLabelOf (autopilotRef s);
               d = simulationDataRef s
           in s\<lparr> simulationDataRef :=
                    d\<lparr> modeByUnit := fillModeByUnit modeLabel
                          (lastDistanceUnitLoggedRef s + 1) TRACK_LENGTH (modeByUnit d) \<rparr>,
                  lastDistanceUnitLoggedRef := TRACK_LENGTH \<rparr>)"

definition logModeByUnit :: "state \<Rightarrow> state" where
  "logModeByUnit s =
     (let currentDistanceUnit = min \<lfloor>distanceTravelled s\<rfloor> TRACK_LENGTH in
      if currentDistanceUnit > lastDistanceUnitLoggedRef s \<and> currentDistanceUnit \<ge> 0
      then let modeLabel = modeLabelOf (autopilotRef s);
               d = simulationDataRef s
           in s\<lparr> simulationDataRef :=
                    d\<lparr> modeByUnit := fillModeByUnit modeLabel
                          (lastDistanceUnitLoggedRef s + 1) currentDistanceUnit (modeByUnit d) \<rparr>,
                  lastDistanceUnitLoggedRef := currentDistanceUnit \<rparr>
      else s)"

definition captureNotifications :: "notification list \<Rightarrow> simulationData \<Rightarrow> simulationData" where
  "captureNotifications currentNotifications d =
     d\<lparr> sd_notifications := currentNotifications,
        notificationsTotal := length currentNotifications,
        notificationsSeen := length (filter seen currentNotifications) \<rparr>"

text \<open>Blocks are cleared on the first step after the finish line was crossed; the
  console and survey export that follows writes to the external sink only.\<close>

definition cleanupAfterFinish :: "state \<Rightarrow> state" where
  "cleanupAfterFinish s =
     (if finishLineCrossed s \<and> length (finalBlocks s) > 0
      then s\<lparr> finalBlocks := [],
               simulationDataRef :=
                 (if notificationsTotal (simulationDataRef s) = 0
                  then captureNotifications (notificationsRef s) (simulationDataRef s)
                  else simulationDataRef s) \<rparr>
      else s)"

subsection \<open>Obstacle spawner\<close>

definition newBlock :: "real \<Rightarrow> real \<Rightarrow> nat \<Rightarrow> mesh" where
  "newBlock x z n = \<lparr> posX = x, posZ = z, isBlindLane = False, ident = FinalBlock n \<rparr>"

definition spawnEarly :: "state \<Rightarrow> state" where
  "spawnEarly s =
     (let carZ = posZ (carGroup s);
          distanceSinceLastSpawn = \<bar>carZ - lastBlockSpawnZ s\<bar>;
          dynamicInterval = baseBlockSpawnDistance
      in if distanceTravelled s > 80 \<and> distanceSinceLastSpawn \<ge> dynamicInterval
         then let spawnDistance = 80;
                  lanePattern = [0, 2, 1];
                  laneIndex = lanePattern ! (blockSpawnCount s mod length lanePattern);
                  offsetPattern = [3, 5, 4, 6, 3.5, 5.5];
                  offset = offsetPattern ! (blockSpawnCount s mod length offsetPattern)
              in s\<lparr> lastBlockSpawnZ := carZ,
                     finalBlocks := finalBlocks s @
                       [newBlock (lanes ! laneIndex) (carZ - spawnDistance - offset) (blockSpawnCount s)],
                     blockSpawnCount := blockSpawnCount s + 1 \<rparr>
         else s)"

text \<open>The late zone passes the lane index itself as the block's x coordinate.\<close>

definition spawnLate :: "state \<Rightarrow> state" where
  "spawnLate s =
     (let carZ = posZ (carGroup s);
          distanceSinceLastLateSpawn = \<bar>carZ - lastLateBlockSpawnZ s\<bar>;
          dynamicLateInterval = baseBlockSpawnDistance
      in if distanceSinceLastLateSpawn \<ge> dynamicLateInterval
         then let spawnDistance = 70;
                  possibleLanes = [0, 1, 2];
                  laneIndex = blockSpawnCount s mod length possibleLanes;
                  selectedLane = possibleLanes ! laneIndex;
                  offsetPattern = [3.5, 5, 4.5, 6, 4, 5.5];
                  offset = offsetPattern ! (blockSpawnCount s mod length offsetPattern)
              in s\<lparr> lastLateBlockSpawnZ := carZ,
                     finalBlocks := finalBlocks s @
                       [newBlock (real selectedLane) (carZ - spawnDistance - offset) (blockSpawnCount s)],
                     blockSpawnCount := blockSpawnCount s + 1 \<rparr>
         else s)"

definition spawnFinishBurst :: "state \<Rightarrow> state" where
  "spawnFinishBurst s =
     (let carZ = posZ (carGroup s);
          distanceSinceLastBurst = \<bar>carZ - lastFinishBurstSpawnZ s\<bar>;
          dynamicBurstInterval = baseBlockSpawnDistance
      in if distanceSinceLastBurst \<ge> dynamicBurstInterval
         then let spawnDistance = 80;
                  availableLanes = [0, 1, 2];
                  laneIndex = availableLanes ! ((blockSpawnCount s + 0) mod length availableLanes);
                  offsetPattern = [3, 5, 4, 6, 3.5, 5.5];
                  offset = offsetPattern ! ((blockSpawnCount s + 0) mod length offsetPattern)
              in s\<lparr> lastFinishBurstSpawnZ := carZ,
                     finalBlocks := finalBlocks s @
                       [newBlock (lanes ! laneIndex) (carZ - spawnDistance - offset) (blockSpawnCount s)],
                     blockSpawnCount := blockSpawnCount s + 1 \<rparr>
         else s)"

definition spawnBlocks :: "int \<Rightarrow> state \<Rightarrow> state" where
  "spawnBlocks elapsed s =
     (let d = distanceToFinish s;
          s1 = (if \<not> finishLineCrossed s \<and> elapsed \<ge> 0
                then (if d > AUTOPILOT_BLIND_DISTANCE then spawnEarly s
                      else if d \<le> AUTOPILOT_BLIND_DISTANCE \<and> d > 300 then spawnLate s
                      else s)
                else s)
      in if \<not> finishLineCrossed s1 \<and> d > 0 \<and> d < 300 \<and> elapsed \<ge> 0
         then spawnFinishBurst s1 else s1)"

subsection \<open>Autopilot policy and manual input\<close>

definition allObstacles :: "state \<Rightarrow> mesh list" where
  "allObstacles s = otherCars s @ finalBlocks s"

definition autopilotPendingLogic :: "int \<Rightarrow> state \<Rightarrow> state" where
  "autopilotPendingLogic elapsed s =
     (if \<not> autopilotRef s \<and> autopilotPendingRef s \<and> elapsed \<ge> 0
      then let obstacleTooClose =
                 list_ex (\<lambda>obstacle.
                    let relativeZ = posZ obstacle - posZ (carGroup s);
                        relativeX = \<bar>posX obstacle - posX (carGroup s)\<bar>
                    in relativeZ < 15 \<and> relativeZ > -60 \<and> relativeX < 1.5) (allObstacles s)
           in if \<not> obstacleTooClose
              then s\<lparr> autopilotPendingRef := False, isAutopilot := True \<rparr>
              else s
      else s)"

text \<open>Distances to the nearest obstacle start at \<^verbatim>\<open>Infinity\<close>, written \<open>None\<close>.\<close>

definition ltDist :: "real \<Rightarrow> real option \<Rightarrow> bool" where
  "ltDist x d = (case d of None \<Rightarrow> True | Some y \<Rightarrow> x < y)"

definition distGt :: "real option \<Rightarrow> real option \<Rightarrow> bool" where
  "distGt a b = (case b of None \<Rightarrow> False
                 | Some y \<Rightarrow> (case a of None \<Rightarrow> True | Some x \<Rightarrow> x > y))"

definition distGtReal :: "real option \<Rightarrow> real \<Rightarrow> bool" where
  "distGtReal a y = (case a of None \<Rightarrow> True | Some x \<Rightarrow> x > y)"

definition distLtReal :: "real option \<Rightarrow> real \<Rightarrow> bool" where
  "distLtReal a y = (case a of None \<Rightarrow> False | Some x \<Rightarrow> x < y)"

definition initialLaneInfo :: "laneInfoEntry list" where
  "initialLaneInfo = replicate 3 \<lparr> safe = True, nearestObstacle = None \<rparr>"

definition scanLane :: "real \<Rightarrow> real \<Rightarrow> nat \<Rightarrow> laneInfoEntry list \<Rightarrow> laneInfoEntry list" where
  "scanLane obstacleX distance i laneInfo =
     (let laneCenterX = lanes ! i;
          distanceFromLaneCenter = \<bar>obstacleX - laneCenterX\<bar>
      in if distanceFromLaneCenter < 2.0
         then let l1 = (if ltDist distance (nearestObstacle (laneInfo ! i))
                        then laneInfo[i := (laneInfo ! i)\<lparr> nearestObstacle := Some distance \<rparr>]
                        else laneInfo)
              in if distance < 1000 then l1[i := (l1 ! i)\<lparr> safe := False \<rparr>] else l1
         else laneInfo)"

definition scanObstacle :: "real \<Rightarrow> mesh \<Rightarrow> laneInfoEntry list \<Rightarrow> laneInfoEntry list" where
  "scanObstacle carZ obstacle laneInfo =
     (let relativeZ = posZ obstacle - carZ in
      if relativeZ < 300 \<and> relativeZ > -1200
      then fold (scanLane (posX obstacle) \<bar>relativeZ\<bar>) [0, 1, 2] laneInfo
      else laneInfo)"

definition computeLaneInfo :: "state \<Rightarrow> laneInfoEntry list" where
  "computeLaneInfo s = fold (scanObstacle (posZ (carGroup s))) (allObstacles s) initialLaneInfo"

definition mostClearance :: "laneInfoEntry list \<Rightarrow> nat \<Rightarrow> nat" where
  "mostClearance laneInfo current =
     fst (fold (\<lambda>i (bestLane, maxDistance).
                  if distGt (nearestObstacle (laneInfo ! i)) maxDistance
                  then (i, nearestObstacle (laneInfo ! i)) else (bestLane, maxDistance))
               [0, 1, 2] (current, nearestObstacle (laneInfo ! current)))"

definition firstSafeLane :: "laneInfoEntry list \<Rightarrow> nat option" where
  "firstSafeLane laneInfo = find (\<lambda>i. safe (laneInfo ! i)) [0, 1, 2]"

definition chooseBestLane :: "laneInfoEntry list \<Rightarrow> nat \<Rightarrow> nat" where
  "chooseBestLane laneInfo current =
     (let b1 = mostClearance laneInfo current;
          b2 = (if \<not> safe (laneInfo ! current)
                then (case firstSafeLane laneInfo of Some i \<Rightarrow> i | None \<Rightarrow> b1)
                else b1)
      in if distGtReal (nearestObstacle (laneInfo ! 1)) 800
            \<and> distGtReal (nearestObstacle (laneInfo ! b2)) 800
         then 1 else b2)"

definition immediateObstacle :: "state \<Rightarrow> bool" where
  "immediateObstacle s =
     list_ex (\<lambda>obstacle.
        let relativeZ = posZ obstacle - posZ (carGroup s);
            relativeX = \<bar>posX obstacle - posX (carGroup s)\<bar>
        in relativeZ < 30 \<and> relativeZ > -80 \<and> relativeX < 1.5) (allObstacles s)"

definition emergencyBrakeNeeded :: "state \<Rightarrow> bool" where
  "emergencyBrakeNeeded s =
     (let laneInfo = computeLaneInfo s;
          bestLaneInfo = laneInfo ! chooseBestLane laneInfo (currentLaneIndex s);
          emergencyStop = False
      in emergencyStop \<or> (\<not> safe bestLaneInfo \<and> distLtReal (nearestObstacle bestLaneInfo) 60))"

definition autopilotControl :: "state \<Rightarrow> state" where
  "autopilotControl s =
     (let bestLane = chooseBestLane (computeLaneInfo s) (currentLaneIndex s);
          s1 = s\<lparr> wasAutopilot := True,
                  autopilotTimer := autopilotTimer s + FIXED_DELTA,
                  autopilotDecisionLane := bestLane,
                  carVelocity := autopilotSpeedControl (emergencyBrakeNeeded s)
                                   (immediateObstacle s) (carVelocity s) \<rparr>
      in if autopilotDecisionLane s1 \<noteq> currentLaneIndex s1
         then s1\<lparr> currentLaneIndex := autopilotDecisionLane s1,
                  targetLane := lanes ! autopilotDecisionLane s1 \<rparr>
         else s1)"

text \<open>The manual branch, one definition per statement of the source.\<close>

definition capSpeedOnSwitch :: "state \<Rightarrow> state" where
  "capSpeedOnSwitch s =
     (if wasAutopilot s
      then s\<lparr> carVelocity := min (carVelocity s) MANUAL_MAX_VELOCITY, wasAutopilot := False \<rparr>
      else s)"

definition autoAccelerate :: "state \<Rightarrow> state" where
  "autoAccelerate s =
     (if carVelocity s < MANUAL_MAX_VELOCITY
      then s\<lparr> carVelocity := min (carVelocity s + 0.005 * 1.0) MANUAL_MAX_VELOCITY \<rparr>
      else s)"

definition accelerateKey :: "state \<Rightarrow> state" where
  "accelerateKey s =
     (if keyArrowUp s
      then s\<lparr> carVelocity := min (carVelocity s + 0.008 * 1.0) MANUAL_MAX_VELOCITY \<rparr>
      else s)"

definition brakeKey :: "state \<Rightarrow> state" where
  "brakeKey s =
     (if keyArrowDown s
      then s\<lparr> carVelocity := max (carVelocity s - 0.025 * 1.0) 0 \<rparr>
      else s)"

definition laneLeftKey :: "state \<Rightarrow> state" where
  "laneLeftKey s =
     (if keyArrowLeft s \<and> currentLaneIndex s > 0
      then s\<lparr> currentLaneIndex := currentLaneIndex s - 1,
               targetLane := lanes ! (currentLaneIndex s - 1),
               keyArrowLeft := False \<rparr>
      else s)"

definition laneRightKey :: "state \<Rightarrow> state" where
  "laneRightKey s =
     (if keyArrowRight s \<and> currentLaneIndex s < 2
      then s\<lparr> currentLaneIndex := currentLaneIndex s + 1,
               targetLane := lanes ! (currentLaneIndex s + 1),
               keyArrowRight := False \<rparr>
      else s)"

definition manualControl :: "state \<Rightarrow> state" where
  "manualControl s =
     (if gameStartedRef s
      then laneRightKey (laneLeftKey (brakeKey (accelerateKey (autoAccelerate (capSpeedOnSwitch s)))))
      else s\<lparr> carVelocity := 0 \<rparr>)"

definition controlCar :: "int \<Rightarrow> state \<Rightarrow> state" where
  "controlCar elapsed s =
     (if autopilotRef s \<and> elapsed \<ge> 0 \<and> \<not> finishLineCrossed s
      then autopilotControl s else manualControl s)"

subsection \<open>Motion integrator\<close>

definition moveCar :: "state \<Rightarrow> state" where
  "moveCar s =
     (let laneChangeEase = (if autopilotRef s then 0.2 else 0.1);
          laneChangeFactor = min (laneChangeEase * 1.0) 1;
          offset = carLaneOffset s + (targetLane s - carLaneOffset s) * laneChangeFactor
      in s\<lparr> carLaneOffset := offset,
             carGroup := (carGroup s)\<lparr> posX := offset,
                                       posZ := posZ (carGroup s) - carVelocity s * 1.0 \<rparr> \<rparr>)"

subsection \<open>Collision detector\<close>

definition cooldownExpired :: "state \<Rightarrow> cooldownKey \<Rightarrow> bool" where
  "cooldownExpired s k =
     (case collisionCooldown s k of None \<Rightarrow> True | Some t \<Rightarrow> frameCount s - t > 60)"

definition collisionUnitOf :: "state \<Rightarrow> int" where
  "collisionUnitOf s = min \<lfloor>\<bar>posZ (carGroup s)\<bar>\<rfloor> TRACK_LENGTH"

definition registerTrafficHit :: "nat \<Rightarrow> mesh \<Rightarrow> state \<Rightarrow> state" where
  "registerTrafficHit index car s =
     (let d = simulationDataRef s;
          e = \<lparr> ev_unit = collisionUnitOf s, ev_mode = modeLabelOf (autopilotRef s),
                ev_lane = currentLaneIndex s, ev_z = posZ (carGroup s),
                ev_type = ''traffic'', ev_isBlindLane = None,
                ev_obstacle = ident car, ev_frame = frameCount s \<rparr>
      in s\<lparr> scoreRef := max 0 (scoreRef s - 10),
             simulationDataRef := d\<lparr> collisionEvents := collisionEvents d @ [e] \<rparr>,
             collisionCooldown := (collisionCooldown s)(TrafficKey index \<mapsto> frameCount s) \<rparr>)"

definition advanceTrafficCar :: "nat \<Rightarrow> state \<Rightarrow> state" where
  "advanceTrafficCar index s =
     (let car0 = otherCars s ! index;
          car1 = car0\<lparr> posZ := posZ car0 + 0.03 * 1.0 \<rparr>;
          lanePattern = [0, 2, 1]
      in if posZ car1 > posZ (carGroup s) + 150
         then s\<lparr> otherCars := (otherCars s)
                      [index := car1\<lparr> posZ := posZ (carGroup s) - 800 - (real index * 500),
                                       posX := lanes ! (lanePattern ! (index mod length lanePattern)) \<rparr>],
                  collisionCooldown := (collisionCooldown s)(TrafficKey index := None) \<rparr>
         else s\<lparr> otherCars := (otherCars s)[index := car1] \<rparr>)"

definition checkTrafficCollision :: "nat \<Rightarrow> state \<Rightarrow> state" where
  "checkTrafficCollision index s =
     (if finishLineCrossed s then s
      else let car = otherCars s ! index;
               dx = \<bar>posX car - posX (carGroup s)\<bar>;
               dz = \<bar>posZ car - posZ (carGroup s)\<bar>
           in if dx < 1.3 \<and> dz < 2.5 \<and> cooldownExpired s (TrafficKey index)
              then registerTrafficHit index car s else s)"

text \<open>The callback of \<^verbatim>\<open>otherCars.forEach\<close> for the car at position \<open>index\<close>.\<close>

definition updateTrafficCar :: "nat \<Rightarrow> state \<Rightarrow> state" where
  "updateTrafficCar index s = checkTrafficCollision index (advanceTrafficCar index s)"

definition updateTraffic :: "state \<Rightarrow> state" where
  "updateTraffic s = fold updateTrafficCar [0 ..< length (otherCars s)] s"

definition registerBlockHit :: "nat \<Rightarrow> mesh \<Rightarrow> state \<Rightarrow> state" where
  "registerBlockHit i block s =
     (let d = simulationDataRef s;
          e = \<lparr> ev_unit = collisionUnitOf s, ev_mode = modeLabelOf (autopilotRef s),
                ev_lane = currentLaneIndex s, ev_z = posZ (carGroup s),
                ev_type = ''block'', ev_isBlindLane = Some (isBlindLane block),
                ev_obstacle = ident block, ev_frame = frameCount s \<rparr>;
          hits = (if isBlindLane block then failureLaneHitsRef s + 1 else failureLaneHitsRef s)
      in s\<lparr> scoreRef := max 0 (scoreRef s - 10),
             failureLaneHitsRef := hits,
             simulationDataRef :=
               d\<lparr> collisionEvents := collisionEvents d @ [e],
                  whiteBlocksHit := whiteBlocksHit d + 1,
                  failureLaneHits := (if isBlindLane block then hits else failureLaneHits d) \<rparr>,
             collisionCooldown := (collisionCooldown s)(BlockKey i \<mapsto> frameCount s) \<rparr>)"

text \<open>One iteration of the descending loop over \<^verbatim>\<open>finalBlocks\<close>, for position \<open>i\<close>.\<close>

definition updateBlock :: "nat \<Rightarrow> state \<Rightarrow> state" where
  "updateBlock i s =
     (let block = finalBlocks s ! i in
      if posZ block > posZ (carGroup s) + 200
      then s\<lparr> finalBlocks := take i (finalBlocks s) @ drop (Suc i) (finalBlocks s) \<rparr>
      else let dx = \<bar>posX block - posX (carGroup s)\<bar>;
               dz = \<bar>posZ block - posZ (carGroup s)\<bar>
           in if dx < 1.8 \<and> dz < 3 \<and> cooldownExpired s (BlockKey i)
              then registerBlockHit i block s else s)"

fun blocksLoop :: "nat \<Rightarrow> state \<Rightarrow> state" where
  "blocksLoop 0 s = s"
| "blocksLoop (Suc i) s = blocksLoop i (updateBlock i s)"

definition updateBlocks :: "state \<Rightarrow> state" where
  "updateBlocks s =
     (if \<not> finishLineCrossed s then blocksLoop (length (finalBlocks s)) s else s)"

subsection \<open>Completion detector\<close>

text \<open>The body shared by the two completion branches; \<^verbatim>\<open>setIsComplete(true)\<close>
  sets the React state, \<^verbatim>\<open>clearInterval(timerInterval)\<close> stops the timer.\<close>

definition completeSimulation :: "state \<Rightarrow> state" where
  "completeSimulation s =
     (let d = simulationDataRef s;
          s1 = ensureModeByUnitComplete
                 (s\<lparr> simulationDataRef :=
                        d\<lparr> finalScore := scoreRef s, failureLaneHits := failureLaneHitsRef s \<rparr> \<rparr>)
      in s1\<lparr> simulationDataRef := captureNotifications (notificationsRef s1) (simulationDataRef s1),
              finalBlocks := [],
              isComplete := True,
              timerCleared := True,
              showViewAllNotificationsPopup := False \<rparr>)"

definition crossFinishLine :: "int \<Rightarrow> state \<Rightarrow> state" where
  "crossFinishLine now s =
     (if posZ (carGroup s) \<le> finishLineZ \<and> \<not> isCompleteRef s \<and> \<not> finishLineCrossed s
      then let finishLineElapsed =
                 (if truthy (startTimeRef s) \<and> gameStartedRef s
                  then Some (real_of_int (now - the (startTimeRef s)) / 1000) else None);
               d = simulationDataRef s;
               s1 = s\<lparr> finishLineCrossed := True, finishLineCrossTime := Some now,
                       simulationDataRef := d\<lparr> finishLineCrossSecond := finishLineElapsed \<rparr> \<rparr>
           in if allNotificationsSeen (notificationsRef s1)
              then completeSimulation s1
              else s1\<lparr> showViewAllNotificationsPopup := True \<rparr>
      else s)"

definition completeWhenAllSeen :: "state \<Rightarrow> state" where
  "completeWhenAllSeen s =
     (if finishLineCrossed s \<and> \<not> isCompleteRef s \<and> allNotificationsSeen (notificationsRef s)
      then completeSimulation s else s)"

definition stopAfterCoasting :: "int \<Rightarrow> state \<Rightarrow> state" where
  "stopAfterCoasting now s =
     (if finishLineCrossed s \<and> truthy (finishLineCrossTime s) \<and> isCompleteRef s
      then let timeSinceFinish = real_of_int (now - the (finishLineCrossTime s)) / 1000
           in if timeSinceFinish \<ge> 5 then s\<lparr> carVelocity := 0 \<rparr> else s
      else s)"

subsection \<open>The step and the animation callback\<close>

definition simulationStep :: "int \<Rightarrow> state \<Rightarrow> state" where
  "simulationStep now s0 =
     (let s = s0\<lparr> frameCount := frameCount s0 + 1 \<rparr>;
          elapsed = elapsedOf now s
      in if \<not> gameStartedRef s
         then s\<lparr> carVelocity := 0, accumulatedTime := accumulatedTime s - FIXED_DELTA \<rparr>
         else let s1 = cleanupAfterFinish s;
                  s2 = logModeByUnit s1;
                  s3 = spawnBlocks elapsed s2;
                  s4 = autopilotPendingLogic elapsed s3;
                  s5 = controlCar elapsed s4;
                  s6 = moveCar s5;
                  s7 = updateTraffic s6;
                  s8 = updateBlocks s7;
                  s9 = crossFinishLine now s8;
                  s10 = completeWhenAllSeen s9;
                  s11 = stopAfterCoasting now s10
              in s11\<lparr> accumulatedTime := accumulatedTime s11 - FIXED_DELTA \<rparr>)"

text \<open>Every stage leaves the accumulator alone, so a step lowers it by exactly
  one fixed increment; this is what makes the draining loop terminate.\<close>

lemma accumulatedTime_ensureModeByUnitComplete [simp]:
  "accumulatedTime (ensureModeByUnitComplete s) = accumulatedTime s"
  by (simp add: ensureModeByUnitComplete_def Let_def)

lemma accumulatedTime_logModeByUnit [simp]:
  "accumulatedTime (logModeByUnit s) = accumulatedTime s"
  by (simp add: logModeByUnit_def Let_def)

lemma accumulatedTime_cleanupAfterFinish [simp]:
  "accumulatedTime (cleanupAfterFinish s) = accumulatedTime s"
  by (simp add: cleanupAfterFinish_def)

lemma accumulatedTime_spawnBlocks [simp]:
  "accumulatedTime (spawnBlocks e s) = accumulatedTime s"
  by (simp add: spawnBlocks_def spawnEarly_def spawnLate_def spawnFinishBurst_def Let_def)

lemma accumulatedTime_autopilotPendingLogic [simp]:
  "accumulatedTime (autopilotPendingLogic e s) = accumulatedTime s"
  by (simp add: autopilotPendingLogic_def Let_def)

lemma accumulatedTime_manualSteps [simp]:
  "accumulatedTime (capSpeedOnSwitch s) = accumulatedTime s"
  "accumulatedTime (autoAccelerate s) = accumulatedTime s"
  "accumulatedTime (accelerateKey s) = accumulatedTime s"
  "accumulatedTime (brakeKey s) = accumulatedTime s"
  "accumulatedTime (laneLeftKey s) = accumulatedTime s"
  "accumulatedTime (laneRightKey s) = accumulatedTime s"
  by (simp_all add: capSpeedOnSwitch_def autoAccelerate_def accelerateKey_def brakeKey_def
        laneLeftKey_def laneRightKey_def)

lemma accumulatedTime_controlCar [simp]:
  "accumulatedTime (controlCar e s) = accumulatedTime s"
  by (simp add: controlCar_def autopilotControl_def manualControl_def Let_def)

lemma accumulatedTime_moveCar [simp]:
  "accumulatedTime (moveCar s) = accumulatedTime s"
  by (simp add: moveCar_def Let_def)

lemma accumulatedTime_updateTrafficCar [simp]:
  "accumulatedTime (updateTrafficCar i s) = accumulatedTime s"
  by (simp add: updateTrafficCar_def advanceTrafficCar_def checkTrafficCollision_def
        registerTrafficHit_def Let_def)

lemma accumulatedTime_fold_updateTrafficCar [simp]:
  "accumulatedTime (fold updateTrafficCar xs s) = accumulatedTime s"
  by (induction xs arbitrary: s) simp_all

lemma accumulatedTime_updateBlock [simp]:
  "accumulatedTime (updateBlock i s) = accumulatedTime s"
  by (simp add: updateBlock_def registerBlockHit_def Let_def)

lemma accumulatedTime_blocksLoop [simp]:
  "accumulatedTime (blocksLoop n s) = accumulatedTime s"
  by (induction n arbitrary: s) simp_all

lemma accumulatedTime_completeSimulation [simp]:
  "accumulatedTime (completeSimulation s) = accumulatedTime s"
  by (simp add: completeSimulation_def Let_def)

lemma accumulatedTime_finish [simp]:
  "accumulatedTime (crossFinishLine now s) = accumulatedTime s"
  "accumulatedTime (completeWhenAllSeen s) = accumulatedTime s"
  "accumulatedTime (stopAfterCoasting now s) = accumulatedTime s"
  by (simp_all add: crossFinishLine_def completeWhenAllSeen_def stopAfterCoasting_def Let_def)

lemma accumulatedTime_simulationStep:
  "accumulatedTime (simulationStep now s) = accumulatedTime s - FIXED_DELTA"
  by (simp add: simulationStep_def Let_def updateTraffic_def updateBlocks_def)

text \<open>The loop \<^verbatim>\<open>while (accumulatedTime >= FIXED_DELTA) { ... }\<close>.\<close>

function drainAccumulator :: "int \<Rightarrow> state \<Rightarrow> state" where
  "drainAccumulator now s =
     (if accumulatedTime s \<ge> FIXED_DELTA
      then drainAccumulator now (simulationStep now s) else s)"
  by pat_completeness auto
termination
proof (relation "measure (\<lambda>(now, s). nat \<lfloor>accumulatedTime s / FIXED_DELTA\<rfloor>)")
  show "wf (measure (\<lambda>(now, s). nat \<lfloor>accumulatedTime s / FIXED_DELTA\<rfloor>))"
    by simp
next
  fix now :: int and s :: state
  assume a: "FIXED_DELTA \<le> accumulatedTime s"
  have d: "FIXED_DELTA = 1 / 60"
    by (simp add: FIXED_DELTA_def FIXED_FPS_def)
  have "accumulatedTime (simulationStep now s) / FIXED_DELTA = accumulatedTime s / FIXED_DELTA - 1"
    by (simp add: accumulatedTime_simulationStep d)
  moreover have "1 \<le> accumulatedTime s / FIXED_DELTA"
    using a by (simp add: d)
  ultimately have "nat \<lfloor>accumulatedTime (simulationStep now s) / FIXED_DELTA\<rfloor>
                   < nat \<lfloor>accumulatedTime s / FIXED_DELTA\<rfloor>"
    by (simp add: nat_less_iff)
  then show "((now, simulationStep now s), (now, s))
             \<in> measure (\<lambda>(now, s). nat \<lfloor>accumulatedTime s / FIXED_DELTA\<rfloor>)"
    by simp
qed

declare drainAccumulator.simps [simp del]

text \<open>The callback \<^verbatim>\<open>animate\<close>: \<open>perfNow\<close> is \<^verbatim>\<open>performance.now()\<close> in
  milliseconds.  The first callback only records the baseline.\<close>

definition animate :: "real \<Rightarrow> int \<Rightarrow> state \<Rightarrow> state" where
  "animate perfNow now s =
     (case lastAnimationTime s of
        None \<Rightarrow> s\<lparr> lastAnimationTime := Some perfNow \<rparr>
      | Some lastTime \<Rightarrow>
          let realDeltaMs = perfNow - lastTime
          in drainAccumulator now
               (s\<lparr> lastAnimationTime := Some perfNow,
                   accumulatedTime := accumulatedTime s + realDeltaMs / 1000 \<rparr>))"

section \<open>Timer and input handlers\<close>

definition newNotification :: "nat \<Rightarrow> real option \<Rightarrow> notification" where
  "newNotification notifId arrival =
     \<lparr> n_id = notifId, seen = False, arrivalSecond = arrival,
       clickedSecond = None, reactionTime = None \<rparr>"

definition triggerNotification :: "int \<Rightarrow> int \<Rightarrow> nat \<Rightarrow> state \<Rightarrow> state" where
  "triggerNotification now elapsed index s =
     (if elapsed = notificationTimes ! index \<and> index \<notin> set (notificationsShown s)
      then let notifId = shuffledIds s ! index;
               arrival = (if truthy (startTimeRef s)
                          then Some (real_of_int (now - the (startTimeRef s)) / 1000) else None)
           in s\<lparr> notificationsShown := index # notificationsShown s,
                  notificationsRef := notificationsRef s @ [newNotification notifId arrival] \<rparr>
      else s)"

text \<open>The \<^verbatim>\<open>forEach\<close> over the five trigger times.\<close>

definition triggerNotifications :: "int \<Rightarrow> int \<Rightarrow> state \<Rightarrow> state" where
  "triggerNotifications now elapsed s = fold (triggerNotification now elapsed) [0, 1, 2, 3, 4] s"

text \<open>The 100 ms interval callback.  It does nothing before the run starts, after
  completion has reached the ref, and once the interval was cleared.\<close>

definition timerInterval :: "int \<Rightarrow> state \<Rightarrow> state" where
  "timerInterval now s =
     (if timerCleared s \<or> \<not> truthy (startTimeRef s) \<or> \<not> gameStartedRef s \<or> isCompleteRef s
      then s
      else let elapsed = (now - the (startTimeRef s)) div 1000;
               s1 = triggerNotifications now elapsed s;
               s2 = (if elapsed \<noteq> lastSecondLogged s1
                     then s1\<lparr> simulationDataRef :=
                               (simulationDataRef s1)\<lparr> modeBySecond :=
                                  modeBySecond (simulationDataRef s1)
                                    @ [(elapsed, modeLabelOf (autopilotRef s1))] \<rparr>,
                             lastSecondLogged := elapsed \<rparr>
                     else s1);
               ls = timeScoreDeduction now (lastScoreDeduction s2, scoreRef s2)
           in s2\<lparr> lastScoreDeduction := fst ls, scoreRef := snd ls \<rparr>)"

definition handleVisibilityChange :: "bool \<Rightarrow> int \<Rightarrow> state \<Rightarrow> state" where
  "handleVisibilityChange hidden now s =
     (if hidden then s\<lparr> lastTabHiddenTimeRef := Some now \<rparr>
      else if truthy (lastTabHiddenTimeRef s) \<and> truthy (startTimeRef s)
      then s\<lparr> lastTabHiddenTimeRef := None \<rparr>
      else s)"

definition startGame :: "state \<Rightarrow> state" where
  "startGame s =
     s\<lparr> showInstructions := False, countdownActive := True,
        isAutopilot := True, autopilotRef := True, autopilotPendingRef := False,
        notificationsRef := [], showViewAllNotificationsPopup := False,
        failureLaneHitsRef := 0, lastDistanceUnitLoggedRef := -1,
        simulationDataRef := initialSimulationData \<rparr>"

text \<open>The deferred callback at the end of the countdown: the run starts and the
  score is reset.\<close>

definition countdownGo :: "int \<Rightarrow> state \<Rightarrow> state" where
  "countdownGo now s =
     s\<lparr> gameStartedRef := True, startTimeRef := Some now, scoreRef := 1000,
        countdownActive := False \<rparr>"

definition handleToggleAutopilot :: "state \<Rightarrow> state" where
  "handleToggleAutopilot s =
     (if isAutopilot s \<or> autopilotPendingRef s
      then s\<lparr> isAutopilot := False, autopilotRef := False, autopilotPendingRef := False \<rparr>
      else s\<lparr> autopilotPendingRef := True \<rparr>)"

definition handleKeyDown :: "key \<Rightarrow> state \<Rightarrow> state" where
  "handleKeyDown k s =
     (case k of ArrowUp \<Rightarrow> s\<lparr> keyArrowUp := True \<rparr>
      | ArrowDown \<Rightarrow> s\<lparr> keyArrowDown := True \<rparr>
      | ArrowLeft \<Rightarrow> s\<lparr> keyArrowLeft := True \<rparr>
      | ArrowRight \<Rightarrow> s\<lparr> keyArrowRight := True \<rparr>)"

definition handleKeyUp :: "key \<Rightarrow> state \<Rightarrow> state" where
  "handleKeyUp k s =
     (case k of ArrowUp \<Rightarrow> s\<lparr> keyArrowUp := False \<rparr>
      | ArrowDown \<Rightarrow> s\<lparr> keyArrowDown := False \<rparr>
      | ArrowLeft \<Rightarrow> s\<lparr> keyArrowLeft := False \<rparr>
      | ArrowRight \<Rightarrow> s\<lparr> keyArrowRight := False \<rparr>)"

text \<open>Clicking a notification icon marks that notification as seen (first click
  only) and records the click time.\<close>

definition markSeen :: "nat \<Rightarrow> real option \<Rightarrow> notification \<Rightarrow> notification" where
  "markSeen notifId clicked n =
     (if n_id n = notifId \<and> \<not> seen n
      then n\<lparr> seen := True, clickedSecond := clicked,
               reactionTime := (case (clicked, arrivalSecond n) of
                                  (Some c, Some a) \<Rightarrow> Some (c - a) | _ \<Rightarrow> None) \<rparr>
      else n)"

definition clickNotification :: "nat \<Rightarrow> int \<Rightarrow> state \<Rightarrow> state" where
  "clickNotification notifId now s =
     (let clicked = (if truthy (startTimeRef s) \<and> gameStartedRef s
                     then Some (real_of_int (now - the (startTimeRef s)) / 1000) else None)
      in s\<lparr> notificationsRef := map (markSeen notifId clicked) (notificationsRef s) \<rparr>)"

text \<open>The effects that mirror React state into refs after a render.\<close>

definition commitEffects :: "state \<Rightarrow> state" where
  "commitEffects s = s\<lparr> autopilotRef := isAutopilot s, isCompleteRef := isComplete s \<rparr>"

section \<open>Runs\<close>

text \<open>
  A run is the sequence of callbacks the host delivers.  Buttons act only while
  they are rendered: the start button while the instructions are shown, the
  autopilot button during a started, uncompleted run, a notification icon once
  the run has started and the notification is in the list.
\<close>

datatype event =
    ClickStart
  | CountdownGo int
  | KeyDown key
  | KeyUp key
  | ToggleAutopilot
  | ClickNotification nat int
  | TimerFire int
  | AnimationFrame real int
  | Commit
  | VisibilityChange bool int

fun step :: "state \<Rightarrow> event \<Rightarrow> state" where
  "step s ClickStart = (if showInstructions s then startGame s else s)"
| "step s (CountdownGo now) = (if countdownActive s then countdownGo now s else s)"
| "step s (KeyDown k) = handleKeyDown k s"
| "step s (KeyUp k) = handleKeyUp k s"
| "step s ToggleAutopilot =
     (if \<not> isComplete s \<and> gameStartedRef s then handleToggleAutopilot s else s)"
| "step s (ClickNotification notifId now) =
     (if gameStartedRef s \<and> notifId \<in> n_id ` set (notificationsRef s)
      then clickNotification notifId now s else s)"
| "step s (TimerFire now) = timerInterval now s"
| "step s (AnimationFrame perfNow now) = animate perfNow now s"
| "step s Commit = commitEffects s"
| "step s (VisibilityChange hidden now) = handleVisibilityChange hidden now s"

definition run :: "nat list \<Rightarrow> event list \<Rightarrow> state" where
  "run ids evs = foldl step (initialState ids) evs"


section \<open>Invariants and reference runs\<close>

text \<open>The mode-by-unit log is dense and ends at the last logged unit.\<close>

definition unitLogInv :: "state \<Rightarrow> bool" where
  "unitLogInv s =
     (- 1 \<le> lastDistanceUnitLoggedRef s \<and> lastDistanceUnitLoggedRef s \<le> TRACK_LENGTH
      \<and> int (length (modeByUnit (simulationDataRef s))) = lastDistanceUnitLoggedRef s + 1
      \<and> None \<notin> set (modeByUnit (simulationDataRef s))
      \<and> (isComplete s \<longrightarrow> lastDistanceUnitLoggedRef s = TRACK_LENGTH)
      \<and> (isComplete s \<longrightarrow> \<not> showInstructions s)
      \<and> (gameStartedRef s \<longrightarrow> \<not> showInstructions s)
      \<and> (countdownActive s \<longrightarrow> \<not> showInstructions s))"

text \<open>What holds of a completed run, and how the phases follow each other.\<close>

definition completionInv :: "state \<Rightarrow> bool" where
  "completionInv s =
     ((isComplete s \<longrightarrow> finishLineCrossed s \<and> allNotificationsSeen (notificationsRef s)
                        \<and> timerCleared s \<and> \<not> showInstructions s)
      \<and> (isCompleteRef s \<longrightarrow> isComplete s)
      \<and> (gameStartedRef s \<longrightarrow> \<not> showInstructions s)
      \<and> (countdownActive s \<longrightarrow> \<not> showInstructions s))"

text \<open>A started run under autopilot that has not reached the finish line.\<close>

definition cruising :: "int \<Rightarrow> state \<Rightarrow> bool" where
  "cruising now s =
     (gameStartedRef s \<and> autopilotRef s \<and> elapsedOf now s \<ge> 0 \<and> \<not> isCompleteRef s
      \<and> \<not> finishLineCrossed s \<and> \<not> isComplete s
      \<and> 0 \<le> carVelocity s \<and> finishLineZ < posZ (carGroup s))"

text \<open>Two runs in which the host is suspended for fifty minutes between two
  animation callbacks: in the first no timer callback ever ran, in the second
  one notification arrived and was read before the suspension.\<close>

definition suspendedRun :: "event list" where
  "suspendedRun =
     [ClickStart, CountdownGo 1000, AnimationFrame 0 1000, AnimationFrame 3000000 3001000]"



text \<open>The lateral offset and the lane target stay between the outer lane centres.\<close>

definition laneInv :: "state \<Rightarrow> bool" where
  "laneInv s = (- 2 \<le> carLaneOffset s \<and> carLaneOffset s \<le> 2
                \<and> - 2 \<le> targetLane s \<and> targetLane s \<le> 2 \<and> currentLaneIndex s < 3)"

subsection \<open>Lateral update of the drifting autopilot\<close>




section \<open>Frame lemmas\<close>

text \<open>Which parts of the state each stage of the step leaves unchanged.\<close>

lemma ensureModeByUnitComplete_unchanged [simp]:
  "showInstructions (ensureModeByUnitComplete s) = showInstructions s"
  "countdownActive (ensureModeByUnitComplete s) = countdownActive s"
  "isAutopilot (ensureModeByUnitComplete s) = isAutopilot s"
  "isComplete (ensureModeByUnitComplete s) = isComplete s"
  "isCompleteRef (ensureModeByUnitComplete s) = isCompleteRef s"
  "gameStartedRef (ensureModeByUnitComplete s) = gameStartedRef s"
  "startTimeRef (ensureModeByUnitComplete s) = startTimeRef s"
  "autopilotRef (ensureModeByUnitComplete s) = autopilotRef s"
  "autopilotPendingRef (ensureModeByUnitComplete s) = autopilotPendingRef s"
  "scoreRef (ensureModeByUnitComplete s) = scoreRef s"
  "failureLaneHitsRef (ensureModeByUnitComplete s) = failureLaneHitsRef s"
  "notificationsRef (ensureModeByUnitComplete s) = notificationsRef s"
  "showViewAllNotificationsPopup (ensureModeByUnitComplete s) = showViewAllNotificationsPopup s"
  "lastTabHiddenTimeRef (ensureModeByUnitComplete s) = lastTabHiddenTimeRef s"
  "carGroup (ensureModeByUnitComplete s) = carGroup s"
  "otherCars (ensureModeByUnitComplete s) = otherCars s"
  "finalBlocks (ensureModeByUnitComplete s) = finalBlocks s"
  "lastBlockSpawnZ (ensureModeByUnitComplete s) = lastBlockSpawnZ s"
  "lastLateBlockSpawnZ (ensureModeByUnitComplete s) = lastLateBlockSpawnZ s"
  "lastFinishBurstSpawnZ (ensureModeByUnitComplete s) = lastFinishBurstSpawnZ s"
  "blockSpawnCount (ensureModeByUnitComplete s) = blockSpawnCount s"
  "carVelocity (ensureModeByUnitComplete s) = carVelocity s"
  "carLaneOffset (ensureModeByUnitComplete s) = carLaneOffset s"
  "targetLane (ensureModeByUnitComplete s) = targetLane s"
  "currentLaneIndex (ensureModeByUnitComplete s) = currentLaneIndex s"
  "collisionCooldown (ensureModeByUnitComplete s) = collisionCooldown s"
  "wasAutopilot (ensureModeByUnitComplete s) = wasAutopilot s"
  "finishLineCrossed (ensureModeByUnitComplete s) = finishLineCrossed s"
  "finishLineCrossTime (ensureModeByUnitComplete s) = finishLineCrossTime s"
  "keyArrowUp (ensureModeByUnitComplete s) = keyArrowUp s"
  "keyArrowDown (ensureModeByUnitComplete s) = keyArrowDown s"
  "keyArrowLeft (ensureModeByUnitComplete s) = keyArrowLeft s"
  "keyArrowRight (ensureModeByUnitComplete s) = keyArrowRight s"
  "lastScoreDeduction (ensureModeByUnitComplete s) = lastScoreDeduction s"
  "lastSecondLogged (ensureModeByUnitComplete s) = lastSecondLogged s"
  "notificationsShown (ensureModeByUnitComplete s) = notificationsShown s"
  "shuffledIds (ensureModeByUnitComplete s) = shuffledIds s"
  "timerCleared (ensureModeByUnitComplete s) = timerCleared s"
  "autopilotTimer (ensureModeByUnitComplete s) = autopilotTimer s"
  "autopilotDecisionLane (ensureModeByUnitComplete s) = autopilotDecisionLane s"
  "frameCount (ensureModeByUnitComplete s) = frameCount s"
  "lastAnimationTime (ensureModeByUnitComplete s) = lastAnimationTime s"
  by (simp_all add: ensureModeByUnitComplete_def Let_def)

lemma logModeByUnit_unchanged [simp]:
  "showInstructions (logModeByUnit s) = showInstructions s"
  "countdownActive (logModeByUnit s) = countdownActive s"
  "isAutopilot (logModeByUnit s) = isAutopilot s"
  "isComplete (logModeByUnit s) = isComplete s"
  "isCompleteRef (logModeByUnit s) = isCompleteRef s"
  "gameStartedRef (logModeByUnit s) = gameStartedRef s"
  "startTimeRef (logModeByUnit s) = startTimeRef s"
  "autopilotRef (logModeByUnit s) = autopilotRef s"
  "autopilotPendingRef (logModeByUnit s) = autopilotPendingRef s"
  "scoreRef (logModeByUnit s) = scoreRef s"
  "failureLaneHitsRef (logModeByUnit s) = failureLaneHitsRef s"
  "notificationsRef (logModeByUnit s) = notificationsRef s"
  "showViewAllNotificationsPopup (logModeByUnit s) = showViewAllNotificationsPopup s"
  "lastTabHiddenTimeRef (logModeByUnit s) = lastTabHiddenTimeRef s"
  "carGroup (logModeByUnit s) = carGroup s"
  "otherCars (logModeByUnit s) = otherCars s"
  "finalBlocks (logModeByUnit s) = finalBlocks s"
  "lastBlockSpawnZ (logModeByUnit s) = lastBlockSpawnZ s"
  "lastLateBlockSpawnZ (logModeByUnit s) = lastLateBlockSpawnZ s"
  "lastFinishBurstSpawnZ (logModeByUnit s) = lastFinishBurstSpawnZ s"
  "blockSpawnCount (logModeByUnit s) = blockSpawnCount s"
  "carVelocity (logModeByUnit s) = carVelocity s"
  "carLaneOffset (logModeByUnit s) = carLaneOffset s"
  "targetLane (logModeByUnit s) = targetLane s"
  "currentLaneIndex (logModeByUnit s) = currentLaneIndex s"
  "collisionCooldown (logModeByUnit s) = collisionCooldown s"
  "wasAutopilot (logModeByUnit s) = wasAutopilot s"
  "finishLineCrossed (logModeByUnit s) = finishLineCrossed s"
  "finishLineCrossTime (logModeByUnit s) = finishLineCrossTime s"
  "keyArrowUp (logModeByUnit s) = keyArrowUp s"
  "keyArrowDown (logModeByUnit s) = keyArrowDown s"
  "keyArrowLeft (logModeByUnit s) = keyArrowLeft s"
  "keyArrowRight (logModeByUnit s) = keyArrowRight s"
  "lastScoreDeduction (logModeByUnit s) = lastScoreDeduction s"
  "lastSecondLogged (logModeByUnit s) = lastSecondLogged s"
  "notificationsShown (logModeByUnit s) = notificationsShown s"
  "shuffledIds (logModeByUnit s) = shuffledIds s"
  "timerCleared (logModeByUnit s) = timerCleared s"
  "autopilotTimer (logModeByUnit s) = autopilotTimer s"
  "autopilotDecisionLane (logModeByUnit s) = autopilotDecisionLane s"
  "frameCount (logModeByUnit s) = frameCount s"
  "lastAnimationTime (logModeByUnit s) = lastAnimationTime s"
  by (simp_all add: logModeByUnit_def Let_def)

lemma cleanupAfterFinish_unchanged [simp]:
  "showInstructions (cleanupAfterFinish s) = showInstructions s"
  "countdownActive (cleanupAfterFinish s) = countdownActive s"
  "isAutopilot (cleanupAfterFinish s) = isAutopilot s"
  "isComplete (cleanupAfterFinish s) = isComplete s"
  "isCompleteRef (cleanupAfterFinish s) = isCompleteRef s"
  "gameStartedRef (cleanupAfterFinish s) = gameStartedRef s"
  "startTimeRef (cleanupAfterFinish s) = startTimeRef s"
  "autopilotRef (cleanupAfterFinish s) = autopilotRef s"
  "autopilotPendingRef (cleanupAfterFinish s) = autopilotPendingRef s"
  "scoreRef (cleanupAfterFinish s) = scoreRef s"
  "failureLaneHitsRef (cleanupAfterFinish s) = failureLaneHitsRef s"
  "lastDistanceUnitLoggedRef (cleanupAfterFinish s) = lastDistanceUnitLoggedRef s"
  "notificationsRef (cleanupAfterFinish s) = notificationsRef s"
  "showViewAllNotificationsPopup (cleanupAfterFinish s) = showViewAllNotificationsPopup s"
  "lastTabHiddenTimeRef (cleanupAfterFinish s) = lastTabHiddenTimeRef s"
  "carGroup (cleanupAfterFinish s) = carGroup s"
  "otherCars (cleanupAfterFinish s) = otherCars s"
  "lastBlockSpawnZ (cleanupAfterFinish s) = lastBlockSpawnZ s"
  "lastLateBlockSpawnZ (cleanupAfterFinish s) = lastLateBlockSpawnZ s"
  "lastFinishBurstSpawnZ (cleanupAfterFinish s) = lastFinishBurstSpawnZ s"
  "blockSpawnCount (cleanupAfterFinish s) = blockSpawnCount s"
  "carVelocity (cleanupAfterFinish s) = carVelocity s"
  "carLaneOffset (cleanupAfterFinish s) = carLaneOffset s"
  "targetLane (cleanupAfterFinish s) = targetLane s"
  "currentLaneIndex (cleanupAfterFinish s) = currentLaneIndex s"
  "collisionCooldown (cleanupAfterFinish s) = collisionCooldown s"
  "wasAutopilot (cleanupAfterFinish s) = wasAutopilot s"
  "finishLineCrossed (cleanupAfterFinish s) = finishLineCrossed s"
  "finishLineCrossTime (cleanupAfterFinish s) = finishLineCrossTime s"
  "keyArrowUp (cleanupAfterFinish s) = keyArrowUp s"
  "keyArrowDown (cleanupAfterFinish s) = keyArrowDown s"
  "keyArrowLeft (cleanupAfterFinish s) = keyArrowLeft s"
  "keyArrowRight (cleanupAfterFinish s) = keyArrowRight s"
  "lastScoreDeduction (cleanupAfterFinish s) = lastScoreDeduction s"
  "lastSecondLogged (cleanupAfterFinish s) = lastSecondLogged s"
  "notificationsShown (cleanupAfterFinish s) = notificationsShown s"
  "shuffledIds (cleanupAfterFinish s) = shuffledIds s"
  "timerCleared (cleanupAfterFinish s) = timerCleared s"
  "autopilotTimer (cleanupAfterFinish s) = autopilotTimer s"
  "autopilotDecisionLane (cleanupAfterFinish s) = autopilotDecisionLane s"
  "frameCount (cleanupAfterFinish s) = frameCount s"
  "lastAnimationTime (cleanupAfterFinish s) = lastAnimationTime s"
  by (simp_all add: cleanupAfterFinish_def)

lemma spawnEarly_unchanged [simp]:
  "showInstructions (spawnEarly s) = showInstructions s"
  "countdownActive (spawnEarly s) = countdownActive s"
  "isAutopilot (spawnEarly s) = isAutopilot s"
  "isComplete (spawnEarly s) = isComplete s"
  "isCompleteRef (spawnEarly s) = isCompleteRef s"
  "gameStartedRef (spawnEarly s) = gameStartedRef s"
  "startTimeRef (spawnEarly s) = startTimeRef s"
  "autopilotRef (spawnEarly s) = autopilotRef s"
  "autopilotPendingRef (spawnEarly s) = autopilotPendingRef s"
  "scoreRef (spawnEarly s) = scoreRef s"
  "failureLaneHitsRef (spawnEarly s) = failureLaneHitsRef s"
  "lastDistanceUnitLoggedRef (spawnEarly s) = lastDistanceUnitLoggedRef s"
  "notificationsRef (spawnEarly s) = notificationsRef s"
  "showViewAllNotificationsPopup (spawnEarly s) = showViewAllNotificationsPopup s"
  "lastTabHiddenTimeRef (spawnEarly s) = lastTabHiddenTimeRef s"
  "simulationDataRef (spawnEarly s) = simulationDataRef s"
  "carGroup (spawnEarly s) = carGroup s"
  "otherCars (spawnEarly s) = otherCars s"
  "lastLateBlockSpawnZ (spawnEarly s) = lastLateBlockSpawnZ s"
  "lastFinishBurstSpawnZ (spawnEarly s) = lastFinishBurstSpawnZ s"
  "carVelocity (spawnEarly s) = carVelocity s"
  "carLaneOffset (spawnEarly s) = carLaneOffset s"
  "targetLane (spawnEarly s) = targetLane s"
  "currentLaneIndex (spawnEarly s) = currentLaneIndex s"
  "collisionCooldown (spawnEarly s) = collisionCooldown s"
  "wasAutopilot (spawnEarly s) = wasAutopilot s"
  "finishLineCrossed (spawnEarly s) = finishLineCrossed s"
  "finishLineCrossTime (spawnEarly s) = finishLineCrossTime s"
  "keyArrowUp (spawnEarly s) = keyArrowUp s"
  "keyArrowDown (spawnEarly s) = keyArrowDown s"
  "keyArrowLeft (spawnEarly s) = keyArrowLeft s"
  "keyArrowRight (spawnEarly s) = keyArrowRight s"
  "lastScoreDeduction (spawnEarly s) = lastScoreDeduction s"
  "lastSecondLogged (spawnEarly s) = lastSecondLogged s"
  "notificationsShown (spawnEarly s) = notificationsShown s"
  "shuffledIds (spawnEarly s) = shuffledIds s"
  "timerCleared (spawnEarly s) = timerCleared s"
  "autopilotTimer (spawnEarly s) = autopilotTimer s"
  "autopilotDecisionLane (spawnEarly s) = autopilotDecisionLane s"
  "frameCount (spawnEarly s) = frameCount s"
  "lastAnimationTime (spawnEarly s) = lastAnimationTime s"
  by (simp_all add: spawnEarly_def Let_def)

lemma spawnLate_unchanged [simp]:
  "showInstructions (spawnLate s) = showInstructions s"
  "countdownActive (spawnLate s) = countdownActive s"
  "isAutopilot (spawnLate s) = isAutopilot s"
  "isComplete (spawnLate s) = isComplete s"
  "isCompleteRef (spawnLate s) = isCompleteRef s"
  "gameStartedRef (spawnLate s) = gameStartedRef s"
  "startTimeRef (spawnLate s) = startTimeRef s"
  "autopilotRef (spawnLate s) = autopilotRef s"
  "autopilotPendingRef (spawnLate s) = autopilotPendingRef s"
  "scoreRef (spawnLate s) = scoreRef s"
  "failureLaneHitsRef (spawnLate s) = failureLaneHitsRef s"
  "lastDistanceUnitLoggedRef (spawnLate s) = lastDistanceUnitLoggedRef s"
  "notificationsRef (spawnLate s) = notificationsRef s"
  "showViewAllNotificationsPopup (spawnLate s) = showViewAllNotificationsPopup s"
  "lastTabHiddenTimeRef (spawnLate s) = lastTabHiddenTimeRef s"
  "simulationDataRef (spawnLate s) = simulationDataRef s"
  "carGroup (spawnLate s) = carGroup s"
  "otherCars (spawnLate s) = otherCars s"
  "lastBlockSpawnZ (spawnLate s) = lastBlockSpawnZ s"
  "lastFinishBurstSpawnZ (spawnLate s) = lastFinishBurstSpawnZ s"
  "carVelocity (spawnLate s) = carVelocity s"
  "carLaneOffset (spawnLate s) = carLaneOffset s"
  "targetLane (spawnLate s) = targetLane s"
  "currentLaneIndex (spawnLate s) = currentLaneIndex s"
  "collisionCooldown (spawnLate s) = collisionCooldown s"
  "wasAutopilot (spawnLate s) = wasAutopilot s"
  "finishLineCrossed (spawnLate s) = finishLineCrossed s"
  "finishLineCrossTime (spawnLate s) = finishLineCrossTime s"
  "keyArrowUp (spawnLate s) = keyArrowUp s"
  "keyArrowDown (spawnLate s) = keyArrowDown s"
  "keyArrowLeft (spawnLate s) = keyArrowLeft s"
  "keyArrowRight (spawnLate s) = keyArrowRight s"
  "lastScoreDeduction (spawnLate s) = lastScoreDeduction s"
  "lastSecondLogged (spawnLate s) = lastSecondLogged s"
  "notificationsShown (spawnLate s) = notificationsShown s"
  "shuffledIds (spawnLate s) = shuffledIds s"
  "timerCleared (spawnLate s) = timerCleared s"
  "autopilotTimer (spawnLate s) = autopilotTimer s"
  "autopilotDecisionLane (spawnLate s) = autopilotDecisionLane s"
  "frameCount (spawnLate s) = frameCount s"
  "lastAnimationTime (spawnLate s) = lastAnimationTime s"
  by (simp_all add: spawnLate_def Let_def)

lemma spawnFinishBurst_unchanged [simp]:
  "showInstructions (spawnFinishBurst s) = showInstructions s"
  "countdownActive (spawnFinishBurst s) = countdownActive s"
  "isAutopilot (spawnFinishBurst s) = isAutopilot s"
  "isComplete (spawnFinishBurst s) = isComplete s"
  "isCompleteRef (spawnFinishBurst s) = isCompleteRef s"
  "gameStartedRef (spawnFinishBurst s) = gameStartedRef s"
  "startTimeRef (spawnFinishBurst s) = startTimeRef s"
  "autopilotRef (spawnFinishBurst s) = autopilotRef s"
  "autopilotPendingRef (spawnFinishBurst s) = autopilotPendingRef s"
  "scoreRef (spawnFinishBurst s) = scoreRef s"
  "failureLaneHitsRef (spawnFinishBurst s) = failureLaneHitsRef s"
  "lastDistanceUnitLoggedRef (spawnFinishBurst s) = lastDistanceUnitLoggedRef s"
  "notificationsRef (spawnFinishBurst s) = notificationsRef s"
  "showViewAllNotificationsPopup (spawnFinishBurst s) = showViewAllNotificationsPopup s"
  "lastTabHiddenTimeRef (spawnFinishBurst s) = lastTabHiddenTimeRef s"
  "simulationDataRef (spawnFinishBurst s) = simulationDataRef s"
  "carGroup (spawnFinishBurst s) = carGroup s"
  "otherCars (spawnFinishBurst s) = otherCars s"
  "lastBlockSpawnZ (spawnFinishBurst s) = lastBlockSpawnZ s"
  "lastLateBlockSpawnZ (spawnFinishBurst s) = lastLateBlockSpawnZ s"
  "carVelocity (spawnFinishBurst s) = carVelocity s"
  "carLaneOffset (spawnFinishBurst s) = carLaneOffset s"
  "targetLane (spawnFinishBurst s) = targetLane s"
  "currentLaneIndex (spawnFinishBurst s) = currentLaneIndex s"
  "collisionCooldown (spawnFinishBurst s) = collisionCooldown s"
  "wasAutopilot (spawnFinishBurst s) = wasAutopilot s"
  "finishLineCrossed (spawnFinishBurst s) = finishLineCrossed s"
  "finishLineCrossTime (spawnFinishBurst s) = finishLineCrossTime s"
  "keyArrowUp (spawnFinishBurst s) = keyArrowUp s"
  "keyArrowDown (spawnFinishBurst s) = keyArrowDown s"
  "keyArrowLeft (spawnFinishBurst s) = keyArrowLeft s"
  "keyArrowRight (spawnFinishBurst s) = keyArrowRight s"
  "lastScoreDeduction (spawnFinishBurst s) = lastScoreDeduction s"
  "lastSecondLogged (spawnFinishBurst s) = lastSecondLogged s"
  "notificationsShown (spawnFinishBurst s) = notificationsShown s"
  "shuffledIds (spawnFinishBurst s) = shuffledIds s"
  "timerCleared (spawnFinishBurst s) = timerCleared s"
  "autopilotTimer (spawnFinishBurst s) = autopilotTimer s"
  "autopilotDecisionLane (spawnFinishBurst s) = autopilotDecisionLane s"
  "frameCount (spawnFinishBurst s) = frameCount s"
  "lastAnimationTime (spawnFinishBurst s) = lastAnimationTime s"
  by (simp_all add: spawnFinishBurst_def Let_def)

lemma spawnBlocks_unchanged [simp]:
  "showInstructions (spawnBlocks e s) = showInstructions s"
  "countdownActive (spawnBlocks e s) = countdownActive s"
  "isAutopilot (spawnBlocks e s) = isAutopilot s"
  "isComplete (spawnBlocks e s) = isComplete s"
  "isCompleteRef (spawnBlocks e s) = isCompleteRef s"
  "gameStartedRef (spawnBlocks e s) = gameStartedRef s"
  "startTimeRef (spawnBlocks e s) = startTimeRef s"
  "autopilotRef (spawnBlocks e s) = autopilotRef s"
  "autopilotPendingRef (spawnBlocks e s) = autopilotPendingRef s"
  "scoreRef (spawnBlocks e s) = scoreRef s"
  "failureLaneHitsRef (spawnBlocks e s) = failureLaneHitsRef s"
  "lastDistanceUnitLoggedRef (spawnBlocks e s) = lastDistanceUnitLoggedRef s"
  "notificationsRef (spawnBlocks e s) = notificationsRef s"
  "showViewAllNotificationsPopup (spawnBlocks e s) = showViewAllNotificationsPopup s"
  "lastTabHiddenTimeRef (spawnBlocks e s) = lastTabHiddenTimeRef s"
  "simulationDataRef (spawnBlocks e s) = simulationDataRef s"
  "carGroup (spawnBlocks e s) = carGroup s"
  "otherCars (spawnBlocks e s) = otherCars s"
  "carVelocity (spawnBlocks e s) = carVelocity s"
  "carLaneOffset (spawnBlocks e s) = carLaneOffset s"
  "targetLane (spawnBlocks e s) = targetLane s"
  "currentLaneIndex (spawnBlocks e s) = currentLaneIndex s"
  "collisionCooldown (spawnBlocks e s) = collisionCooldown s"
  "wasAutopilot (spawnBlocks e s) = wasAutopilot s"
  "finishLineCrossed (spawnBlocks e s) = finishLineCrossed s"
  "finishLineCrossTime (spawnBlocks e s) = finishLineCrossTime s"
  "keyArrowUp (spawnBlocks e s) = keyArrowUp s"
  "keyArrowDown (spawnBlocks e s) = keyArrowDown s"
  "keyArrowLeft (spawnBlocks e s) = keyArrowLeft s"
  "keyArrowRight (spawnBlocks e s) = keyArrowRight s"
  "lastScoreDeduction (spawnBlocks e s) = lastScoreDeduction s"
  "lastSecondLogged (spawnBlocks e s) = lastSecondLogged s"
  "notificationsShown (spawnBlocks e s) = notificationsShown s"
  "shuffledIds (spawnBlocks e s) = shuffledIds s"
  "timerCleared (spawnBlocks e s) = timerCleared s"
  "autopilotTimer (spawnBlocks e s) = autopilotTimer s"
  "autopilotDecisionLane (spawnBlocks e s) = autopilotDecisionLane s"
  "frameCount (spawnBlocks e s) = frameCount s"
  "lastAnimationTime (spawnBlocks e s) = lastAnimationTime s"
  by (simp_all add: spawnBlocks_def Let_def)

lemma autopilotPendingLogic_unchanged [simp]:
  "showInstructions (autopilotPendingLogic e s) = showInstructions s"
  "countdownActive (autopilotPendingLogic e s) = countdownActive s"
  "isComplete (autopilotPendingLogic e s) = isComplete s"
  "isCompleteRef (autopilotPendingLogic e s) = isCompleteRef s"
  "gameStartedRef (autopilotPendingLogic e s) = gameStartedRef s"
  "startTimeRef (autopilotPendingLogic e s) = startTimeRef s"
  "autopilotRef (autopilotPendingLogic e s) = autopilotRef s"
  "scoreRef (autopilotPendingLogic e s) = scoreRef s"
  "failureLaneHitsRef (autopilotPendingLogic e s) = failureLaneHitsRef s"
  "lastDistanceUnitLoggedRef (autopilotPendingLogic e s) = lastDistanceUnitLoggedRef s"
  "notificationsRef (autopilotPendingLogic e s) = notificationsRef s"
  "showViewAllNotificationsPopup (autopilotPendingLogic e s) = showViewAllNotificationsPopup s"
  "lastTabHiddenTimeRef (autopilotPendingLogic e s) = lastTabHiddenTimeRef s"
  "simulationDataRef (autopilotPendingLogic e s) = simulationDataRef s"
  "carGroup (autopilotPendingLogic e s) = carGroup s"
  "otherCars (autopilotPendingLogic e s) = otherCars s"
  "finalBlocks (autopilotPendingLogic e s) = finalBlocks s"
  "lastBlockSpawnZ (autopilotPendingLogic e s) = lastBlockSpawnZ s"
  "lastLateBlockSpawnZ (autopilotPendingLogic e s) = lastLateBlockSpawnZ s"
  "lastFinishBurstSpawnZ (autopilotPendingLogic e s) = lastFinishBurstSpawnZ s"
  "blockSpawnCount (autopilotPendingLogic e s) = blockSpawnCount s"
  "carVelocity (autopilotPendingLogic e s) = carVelocity s"
  "carLaneOffset (autopilotPendingLogic e s) = carLaneOffset s"
  "targetLane (autopilotPendingLogic e s) = targetLane s"
  "currentLaneIndex (autopilotPendingLogic e s) = currentLaneIndex s"
  "collisionCooldown (autopilotPendingLogic e s) = collisionCooldown s"
  "wasAutopilot (autopilotPendingLogic e s) = wasAutopilot s"
  "finishLineCrossed (autopilotPendingLogic e s) = finishLineCrossed s"
  "finishLineCrossTime (autopilotPendingLogic e s) = finishLineCrossTime s"
  "keyArrowUp (autopilotPendingLogic e s) = keyArrowUp s"
  "keyArrowDown (autopilotPendingLogic e s) = keyArrowDown s"
  "keyArrowLeft (autopilotPendingLogic e s) = keyArrowLeft s"
  "keyArrowRight (autopilotPendingLogic e s) = keyArrowRight s"
  "lastScoreDeduction (autopilotPendingLogic e s) = lastScoreDeduction s"
  "lastSecondLogged (autopilotPendingLogic e s) = lastSecondLogged s"
  "notificationsShown (autopilotPendingLogic e s) = notificationsShown s"
  "shuffledIds (autopilotPendingLogic e s) = shuffledIds s"
  "timerCleared (autopilotPendingLogic e s) = timerCleared s"
  "autopilotTimer (autopilotPendingLogic e s) = autopilotTimer s"
  "autopilotDecisionLane (autopilotPendingLogic e s) = autopilotDecisionLane s"
  "frameCount (autopilotPendingLogic e s) = frameCount s"
  "lastAnimationTime (autopilotPendingLogic e s) = lastAnimationTime s"
  by (simp_all add: autopilotPendingLogic_def Let_def)

lemma autopilotControl_unchanged [simp]:
  "showInstructions (autopilotControl s) = showInstructions s"
  "countdownActive (autopilotControl s) = countdownActive s"
  "isAutopilot (autopilotControl s) = isAutopilot s"
  "isComplete (autopilotControl s) = isComplete s"
  "isCompleteRef (autopilotControl s) = isCompleteRef s"
  "gameStartedRef (autopilotControl s) = gameStartedRef s"
  "startTimeRef (autopilotControl s) = startTimeRef s"
  "autopilotRef (autopilotControl s) = autopilotRef s"
  "autopilotPendingRef (autopilotControl s) = autopilotPendingRef s"
  "scoreRef (autopilotControl s) = scoreRef s"
  "failureLaneHitsRef (autopilotControl s) = failureLaneHitsRef s"
  "lastDistanceUnitLoggedRef (autopilotControl s) = lastDistanceUnitLoggedRef s"
  "notificationsRef (autopilotControl s) = notificationsRef s"
  "showViewAllNotificationsPopup (autopilotControl s) = showViewAllNotificationsPopup s"
  "lastTabHiddenTimeRef (autopilotControl s) = lastTabHiddenTimeRef s"
  "simulationDataRef (autopilotControl s) = simulationDataRef s"
  "carGroup (autopilotControl s) = carGroup s"
  "otherCars (autopilotControl s) = otherCars s"
  "finalBlocks (autopilotControl s) = finalBlocks s"
  "lastBlockSpawnZ (autopilotControl s) = lastBlockSpawnZ s"
  "lastLateBlockSpawnZ (autopilotControl s) = lastLateBlockSpawnZ s"
  "lastFinishBurstSpawnZ (autopilotControl s) = lastFinishBurstSpawnZ s"
  "blockSpawnCount (autopilotControl s) = blockSpawnCount s"
  "carLaneOffset (autopilotControl s) = carLaneOffset s"
  "collisionCooldown (autopilotControl s) = collisionCooldown s"
  "finishLineCrossed (autopilotControl s) = finishLineCrossed s"
  "finishLineCrossTime (autopilotControl s) = finishLineCrossTime s"
  "keyArrowUp (autopilotControl s) = keyArrowUp s"
  "keyArrowDown (autopilotControl s) = keyArrowDown s"
  "keyArrowLeft (autopilotControl s) = keyArrowLeft s"
  "keyArrowRight (autopilotControl s) = keyArrowRight s"
  "lastScoreDeduction (autopilotControl s) = lastScoreDeduction s"
  "lastSecondLogged (autopilotControl s) = lastSecondLogged s"
  "notificationsShown (autopilotControl s) = notificationsShown s"
  "shuffledIds (autopilotControl s) = shuffledIds s"
  "timerCleared (autopilotControl s) = timerCleared s"
  "frameCount (autopilotControl s) = frameCount s"
  "lastAnimationTime (autopilotControl s) = lastAnimationTime s"
  by (simp_all add: autopilotControl_def Let_def)

lemma capSpeedOnSwitch_unchanged [simp]:
  "showInstructions (capSpeedOnSwitch s) = showInstructions s"
  "countdownActive (capSpeedOnSwitch s) = countdownActive s"
  "isAutopilot (capSpeedOnSwitch s) = isAutopilot s"
  "isComplete (capSpeedOnSwitch s) = isComplete s"
  "isCompleteRef (capSpeedOnSwitch s) = isCompleteRef s"
  "gameStartedRef (capSpeedOnSwitch s) = gameStartedRef s"
  "startTimeRef (capSpeedOnSwitch s) = startTimeRef s"
  "autopilotRef (capSpeedOnSwitch s) = autopilotRef s"
  "autopilotPendingRef (capSpeedOnSwitch s) = autopilotPendingRef s"
  "scoreRef (capSpeedOnSwitch s) = scoreRef s"
  "failureLaneHitsRef (capSpeedOnSwitch s) = failureLaneHitsRef s"
  "lastDistanceUnitLoggedRef (capSpeedOnSwitch s) = lastDistanceUnitLoggedRef s"
  "notificationsRef (capSpeedOnSwitch s) = notificationsRef s"
  "showViewAllNotificationsPopup (capSpeedOnSwitch s) = showViewAllNotificationsPopup s"
  "lastTabHiddenTimeRef (capSpeedOnSwitch s) = lastTabHiddenTimeRef s"
  "simulationDataRef (capSpeedOnSwitch s) = simulationDataRef s"
  "carGroup (capSpeedOnSwitch s) = carGroup s"
  "otherCars (capSpeedOnSwitch s) = otherCars s"
  "finalBlocks (capSpeedOnSwitch s) = finalBlocks s"
  "lastBlockSpawnZ (capSpeedOnSwitch s) = lastBlockSpawnZ s"
  "lastLateBlockSpawnZ (capSpeedOnSwitch s) = lastLateBlockSpawnZ s"
  "lastFinishBurstSpawnZ (capSpeedOnSwitch s) = lastFinishBurstSpawnZ s"
  "blockSpawnCount (capSpeedOnSwitch s) = blockSpawnCount s"
  "carLaneOffset (capSpeedOnSwitch s) = carLaneOffset s"
  "targetLane (capSpeedOnSwitch s) = targetLane s"
  "currentLaneIndex (capSpeedOnSwitch s) = currentLaneIndex s"
  "collisionCooldown (capSpeedOnSwitch s) = collisionCooldown s"
  "finishLineCrossed (capSpeedOnSwitch s) = finishLineCrossed s"
  "finishLineCrossTime (capSpeedOnSwitch s) = finishLineCrossTime s"
  "keyArrowUp (capSpeedOnSwitch s) = keyArrowUp s"
  "keyArrowDown (capSpeedOnSwitch s) = keyArrowDown s"
  "keyArrowLeft (capSpeedOnSwitch s) = keyArrowLeft s"
  "keyArrowRight (capSpeedOnSwitch s) = keyArrowRight s"
  "lastScoreDeduction (capSpeedOnSwitch s) = lastScoreDeduction s"
  "lastSecondLogged (capSpeedOnSwitch s) = lastSecondLogged s"
  "notificationsShown (capSpeedOnSwitch s) = notificationsShown s"
  "shuffledIds (capSpeedOnSwitch s) = shuffledIds s"
  "timerCleared (capSpeedOnSwitch s) = timerCleared s"
  "autopilotTimer (capSpeedOnSwitch s) = autopilotTimer s"
  "autopilotDecisionLane (capSpeedOnSwitch s) = autopilotDecisionLane s"
  "frameCount (capSpeedOnSwitch s) = frameCount s"
  "lastAnimationTime (capSpeedOnSwitch s) = lastAnimationTime s"
  by (simp_all add: capSpeedOnSwitch_def)

lemma autoAccelerate_unchanged [simp]:
  "showInstructions (autoAccelerate s) = showInstructions s"
  "countdownActive (autoAccelerate s) = countdownActive s"
  "isAutopilot (autoAccelerate s) = isAutopilot s"
  "isComplete (autoAccelerate s) = isComplete s"
  "isCompleteRef (autoAccelerate s) = isCompleteRef s"
  "gameStartedRef (autoAccelerate s) = gameStartedRef s"
  "startTimeRef (autoAccelerate s) = startTimeRef s"
  "autopilotRef (autoAccelerate s) = autopilotRef s"
  "autopilotPendingRef (autoAccelerate s) = autopilotPendingRef s"
  "scoreRef (autoAccelerate s) = scoreRef s"
  "failureLaneHitsRef (autoAccelerate s) = failureLaneHitsRef s"
  "lastDistanceUnitLoggedRef (autoAccelerate s) = lastDistanceUnitLoggedRef s"
  "notificationsRef (autoAccelerate s) = notificationsRef s"
  "showViewAllNotificationsPopup (autoAccelerate s) = showViewAllNotificationsPopup s"
  "lastTabHiddenTimeRef (autoAccelerate s) = lastTabHiddenTimeRef s"
  "simulationDataRef (autoAccelerate s) = simulationDataRef s"
  "carGroup (autoAccelerate s) = carGroup s"
  "otherCars (autoAccelerate s) = otherCars s"
  "finalBlocks (autoAccelerate s) = finalBlocks s"
  "lastBlockSpawnZ (autoAccelerate s) = lastBlockSpawnZ s"
  "lastLateBlockSpawnZ (autoAccelerate s) = lastLateBlockSpawnZ s"
  "lastFinishBurstSpawnZ (autoAccelerate s) = lastFinishBurstSpawnZ s"
  "blockSpawnCount (autoAccelerate s) = blockSpawnCount s"
  "carLaneOffset (autoAccelerate s) = carLaneOffset s"
  "targetLane (autoAccelerate s) = targetLane s"
  "currentLaneIndex (autoAccelerate s) = currentLaneIndex s"
  "collisionCooldown (autoAccelerate s) = collisionCooldown s"
  "wasAutopilot (autoAccelerate s) = wasAutopilot s"
  "finishLineCrossed (autoAccelerate s) = finishLineCrossed s"
  "finishLineCrossTime (autoAccelerate s) = finishLineCrossTime s"
  "keyArrowUp (autoAccelerate s) = keyArrowUp s"
  "keyArrowDown (autoAccelerate s) = keyArrowDown s"
  "keyArrowLeft (autoAccelerate s) = keyArrowLeft s"
  "keyArrowRight (autoAccelerate s) = keyArrowRight s"
  "lastScoreDeduction (autoAccelerate s) = lastScoreDeduction s"
  "lastSecondLogged (autoAccelerate s) = lastSecondLogged s"
  "notificationsShown (autoAccelerate s) = notificationsShown s"
  "shuffledIds (autoAccelerate s) = shuffledIds s"
  "timerCleared (autoAccelerate s) = timerCleared s"
  "autopilotTimer (autoAccelerate s) = autopilotTimer s"
  "autopilotDecisionLane (autoAccelerate s) = autopilotDecisionLane s"
  "frameCount (autoAccelerate s) = frameCount s"
  "lastAnimationTime (autoAccelerate s) = lastAnimationTime s"
  by (simp_all add: autoAccelerate_def)

lemma accelerateKey_unchanged [simp]:
  "showInstructions (accelerateKey s) = showInstructions s"
  "countdownActive (accelerateKey s) = countdownActive s"
  "isAutopilot (accelerateKey s) = isAutopilot s"
  "isComplete (accelerateKey s) = isComplete s"
  "isCompleteRef (accelerateKey s) = isCompleteRef s"
  "gameStartedRef (accelerateKey s) = gameStartedRef s"
  "startTimeRef (accelerateKey s) = startTimeRef s"
  "autopilotRef (accelerateKey s) = autopilotRef s"
  "autopilotPendingRef (accelerateKey s) = autopilotPendingRef s"
  "scoreRef (accelerateKey s) = scoreRef s"
  "failureLaneHitsRef (accelerateKey s) = failureLaneHitsRef s"
  "lastDistanceUnitLoggedRef (accelerateKey s) = lastDistanceUnitLoggedRef s"
  "notificationsRef (accelerateKey s) = notificationsRef s"
  "showViewAllNotificationsPopup (accelerateKey s) = showViewAllNotificationsPopup s"
  "lastTabHiddenTimeRef (accelerateKey s) = lastTabHiddenTimeRef s"
  "simulationDataRef (accelerateKey s) = simulationDataRef s"
  "carGroup (accelerateKey s) = carGroup s"
  "otherCars (accelerateKey s) = otherCars s"
  "finalBlocks (accelerateKey s) = finalBlocks s"
  "lastBlockSpawnZ (accelerateKey s) = lastBlockSpawnZ s"
  "lastLateBlockSpawnZ (accelerateKey s) = lastLateBlockSpawnZ s"
  "lastFinishBurstSpawnZ (accelerateKey s) = lastFinishBurstSpawnZ s"
  "blockSpawnCount (accelerateKey s) = blockSpawnCount s"
  "carLaneOffset (accelerateKey s) = carLaneOffset s"
  "targetLane (accelerateKey s) = targetLane s"
  "currentLaneIndex (accelerateKey s) = currentLaneIndex s"
  "collisionCooldown (accelerateKey s) = collisionCooldown s"
  "wasAutopilot (accelerateKey s) = wasAutopilot s"
  "finishLineCrossed (accelerateKey s) = finishLineCrossed s"
  "finishLineCrossTime (accelerateKey s) = finishLineCrossTime s"
  "keyArrowUp (accelerateKey s) = keyArrowUp s"
  "keyArrowDown (accelerateKey s) = keyArrowDown s"
  "keyArrowLeft (accelerateKey s) = keyArrowLeft s"
  "keyArrowRight (accelerateKey s) = keyArrowRight s"
  "lastScoreDeduction (accelerateKey s) = lastScoreDeduction s"
  "lastSecondLogged (accelerateKey s) = lastSecondLogged s"
  "notificationsShown (accelerateKey s) = notificationsShown s"
  "shuffledIds (accelerateKey s) = shuffledIds s"
  "timerCleared (accelerateKey s) = timerCleared s"
  "autopilotTimer (accelerateKey s) = autopilotTimer s"
  "autopilotDecisionLane (accelerateKey s) = autopilotDecisionLane s"
  "frameCount (accelerateKey s) = frameCount s"
  "lastAnimationTime (accelerateKey s) = lastAnimationTime s"
  by (simp_all add: accelerateKey_def)

lemma brakeKey_unchanged [simp]:
  "showInstructions (brakeKey s) = showInstructions s"
  "countdownActive (brakeKey s) = countdownActive s"
  "isAutopilot (brakeKey s) = isAutopilot s"
  "isComplete (brakeKey s) = isComplete s"
  "isCompleteRef (brakeKey s) = isCompleteRef s"
  "gameStartedRef (brakeKey s) = gameStartedRef s"
  "startTimeRef (brakeKey s) = startTimeRef s"
  "autopilotRef (brakeKey s) = autopilotRef s"
  "autopilotPendingRef (brakeKey s) = autopilotPendingRef s"
  "scoreRef (brakeKey s) = scoreRef s"
  "failureLaneHitsRef (brakeKey s) = failureLaneHitsRef s"
  "lastDistanceUnitLoggedRef (brakeKey s) = lastDistanceUnitLoggedRef s"
  "notificationsRef (brakeKey s) = notificationsRef s"
  "showViewAllNotificationsPopup (brakeKey s) = showViewAllNotificationsPopup s"
  "lastTabHiddenTimeRef (brakeKey s) = lastTabHiddenTimeRef s"
  "simulationDataRef (brakeKey s) = simulationDataRef s"
  "carGroup (brakeKey s) = carGroup s"
  "otherCars (brakeKey s) = otherCars s"
  "finalBlocks (brakeKey s) = finalBlocks s"
  "lastBlockSpawnZ (brakeKey s) = lastBlockSpawnZ s"
  "lastLateBlockSpawnZ (brakeKey s) = lastLateBlockSpawnZ s"
  "lastFinishBurstSpawnZ (brakeKey s) = lastFinishBurstSpawnZ s"
  "blockSpawnCount (brakeKey s) = blockSpawnCount s"
  "carLaneOffset (brakeKey s) = carLaneOffset s"
  "targetLane (brakeKey s) = targetLane s"
  "currentLaneIndex (brakeKey s) = currentLaneIndex s"
  "collisionCooldown (brakeKey s) = collisionCooldown s"
  "wasAutopilot (brakeKey s) = wasAutopilot s"
  "finishLineCrossed (brakeKey s) = finishLineCrossed s"
  "finishLineCrossTime (brakeKey s) = finishLineCrossTime s"
  "keyArrowUp (brakeKey s) = keyArrowUp s"
  "keyArrowDown (brakeKey s) = keyArrowDown s"
  "keyArrowLeft (brakeKey s) = keyArrowLeft s"
  "keyArrowRight (brakeKey s) = keyArrowRight s"
  "lastScoreDeduction (brakeKey s) = lastScoreDeduction s"
  "lastSecondLogged (brakeKey s) = lastSecondLogged s"
  "notificationsShown (brakeKey s) = notificationsShown s"
  "shuffledIds (brakeKey s) = shuffledIds s"
  "timerCleared (brakeKey s) = timerCleared s"
  "autopilotTimer (brakeKey s) = autopilotTimer s"
  "autopilotDecisionLane (brakeKey s) = autopilotDecisionLane s"
  "frameCount (brakeKey s) = frameCount s"
  "lastAnimationTime (brakeKey s) = lastAnimationTime s"
  by (simp_all add: brakeKey_def)

lemma laneLeftKey_unchanged [simp]:
  "showInstructions (laneLeftKey s) = showInstructions s"
  "countdownActive (laneLeftKey s) = countdownActive s"
  "isAutopilot (laneLeftKey s) = isAutopilot s"
  "isComplete (laneLeftKey s) = isComplete s"
  "isCompleteRef (laneLeftKey s) = isCompleteRef s"
  "gameStartedRef (laneLeftKey s) = gameStartedRef s"
  "startTimeRef (laneLeftKey s) = startTimeRef s"
  "autopilotRef (laneLeftKey s) = autopilotRef s"
  "autopilotPendingRef (laneLeftKey s) = autopilotPendingRef s"
  "scoreRef (laneLeftKey s) = scoreRef s"
  "failureLaneHitsRef (laneLeftKey s) = failureLaneHitsRef s"
  "lastDistanceUnitLoggedRef (laneLeftKey s) = lastDistanceUnitLoggedRef s"
  "notificationsRef (laneLeftKey s) = notificationsRef s"
  "showViewAllNotificationsPopup (laneLeftKey s) = showViewAllNotificationsPopup s"
  "lastTabHiddenTimeRef (laneLeftKey s) = lastTabHiddenTimeRef s"
  "simulationDataRef (laneLeftKey s) = simulationDataRef s"
  "carGroup (laneLeftKey s) = carGroup s"
  "otherCars (laneLeftKey s) = otherCars s"
  "finalBlocks (laneLeftKey s) = finalBlocks s"
  "lastBlockSpawnZ (laneLeftKey s) = lastBlockSpawnZ s"
  "lastLateBlockSpawnZ (laneLeftKey s) = lastLateBlockSpawnZ s"
  "lastFinishBurstSpawnZ (laneLeftKey s) = lastFinishBurstSpawnZ s"
  "blockSpawnCount (laneLeftKey s) = blockSpawnCount s"
  "carVelocity (laneLeftKey s) = carVelocity s"
  "carLaneOffset (laneLeftKey s) = carLaneOffset s"
  "collisionCooldown (laneLeftKey s) = collisionCooldown s"
  "wasAutopilot (laneLeftKey s) = wasAutopilot s"
  "finishLineCrossed (laneLeftKey s) = finishLineCrossed s"
  "finishLineCrossTime (laneLeftKey s) = finishLineCrossTime s"
  "keyArrowUp (laneLeftKey s) = keyArrowUp s"
  "keyArrowDown (laneLeftKey s) = keyArrowDown s"
  "keyArrowRight (laneLeftKey s) = keyArrowRight s"
  "lastScoreDeduction (laneLeftKey s) = lastScoreDeduction s"
  "lastSecondLogged (laneLeftKey s) = lastSecondLogged s"
  "notificationsShown (laneLeftKey s) = notificationsShown s"
  "shuffledIds (laneLeftKey s) = shuffledIds s"
  "timerCleared (laneLeftKey s) = timerCleared s"
  "autopilotTimer (laneLeftKey s) = autopilotTimer s"
  "autopilotDecisionLane (laneLeftKey s) = autopilotDecisionLane s"
  "frameCount (laneLeftKey s) = frameCount s"
  "lastAnimationTime (laneLeftKey s) = lastAnimationTime s"
  by (simp_all add: laneLeftKey_def)

lemma laneRightKey_unchanged [simp]:
  "showInstructions (laneRightKey s) = showInstructions s"
  "countdownActive (laneRightKey s) = countdownActive s"
  "isAutopilot (laneRightKey s) = isAutopilot s"
  "isComplete (laneRightKey s) = isComplete s"
  "isCompleteRef (laneRightKey s) = isCompleteRef s"
  "gameStartedRef (laneRightKey s) = gameStartedRef s"
  "startTimeRef (laneRightKey s) = startTimeRef s"
  "autopilotRef (laneRightKey s) = autopilotRef s"
  "autopilotPendingRef (laneRightKey s) = autopilotPendingRef s"
  "scoreRef (laneRightKey s) = scoreRef s"
  "failureLaneHitsRef (laneRightKey s) = failureLaneHitsRef s"
  "lastDistanceUnitLoggedRef (laneRightKey s) = lastDistanceUnitLoggedRef s"
  "notificationsRef (laneRightKey s) = notificationsRef s"
  "showViewAllNotificationsPopup (laneRightKey s) = showViewAllNotificationsPopup s"
  "lastTabHiddenTimeRef (laneRightKey s) = lastTabHiddenTimeRef s"
  "simulationDataRef (laneRightKey s) = simulationDataRef s"
  "carGroup (laneRightKey s) = carGroup s"
  "otherCars (laneRightKey s) = otherCars s"
  "finalBlocks (laneRightKey s) = finalBlocks s"
  "lastBlockSpawnZ (laneRightKey s) = lastBlockSpawnZ s"
  "lastLateBlockSpawnZ (laneRightKey s) = lastLateBlockSpawnZ s"
  "lastFinishBurstSpawnZ (laneRightKey s) = lastFinishBurstSpawnZ s"
  "blockSpawnCount (laneRightKey s) = blockSpawnCount s"
  "carVelocity (laneRightKey s) = carVelocity s"
  "carLaneOffset (laneRightKey s) = carLaneOffset s"
  "collisionCooldown (laneRightKey s) = collisionCooldown s"
  "wasAutopilot (laneRightKey s) = wasAutopilot s"
  "finishLineCrossed (laneRightKey s) = finishLineCrossed s"
  "finishLineCrossTime (laneRightKey s) = finishLineCrossTime s"
  "keyArrowUp (laneRightKey s) = keyArrowUp s"
  "keyArrowDown (laneRightKey s) = keyArrowDown s"
  "keyArrowLeft (laneRightKey s) = keyArrowLeft s"
  "lastScoreDeduction (laneRightKey s) = lastScoreDeduction s"
  "lastSecondLogged (laneRightKey s) = lastSecondLogged s"
  "notificationsShown (laneRightKey s) = notificationsShown s"
  "shuffledIds (laneRightKey s) = shuffledIds s"
  "timerCleared (laneRightKey s) = timerCleared s"
  "autopilotTimer (laneRightKey s) = autopilotTimer s"
  "autopilotDecisionLane (laneRightKey s) = autopilotDecisionLane s"
  "frameCount (laneRightKey s) = frameCount s"
  "lastAnimationTime (laneRightKey s) = lastAnimationTime s"
  by (simp_all add: laneRightKey_def)

lemma manualControl_unchanged [simp]:
  "showInstructions (manualControl s) = showInstructions s"
  "countdownActive (manualControl s) = countdownActive s"
  "isAutopilot (manualControl s) = isAutopilot s"
  "isComplete (manualControl s) = isComplete s"
  "isCompleteRef (manualControl s) = isCompleteRef s"
  "gameStartedRef (manualControl s) = gameStartedRef s"
  "startTimeRef (manualControl s) = startTimeRef s"
  "autopilotRef (manualControl s) = autopilotRef s"
  "autopilotPendingRef (manualControl s) = autopilotPendingRef s"
  "scoreRef (manualControl s) = scoreRef s"
  "failureLaneHitsRef (manualControl s) = failureLaneHitsRef s"
  "lastDistanceUnitLoggedRef (manualControl s) = lastDistanceUnitLoggedRef s"
  "notificationsRef (manualControl s) = notificationsRef s"
  "showViewAllNotificationsPopup (manualControl s) = showViewAllNotificationsPopup s"
  "lastTabHiddenTimeRef (manualControl s) = lastTabHiddenTimeRef s"
  "simulationDataRef (manualControl s) = simulationDataRef s"
  "carGroup (manualControl s) = carGroup s"
  "otherCars (manualControl s) = otherCars s"
  "finalBlocks (manualControl s) = finalBlocks s"
  "lastBlockSpawnZ (manualControl s) = lastBlockSpawnZ s"
  "lastLateBlockSpawnZ (manualControl s) = lastLateBlockSpawnZ s"
  "lastFinishBurstSpawnZ (manualControl s) = lastFinishBurstSpawnZ s"
  "blockSpawnCount (manualControl s) = blockSpawnCount s"
  "carLaneOffset (manualControl s) = carLaneOffset s"
  "collisionCooldown (manualControl s) = collisionCooldown s"
  "finishLineCrossed (manualControl s) = finishLineCrossed s"
  "finishLineCrossTime (manualControl s) = finishLineCrossTime s"
  "keyArrowUp (manualControl s) = keyArrowUp s"
  "keyArrowDown (manualControl s) = keyArrowDown s"
  "lastScoreDeduction (manualControl s) = lastScoreDeduction s"
  "lastSecondLogged (manualControl s) = lastSecondLogged s"
  "notificationsShown (manualControl s) = notificationsShown s"
  "shuffledIds (manualControl s) = shuffledIds s"
  "timerCleared (manualControl s) = timerCleared s"
  "autopilotTimer (manualControl s) = autopilotTimer s"
  "autopilotDecisionLane (manualControl s) = autopilotDecisionLane s"
  "frameCount (manualControl s) = frameCount s"
  "lastAnimationTime (manualControl s) = lastAnimationTime s"
  by (simp_all add: manualControl_def)

lemma controlCar_unchanged [simp]:
  "showInstructions (controlCar e s) = showInstructions s"
  "countdownActive (controlCar e s) = countdownActive s"
  "isAutopilot (controlCar e s) = isAutopilot s"
  "isComplete (controlCar e s) = isComplete s"
  "isCompleteRef (controlCar e s) = isCompleteRef s"
  "gameStartedRef (controlCar e s) = gameStartedRef s"
  "startTimeRef (controlCar e s) = startTimeRef s"
  "autopilotRef (controlCar e s) = autopilotRef s"
  "autopilotPendingRef (controlCar e s) = autopilotPendingRef s"
  "scoreRef (controlCar e s) = scoreRef s"
  "failureLaneHitsRef (controlCar e s) = failureLaneHitsRef s"
  "lastDistanceUnitLoggedRef (controlCar e s) = lastDistanceUnitLoggedRef s"
  "notificationsRef (controlCar e s) = notificationsRef s"
  "showViewAllNotificationsPopup (controlCar e s) = showViewAllNotificationsPopup s"
  "lastTabHiddenTimeRef (controlCar e s) = lastTabHiddenTimeRef s"
  "simulationDataRef (controlCar e s) = simulationDataRef s"
  "carGroup (controlCar e s) = carGroup s"
  "otherCars (controlCar e s) = otherCars s"
  "finalBlocks (controlCar e s) = finalBlocks s"
  "lastBlockSpawnZ (controlCar e s) = lastBlockSpawnZ s"
  "lastLateBlockSpawnZ (controlCar e s) = lastLateBlockSpawnZ s"
  "lastFinishBurstSpawnZ (controlCar e s) = lastFinishBurstSpawnZ s"
  "blockSpawnCount (controlCar e s) = blockSpawnCount s"
  "carLaneOffset (controlCar e s) = carLaneOffset s"
  "collisionCooldown (controlCar e s) = collisionCooldown s"
  "finishLineCrossed (controlCar e s) = finishLineCrossed s"
  "finishLineCrossTime (controlCar e s) = finishLineCrossTime s"
  "keyArrowUp (controlCar e s) = keyArrowUp s"
  "keyArrowDown (controlCar e s) = keyArrowDown s"
  "lastScoreDeduction (controlCar e s) = lastScoreDeduction s"
  "lastSecondLogged (controlCar e s) = lastSecondLogged s"
  "notificationsShown (controlCar e s) = notificationsShown s"
  "shuffledIds (controlCar e s) = shuffledIds s"
  "timerCleared (controlCar e s) = timerCleared s"
  "frameCount (controlCar e s) = frameCount s"
  "lastAnimationTime (controlCar e s) = lastAnimationTime s"
  by (simp_all add: controlCar_def)

lemma moveCar_unchanged [simp]:
  "showInstructions (moveCar s) = showInstructions s"
  "countdownActive (moveCar s) = countdownActive s"
  "isAutopilot (moveCar s) = isAutopilot s"
  "isComplete (moveCar s) = isComplete s"
  "isCompleteRef (moveCar s) = isCompleteRef s"
  "gameStartedRef (moveCar s) = gameStartedRef s"
  "startTimeRef (moveCar s) = startTimeRef s"
  "autopilotRef (moveCar s) = autopilotRef s"
  "autopilotPendingRef (moveCar s) = autopilotPendingRef s"
  "scoreRef (moveCar s) = scoreRef s"
  "failureLaneHitsRef (moveCar s) = failureLaneHitsRef s"
  "lastDistanceUnitLoggedRef (moveCar s) = lastDistanceUnitLoggedRef s"
  "notificationsRef (moveCar s) = notificationsRef s"
  "showViewAllNotificationsPopup (moveCar s) = showViewAllNotificationsPopup s"
  "lastTabHiddenTimeRef (moveCar s) = lastTabHiddenTimeRef s"
  "simulationDataRef (moveCar s) = simulationDataRef s"
  "otherCars (moveCar s) = otherCars s"
  "finalBlocks (moveCar s) = finalBlocks s"
  "lastBlockSpawnZ (moveCar s) = lastBlockSpawnZ s"
  "lastLateBlockSpawnZ (moveCar s) = lastLateBlockSpawnZ s"
  "lastFinishBurstSpawnZ (moveCar s) = lastFinishBurstSpawnZ s"
  "blockSpawnCount (moveCar s) = blockSpawnCount s"
  "carVelocity (moveCar s) = carVelocity s"
  "targetLane (moveCar s) = targetLane s"
  "currentLaneIndex (moveCar s) = currentLaneIndex s"
  "collisionCooldown (moveCar s) = collisionCooldown s"
  "wasAutopilot (moveCar s) = wasAutopilot s"
  "finishLineCrossed (moveCar s) = finishLineCrossed s"
  "finishLineCrossTime (moveCar s) = finishLineCrossTime s"
  "keyArrowUp (moveCar s) = keyArrowUp s"
  "keyArrowDown (moveCar s) = keyArrowDown s"
  "keyArrowLeft (moveCar s) = keyArrowLeft s"
  "keyArrowRight (moveCar s) = keyArrowRight s"
  "lastScoreDeduction (moveCar s) = lastScoreDeduction s"
  "lastSecondLogged (moveCar s) = lastSecondLogged s"
  "notificationsShown (moveCar s) = notificationsShown s"
  "shuffledIds (moveCar s) = shuffledIds s"
  "timerCleared (moveCar s) = timerCleared s"
  "autopilotTimer (moveCar s) = autopilotTimer s"
  "autopilotDecisionLane (moveCar s) = autopilotDecisionLane s"
  "frameCount (moveCar s) = frameCount s"
  "lastAnimationTime (moveCar s) = lastAnimationTime s"
  by (simp_all add: moveCar_def Let_def)

lemma registerTrafficHit_unchanged [simp]:
  "showInstructions (registerTrafficHit i c s) = showInstructions s"
  "countdownActive (registerTrafficHit i c s) = countdownActive s"
  "isAutopilot (registerTrafficHit i c s) = isAutopilot s"
  "isComplete (registerTrafficHit i c s) = isComplete s"
  "isCompleteRef (registerTrafficHit i c s) = isCompleteRef s"
  "gameStartedRef (registerTrafficHit i c s) = gameStartedRef s"
  "startTimeRef (registerTrafficHit i c s) = startTimeRef s"
  "autopilotRef (registerTrafficHit i c s) = autopilotRef s"
  "autopilotPendingRef (registerTrafficHit i c s) = autopilotPendingRef s"
  "failureLaneHitsRef (registerTrafficHit i c s) = failureLaneHitsRef s"
  "lastDistanceUnitLoggedRef (registerTrafficHit i c s) = lastDistanceUnitLoggedRef s"
  "notificationsRef (registerTrafficHit i c s) = notificationsRef s"
  "showViewAllNotificationsPopup (registerTrafficHit i c s) = showViewAllNotificationsPopup s"
  "lastTabHiddenTimeRef (registerTrafficHit i c s) = lastTabHiddenTimeRef s"
  "carGroup (registerTrafficHit i c s) = carGroup s"
  "otherCars (registerTrafficHit i c s) = otherCars s"
  "finalBlocks (registerTrafficHit i c s) = finalBlocks s"
  "lastBlockSpawnZ (registerTrafficHit i c s) = lastBlockSpawnZ s"
  "lastLateBlockSpawnZ (registerTrafficHit i c s) = lastLateBlockSpawnZ s"
  "lastFinishBurstSpawnZ (registerTrafficHit i c s) = lastFinishBurstSpawnZ s"
  "blockSpawnCount (registerTrafficHit i c s) = blockSpawnCount s"
  "carVelocity (registerTrafficHit i c s) = carVelocity s"
  "carLaneOffset (registerTrafficHit i c s) = carLaneOffset s"
  "targetLane (registerTrafficHit i c s) = targetLane s"
  "currentLaneIndex (registerTrafficHit i c s) = currentLaneIndex s"
  "wasAutopilot (registerTrafficHit i c s) = wasAutopilot s"
  "finishLineCrossed (registerTrafficHit i c s) = finishLineCrossed s"
  "finishLineCrossTime (registerTrafficHit i c s) = finishLineCrossTime s"
  "keyArrowUp (registerTrafficHit i c s) = keyArrowUp s"
  "keyArrowDown (registerTrafficHit i c s) = keyArrowDown s"
  "keyArrowLeft (registerTrafficHit i c s) = keyArrowLeft s"
  "keyArrowRight (registerTrafficHit i c s) = keyArrowRight s"
  "lastScoreDeduction (registerTrafficHit i c s) = lastScoreDeduction s"
  "lastSecondLogged (registerTrafficHit i c s) = lastSecondLogged s"
  "notificationsShown (registerTrafficHit i c s) = notificationsShown s"
  "shuffledIds (registerTrafficHit i c s) = shuffledIds s"
  "timerCleared (registerTrafficHit i c s) = timerCleared s"
  "autopilotTimer (registerTrafficHit i c s) = autopilotTimer s"
  "autopilotDecisionLane (registerTrafficHit i c s) = autopilotDecisionLane s"
  "frameCount (registerTrafficHit i c s) = frameCount s"
  "lastAnimationTime (registerTrafficHit i c s) = lastAnimationTime s"
  by (simp_all add: registerTrafficHit_def Let_def)

lemma advanceTrafficCar_unchanged [simp]:
  "showInstructions (advanceTrafficCar i s) = showInstructions s"
  "countdownActive (advanceTrafficCar i s) = countdownActive s"
  "isAutopilot (advanceTrafficCar i s) = isAutopilot s"
  "isComplete (advanceTrafficCar i s) = isComplete s"
  "isCompleteRef (advanceTrafficCar i s) = isCompleteRef s"
  "gameStartedRef (advanceTrafficCar i s) = gameStartedRef s"
  "startTimeRef (advanceTrafficCar i s) = startTimeRef s"
  "autopilotRef (advanceTrafficCar i s) = autopilotRef s"
  "autopilotPendingRef (advanceTrafficCar i s) = autopilotPendingRef s"
  "scoreRef (advanceTrafficCar i s) = scoreRef s"
  "failureLaneHitsRef (advanceTrafficCar i s) = failureLaneHitsRef s"
  "lastDistanceUnitLoggedRef (advanceTrafficCar i s) = lastDistanceUnitLoggedRef s"
  "notificationsRef (advanceTrafficCar i s) = notificationsRef s"
  "showViewAllNotificationsPopup (advanceTrafficCar i s) = showViewAllNotificationsPopup s"
  "lastTabHiddenTimeRef (advanceTrafficCar i s) = lastTabHiddenTimeRef s"
  "simulationDataRef (advanceTrafficCar i s) = simulationDataRef s"
  "carGroup (advanceTrafficCar i s) = carGroup s"
  "finalBlocks (advanceTrafficCar i s) = finalBlocks s"
  "lastBlockSpawnZ (advanceTrafficCar i s) = lastBlockSpawnZ s"
  "lastLateBlockSpawnZ (advanceTrafficCar i s) = lastLateBlockSpawnZ s"
  "lastFinishBurstSpawnZ (advanceTrafficCar i s) = lastFinishBurstSpawnZ s"
  "blockSpawnCount (advanceTrafficCar i s) = blockSpawnCount s"
  "carVelocity (advanceTrafficCar i s) = carVelocity s"
  "carLaneOffset (advanceTrafficCar i s) = carLaneOffset s"
  "targetLane (advanceTrafficCar i s) = targetLane s"
  "currentLaneIndex (advanceTrafficCar i s) = currentLaneIndex s"
  "wasAutopilot (advanceTrafficCar i s) = wasAutopilot s"
  "finishLineCrossed (advanceTrafficCar i s) = finishLineCrossed s"
  "finishLineCrossTime (advanceTrafficCar i s) = finishLineCrossTime s"
  "keyArrowUp (advanceTrafficCar i s) = keyArrowUp s"
  "keyArrowDown (advanceTrafficCar i s) = keyArrowDown s"
  "keyArrowLeft (advanceTrafficCar i s) = keyArrowLeft s"
  "keyArrowRight (advanceTrafficCar i s) = keyArrowRight s"
  "lastScoreDeduction (advanceTrafficCar i s) = lastScoreDeduction s"
  "lastSecondLogged (advanceTrafficCar i s) = lastSecondLogged s"
  "notificationsShown (advanceTrafficCar i s) = notificationsShown s"
  "shuffledIds (advanceTrafficCar i s) = shuffledIds s"
  "timerCleared (advanceTrafficCar i s) = timerCleared s"
  "autopilotTimer (advanceTrafficCar i s) = autopilotTimer s"
  "autopilotDecisionLane (advanceTrafficCar i s) = autopilotDecisionLane s"
  "frameCount (advanceTrafficCar i s) = frameCount s"
  "lastAnimationTime (advanceTrafficCar i s) = lastAnimationTime s"
  by (simp_all add: advanceTrafficCar_def Let_def)

lemma checkTrafficCollision_unchanged [simp]:
  "showInstructions (checkTrafficCollision i s) = showInstructions s"
  "countdownActive (checkTrafficCollision i s) = countdownActive s"
  "isAutopilot (checkTrafficCollision i s) = isAutopilot s"
  "isComplete (checkTrafficCollision i s) = isComplete s"
  "isCompleteRef (checkTrafficCollision i s) = isCompleteRef s"
  "gameStartedRef (checkTrafficCollision i s) = gameStartedRef s"
  "startTimeRef (checkTrafficCollision i s) = startTimeRef s"
  "autopilotRef (checkTrafficCollision i s) = autopilotRef s"
  "autopilotPendingRef (checkTrafficCollision i s) = autopilotPendingRef s"
  "failureLaneHitsRef (checkTrafficCollision i s) = failureLaneHitsRef s"
  "lastDistanceUnitLoggedRef (checkTrafficCollision i s) = lastDistanceUnitLoggedRef s"
  "notificationsRef (checkTrafficCollision i s) = notificationsRef s"
  "showViewAllNotificationsPopup (checkTrafficCollision i s) = showViewAllNotificationsPopup s"
  "lastTabHiddenTimeRef (checkTrafficCollision i s) = lastTabHiddenTimeRef s"
  "carGroup (checkTrafficCollision i s) = carGroup s"
  "otherCars (checkTrafficCollision i s) = otherCars s"
  "finalBlocks (checkTrafficCollision i s) = finalBlocks s"
  "lastBlockSpawnZ (checkTrafficCollision i s) = lastBlockSpawnZ s"
  "lastLateBlockSpawnZ (checkTrafficCollision i s) = lastLateBlockSpawnZ s"
  "lastFinishBurstSpawnZ (checkTrafficCollision i s) = lastFinishBurstSpawnZ s"
  "blockSpawnCount (checkTrafficCollision i s) = blockSpawnCount s"
  "carVelocity (checkTrafficCollision i s) = carVelocity s"
  "carLaneOffset (checkTrafficCollision i s) = carLaneOffset s"
  "targetLane (checkTrafficCollision i s) = targetLane s"
  "currentLaneIndex (checkTrafficCollision i s) = currentLaneIndex s"
  "wasAutopilot (checkTrafficCollision i s) = wasAutopilot s"
  "finishLineCrossed (checkTrafficCollision i s) = finishLineCrossed s"
  "finishLineCrossTime (checkTrafficCollision i s) = finishLineCrossTime s"
  "keyArrowUp (checkTrafficCollision i s) = keyArrowUp s"
  "keyArrowDown (checkTrafficCollision i s) = keyArrowDown s"
  "keyArrowLeft (checkTrafficCollision i s) = keyArrowLeft s"
  "keyArrowRight (checkTrafficCollision i s) = keyArrowRight s"
  "lastScoreDeduction (checkTrafficCollision i s) = lastScoreDeduction s"
  "lastSecondLogged (checkTrafficCollision i s) = lastSecondLogged s"
  "notificationsShown (checkTrafficCollision i s) = notificationsShown s"
  "shuffledIds (checkTrafficCollision i s) = shuffledIds s"
  "timerCleared (checkTrafficCollision i s) = timerCleared s"
  "autopilotTimer (checkTrafficCollision i s) = autopilotTimer s"
  "autopilotDecisionLane (checkTrafficCollision i s) = autopilotDecisionLane s"
  "frameCount (checkTrafficCollision i s) = frameCount s"
  "lastAnimationTime (checkTrafficCollision i s) = lastAnimationTime s"
  by (simp_all add: checkTrafficCollision_def Let_def)

lemma updateTrafficCar_unchanged [simp]:
  "showInstructions (updateTrafficCar i s) = showInstructions s"
  "countdownActive (updateTrafficCar i s) = countdownActive s"
  "isAutopilot (updateTrafficCar i s) = isAutopilot s"
  "isComplete (updateTrafficCar i s) = isComplete s"
  "isCompleteRef (updateTrafficCar i s) = isCompleteRef s"
  "gameStartedRef (updateTrafficCar i s) = gameStartedRef s"
  "startTimeRef (updateTrafficCar i s) = startTimeRef s"
  "autopilotRef (updateTrafficCar i s) = autopilotRef s"
  "autopilotPendingRef (updateTrafficCar i s) = autopilotPendingRef s"
  "failureLaneHitsRef (updateTrafficCar i s) = failureLaneHitsRef s"
  "lastDistanceUnitLoggedRef (updateTrafficCar i s) = lastDistanceUnitLoggedRef s"
  "notificationsRef (updateTrafficCar i s) = notificationsRef s"
  "showViewAllNotificationsPopup (updateTrafficCar i s) = showViewAllNotificationsPopup s"
  "lastTabHiddenTimeRef (updateTrafficCar i s) = lastTabHiddenTimeRef s"
  "carGroup (updateTrafficCar i s) = carGroup s"
  "finalBlocks (updateTrafficCar i s) = finalBlocks s"
  "lastBlockSpawnZ (updateTrafficCar i s) = lastBlockSpawnZ s"
  "lastLateBlockSpawnZ (updateTrafficCar i s) = lastLateBlockSpawnZ s"
  "lastFinishBurstSpawnZ (updateTrafficCar i s) = lastFinishBurstSpawnZ s"
  "blockSpawnCount (updateTrafficCar i s) = blockSpawnCount s"
  "carVelocity (updateTrafficCar i s) = carVelocity s"
  "carLaneOffset (updateTrafficCar i s) = carLaneOffset s"
  "targetLane (updateTrafficCar i s) = targetLane s"
  "currentLaneIndex (updateTrafficCar i s) = currentLaneIndex s"
  "wasAutopilot (updateTrafficCar i s) = wasAutopilot s"
  "finishLineCrossed (updateTrafficCar i s) = finishLineCrossed s"
  "finishLineCrossTime (updateTrafficCar i s) = finishLineCrossTime s"
  "keyArrowUp (updateTrafficCar i s) = keyArrowUp s"
  "keyArrowDown (updateTrafficCar i s) = keyArrowDown s"
  "keyArrowLeft (updateTrafficCar i s) = keyArrowLeft s"
  "keyArrowRight (updateTrafficCar i s) = keyArrowRight s"
  "lastScoreDeduction (updateTrafficCar i s) = lastScoreDeduction s"
  "lastSecondLogged (updateTrafficCar i s) = lastSecondLogged s"
  "notificationsShown (updateTrafficCar i s) = notificationsShown s"
  "shuffledIds (updateTrafficCar i s) = shuffledIds s"
  "timerCleared (updateTrafficCar i s) = timerCleared s"
  "autopilotTimer (updateTrafficCar i s) = autopilotTimer s"
  "autopilotDecisionLane (updateTrafficCar i s) = autopilotDecisionLane s"
  "frameCount (updateTrafficCar i s) = frameCount s"
  "lastAnimationTime (updateTrafficCar i s) = lastAnimationTime s"
  by (simp_all add: updateTrafficCar_def)

lemma fold_updateTrafficCar_unchanged [simp]:
  "showInstructions (fold updateTrafficCar xs s) = showInstructions s"
  "countdownActive (fold updateTrafficCar xs s) = countdownActive s"
  "isAutopilot (fold updateTrafficCar xs s) = isAutopilot s"
  "isComplete (fold updateTrafficCar xs s) = isComplete s"
  "isCompleteRef (fold updateTrafficCar xs s) = isCompleteRef s"
  "gameStartedRef (fold updateTrafficCar xs s) = gameStartedRef s"
  "startTimeRef (fold updateTrafficCar xs s) = startTimeRef s"
  "autopilotRef (fold updateTrafficCar xs s) = autopilotRef s"
  "autopilotPendingRef (fold updateTrafficCar xs s) = autopilotPendingRef s"
  "failureLaneHitsRef (fold updateTrafficCar xs s) = failureLaneHitsRef s"
  "lastDistanceUnitLoggedRef (fold updateTrafficCar xs s) = lastDistanceUnitLoggedRef s"
  "notificationsRef (fold updateTrafficCar xs s) = notificationsRef s"
  "showViewAllNotificationsPopup (fold updateTrafficCar xs s) = showViewAllNotificationsPopup s"
  "lastTabHiddenTimeRef (fold updateTrafficCar xs s) = lastTabHiddenTimeRef s"
  "carGroup (fold updateTrafficCar xs s) = carGroup s"
  "finalBlocks (fold updateTrafficCar xs s) = finalBlocks s"
  "lastBlockSpawnZ (fold updateTrafficCar xs s) = lastBlockSpawnZ s"
  "lastLateBlockSpawnZ (fold updateTrafficCar xs s) = lastLateBlockSpawnZ s"
  "lastFinishBurstSpawnZ (fold updateTrafficCar xs s) = lastFinishBurstSpawnZ s"
  "blockSpawnCount (fold updateTrafficCar xs s) = blockSpawnCount s"
  "carVelocity (fold updateTrafficCar xs s) = carVelocity s"
  "carLaneOffset (fold updateTrafficCar xs s) = carLaneOffset s"
  "targetLane (fold updateTrafficCar xs s) = targetLane s"
  "currentLaneIndex (fold updateTrafficCar xs s) = currentLaneIndex s"
  "wasAutopilot (fold updateTrafficCar xs s) = wasAutopilot s"
  "finishLineCrossed (fold updateTrafficCar xs s) = finishLineCrossed s"
  "finishLineCrossTime (fold updateTrafficCar xs s) = finishLineCrossTime s"
  "keyArrowUp (fold updateTrafficCar xs s) = keyArrowUp s"
  "keyArrowDown (fold updateTrafficCar xs s) = keyArrowDown s"
  "keyArrowLeft (fold updateTrafficCar xs s) = keyArrowLeft s"
  "keyArrowRight (fold updateTrafficCar xs s) = keyArrowRight s"
  "lastScoreDeduction (fold updateTrafficCar xs s) = lastScoreDeduction s"
  "lastSecondLogged (fold updateTrafficCar xs s) = lastSecondLogged s"
  "notificationsShown (fold updateTrafficCar xs s) = notificationsShown s"
  "shuffledIds (fold updateTrafficCar xs s) = shuffledIds s"
  "timerCleared (fold updateTrafficCar xs s) = timerCleared s"
  "autopilotTimer (fold updateTrafficCar xs s) = autopilotTimer s"
  "autopilotDecisionLane (fold updateTrafficCar xs s) = autopilotDecisionLane s"
  "frameCount (fold updateTrafficCar xs s) = frameCount s"
  "lastAnimationTime (fold updateTrafficCar xs s) = lastAnimationTime s"
  by (induction xs arbitrary: s) simp_all

lemma updateTraffic_unchanged [simp]:
  "showInstructions (updateTraffic s) = showInstructions s"
  "countdownActive (updateTraffic s) = countdownActive s"
  "isAutopilot (updateTraffic s) = isAutopilot s"
  "isComplete (updateTraffic s) = isComplete s"
  "isCompleteRef (updateTraffic s) = isCompleteRef s"
  "gameStartedRef (updateTraffic s) = gameStartedRef s"
  "startTimeRef (updateTraffic s) = startTimeRef s"
  "autopilotRef (updateTraffic s) = autopilotRef s"
  "autopilotPendingRef (updateTraffic s) = autopilotPendingRef s"
  "failureLaneHitsRef (updateTraffic s) = failureLaneHitsRef s"
  "lastDistanceUnitLoggedRef (updateTraffic s) = lastDistanceUnitLoggedRef s"
  "notificationsRef (updateTraffic s) = notificationsRef s"
  "showViewAllNotificationsPopup (updateTraffic s) = showViewAllNotificationsPopup s"
  "lastTabHiddenTimeRef (updateTraffic s) = lastTabHiddenTimeRef s"
  "carGroup (updateTraffic s) = carGroup s"
  "finalBlocks (updateTraffic s) = finalBlocks s"
  "lastBlockSpawnZ (updateTraffic s) = lastBlockSpawnZ s"
  "lastLateBlockSpawnZ (updateTraffic s) = lastLateBlockSpawnZ s"
  "lastFinishBurstSpawnZ (updateTraffic s) = lastFinishBurstSpawnZ s"
  "blockSpawnCount (updateTraffic s) = blockSpawnCount s"
  "carVelocity (updateTraffic s) = carVelocity s"
  "carLaneOffset (updateTraffic s) = carLaneOffset s"
  "targetLane (updateTraffic s) = targetLane s"
  "currentLaneIndex (updateTraffic s) = currentLaneIndex s"
  "wasAutopilot (updateTraffic s) = wasAutopilot s"
  "finishLineCrossed (updateTraffic s) = finishLineCrossed s"
  "finishLineCrossTime (updateTraffic s) = finishLineCrossTime s"
  "keyArrowUp (updateTraffic s) = keyArrowUp s"
  "keyArrowDown (updateTraffic s) = keyArrowDown s"
  "keyArrowLeft (updateTraffic s) = keyArrowLeft s"
  "keyArrowRight (updateTraffic s) = keyArrowRight s"
  "lastScoreDeduction (updateTraffic s) = lastScoreDeduction s"
  "lastSecondLogged (updateTraffic s) = lastSecondLogged s"
  "notificationsShown (updateTraffic s) = notificationsShown s"
  "shuffledIds (updateTraffic s) = shuffledIds s"
  "timerCleared (updateTraffic s) = timerCleared s"
  "autopilotTimer (updateTraffic s) = autopilotTimer s"
  "autopilotDecisionLane (updateTraffic s) = autopilotDecisionLane s"
  "frameCount (updateTraffic s) = frameCount s"
  "lastAnimationTime (updateTraffic s) = lastAnimationTime s"
  by (simp_all add: updateTraffic_def)

lemma registerBlockHit_unchanged [simp]:
  "showInstructions (registerBlockHit i b s) = showInstructions s"
  "countdownActive (registerBlockHit i b s) = countdownActive s"
  "isAutopilot (registerBlockHit i b s) = isAutopilot s"
  "isComplete (registerBlockHit i b s) = isComplete s"
  "isCompleteRef (registerBlockHit i b s) = isCompleteRef s"
  "gameStartedRef (registerBlockHit i b s) = gameStartedRef s"
  "startTimeRef (registerBlockHit i b s) = startTimeRef s"
  "autopilotRef (registerBlockHit i b s) = autopilotRef s"
  "autopilotPendingRef (registerBlockHit i b s) = autopilotPendingRef s"
  "lastDistanceUnitLoggedRef (registerBlockHit i b s) = lastDistanceUnitLoggedRef s"
  "notificationsRef (registerBlockHit i b s) = notificationsRef s"
  "showViewAllNotificationsPopup (registerBlockHit i b s) = showViewAllNotificationsPopup s"
  "lastTabHiddenTimeRef (registerBlockHit i b s) = lastTabHiddenTimeRef s"
  "carGroup (registerBlockHit i b s) = carGroup s"
  "otherCars (registerBlockHit i b s) = otherCars s"
  "finalBlocks (registerBlockHit i b s) = finalBlocks s"
  "lastBlockSpawnZ (registerBlockHit i b s) = lastBlockSpawnZ s"
  "lastLateBlockSpawnZ (registerBlockHit i b s) = lastLateBlockSpawnZ s"
  "lastFinishBurstSpawnZ (registerBlockHit i b s) = lastFinishBurstSpawnZ s"
  "blockSpawnCount (registerBlockHit i b s) = blockSpawnCount s"
  "carVelocity (registerBlockHit i b s) = carVelocity s"
  "carLaneOffset (registerBlockHit i b s) = carLaneOffset s"
  "targetLane (registerBlockHit i b s) = targetLane s"
  "currentLaneIndex (registerBlockHit i b s) = currentLaneIndex s"
  "wasAutopilot (registerBlockHit i b s) = wasAutopilot s"
  "finishLineCrossed (registerBlockHit i b s) = finishLineCrossed s"
  "finishLineCrossTime (registerBlockHit i b s) = finishLineCrossTime s"
  "keyArrowUp (registerBlockHit i b s) = keyArrowUp s"
  "keyArrowDown (registerBlockHit i b s) = keyArrowDown s"
  "keyArrowLeft (registerBlockHit i b s) = keyArrowLeft s"
  "keyArrowRight (registerBlockHit i b s) = keyArrowRight s"
  "lastScoreDeduction (registerBlockHit i b s) = lastScoreDeduction s"
  "lastSecondLogged (registerBlockHit i b s) = lastSecondLogged s"
  "notificationsShown (registerBlockHit i b s) = notificationsShown s"
  "shuffledIds (registerBlockHit i b s) = shuffledIds s"
  "timerCleared (registerBlockHit i b s) = timerCleared s"
  "autopilotTimer (registerBlockHit i b s) = autopilotTimer s"
  "autopilotDecisionLane (registerBlockHit i b s) = autopilotDecisionLane s"
  "frameCount (registerBlockHit i b s) = frameCount s"
  "lastAnimationTime (registerBlockHit i b s) = lastAnimationTime s"
  by (simp_all add: registerBlockHit_def Let_def)

lemma updateBlock_unchanged [simp]:
  "showInstructions (updateBlock i s) = showInstructions s"
  "countdownActive (updateBlock i s) = countdownActive s"
  "isAutopilot (updateBlock i s) = isAutopilot s"
  "isComplete (updateBlock i s) = isComplete s"
  "isCompleteRef (updateBlock i s) = isCompleteRef s"
  "gameStartedRef (updateBlock i s) = gameStartedRef s"
  "startTimeRef (updateBlock i s) = startTimeRef s"
  "autopilotRef (updateBlock i s) = autopilotRef s"
  "autopilotPendingRef (updateBlock i s) = autopilotPendingRef s"
  "lastDistanceUnitLoggedRef (updateBlock i s) = lastDistanceUnitLoggedRef s"
  "notificationsRef (updateBlock i s) = notificationsRef s"
  "showViewAllNotificationsPopup (updateBlock i s) = showViewAllNotificationsPopup s"
  "lastTabHiddenTimeRef (updateBlock i s) = lastTabHiddenTimeRef s"
  "carGroup (updateBlock i s) = carGroup s"
  "otherCars (updateBlock i s) = otherCars s"
  "lastBlockSpawnZ (updateBlock i s) = lastBlockSpawnZ s"
  "lastLateBlockSpawnZ (updateBlock i s) = lastLateBlockSpawnZ s"
  "lastFinishBurstSpawnZ (updateBlock i s) = lastFinishBurstSpawnZ s"
  "blockSpawnCount (updateBlock i s) = blockSpawnCount s"
  "carVelocity (updateBlock i s) = carVelocity s"
  "carLaneOffset (updateBlock i s) = carLaneOffset s"
  "targetLane (updateBlock i s) = targetLane s"
  "currentLaneIndex (updateBlock i s) = currentLaneIndex s"
  "wasAutopilot (updateBlock i s) = wasAutopilot s"
  "finishLineCrossed (updateBlock i s) = finishLineCrossed s"
  "finishLineCrossTime (updateBlock i s) = finishLineCrossTime s"
  "keyArrowUp (updateBlock i s) = keyArrowUp s"
  "keyArrowDown (updateBlock i s) = keyArrowDown s"
  "keyArrowLeft (updateBlock i s) = keyArrowLeft s"
  "keyArrowRight (updateBlock i s) = keyArrowRight s"
  "lastScoreDeduction (updateBlock i s) = lastScoreDeduction s"
  "lastSecondLogged (updateBlock i s) = lastSecondLogged s"
  "notificationsShown (updateBlock i s) = notificationsShown s"
  "shuffledIds (updateBlock i s) = shuffledIds s"
  "timerCleared (updateBlock i s) = timerCleared s"
  "autopilotTimer (updateBlock i s) = autopilotTimer s"
  "autopilotDecisionLane (updateBlock i s) = autopilotDecisionLane s"
  "frameCount (updateBlock i s) = frameCount s"
  "lastAnimationTime (updateBlock i s) = lastAnimationTime s"
  by (simp_all add: updateBlock_def Let_def)

lemma blocksLoop_unchanged [simp]:
  "showInstructions (blocksLoop n s) = showInstructions s"
  "countdownActive (blocksLoop n s) = countdownActive s"
  "isAutopilot (blocksLoop n s) = isAutopilot s"
  "isComplete (blocksLoop n s) = isComplete s"
  "isCompleteRef (blocksLoop n s) = isCompleteRef s"
  "gameStartedRef (blocksLoop n s) = gameStartedRef s"
  "startTimeRef (blocksLoop n s) = startTimeRef s"
  "autopilotRef (blocksLoop n s) = autopilotRef s"
  "autopilotPendingRef (blocksLoop n s) = autopilotPendingRef s"
  "lastDistanceUnitLoggedRef (blocksLoop n s) = lastDistanceUnitLoggedRef s"
  "notificationsRef (blocksLoop n s) = notificationsRef s"
  "showViewAllNotificationsPopup (blocksLoop n s) = showViewAllNotificationsPopup s"
  "lastTabHiddenTimeRef (blocksLoop n s) = lastTabHiddenTimeRef s"
  "carGroup (blocksLoop n s) = carGroup s"
  "otherCars (blocksLoop n s) = otherCars s"
  "lastBlockSpawnZ (blocksLoop n s) = lastBlockSpawnZ s"
  "lastLateBlockSpawnZ (blocksLoop n s) = lastLateBlockSpawnZ s"
  "lastFinishBurstSpawnZ (blocksLoop n s) = lastFinishBurstSpawnZ s"
  "blockSpawnCount (blocksLoop n s) = blockSpawnCount s"
  "carVelocity (blocksLoop n s) = carVelocity s"
  "carLaneOffset (blocksLoop n s) = carLaneOffset s"
  "targetLane (blocksLoop n s) = targetLane s"
  "currentLaneIndex (blocksLoop n s) = currentLaneIndex s"
  "wasAutopilot (blocksLoop n s) = wasAutopilot s"
  "finishLineCrossed (blocksLoop n s) = finishLineCrossed s"
  "finishLineCrossTime (blocksLoop n s) = finishLineCrossTime s"
  "keyArrowUp (blocksLoop n s) = keyArrowUp s"
  "keyArrowDown (blocksLoop n s) = keyArrowDown s"
  "keyArrowLeft (blocksLoop n s) = keyArrowLeft s"
  "keyArrowRight (blocksLoop n s) = keyArrowRight s"
  "lastScoreDeduction (blocksLoop n s) = lastScoreDeduction s"
  "lastSecondLogged (blocksLoop n s) = lastSecondLogged s"
  "notificationsShown (blocksLoop n s) = notificationsShown s"
  "shuffledIds (blocksLoop n s) = shuffledIds s"
  "timerCleared (blocksLoop n s) = timerCleared s"
  "autopilotTimer (blocksLoop n s) = autopilotTimer s"
  "autopilotDecisionLane (blocksLoop n s) = autopilotDecisionLane s"
  "frameCount (blocksLoop n s) = frameCount s"
  "lastAnimationTime (blocksLoop n s) = lastAnimationTime s"
  by (induction n arbitrary: s) simp_all

lemma updateBlocks_unchanged [simp]:
  "showInstructions (updateBlocks s) = showInstructions s"
  "countdownActive (updateBlocks s) = countdownActive s"
  "isAutopilot (updateBlocks s) = isAutopilot s"
  "isComplete (updateBlocks s) = isComplete s"
  "isCompleteRef (updateBlocks s) = isCompleteRef s"
  "gameStartedRef (updateBlocks s) = gameStartedRef s"
  "startTimeRef (updateBlocks s) = startTimeRef s"
  "autopilotRef (updateBlocks s) = autopilotRef s"
  "autopilotPendingRef (updateBlocks s) = autopilotPendingRef s"
  "lastDistanceUnitLoggedRef (updateBlocks s) = lastDistanceUnitLoggedRef s"
  "notificationsRef (updateBlocks s) = notificationsRef s"
  "showViewAllNotificationsPopup (updateBlocks s) = showViewAllNotificationsPopup s"
  "lastTabHiddenTimeRef (updateBlocks s) = lastTabHiddenTimeRef s"
  "carGroup (updateBlocks s) = carGroup s"
  "otherCars (updateBlocks s) = otherCars s"
  "lastBlockSpawnZ (updateBlocks s) = lastBlockSpawnZ s"
  "lastLateBlockSpawnZ (updateBlocks s) = lastLateBlockSpawnZ s"
  "lastFinishBurstSpawnZ (updateBlocks s) = lastFinishBurstSpawnZ s"
  "blockSpawnCount (updateBlocks s) = blockSpawnCount s"
  "carVelocity (updateBlocks s) = carVelocity s"
  "carLaneOffset (updateBlocks s) = carLaneOffset s"
  "targetLane (updateBlocks s) = targetLane s"
  "currentLaneIndex (updateBlocks s) = currentLaneIndex s"
  "wasAutopilot (updateBlocks s) = wasAutopilot s"
  "finishLineCrossed (updateBlocks s) = finishLineCrossed s"
  "finishLineCrossTime (updateBlocks s) = finishLineCrossTime s"
  "keyArrowUp (updateBlocks s) = keyArrowUp s"
  "keyArrowDown (updateBlocks s) = keyArrowDown s"
  "keyArrowLeft (updateBlocks s) = keyArrowLeft s"
  "keyArrowRight (updateBlocks s) = keyArrowRight s"
  "lastScoreDeduction (updateBlocks s) = lastScoreDeduction s"
  "lastSecondLogged (updateBlocks s) = lastSecondLogged s"
  "notificationsShown (updateBlocks s) = notificationsShown s"
  "shuffledIds (updateBlocks s) = shuffledIds s"
  "timerCleared (updateBlocks s) = timerCleared s"
  "autopilotTimer (updateBlocks s) = autopilotTimer s"
  "autopilotDecisionLane (updateBlocks s) = autopilotDecisionLane s"
  "frameCount (updateBlocks s) = frameCount s"
  "lastAnimationTime (updateBlocks s) = lastAnimationTime s"
  by (simp_all add: updateBlocks_def)

lemma completeSimulation_unchanged [simp]:
  "showInstructions (completeSimulation s) = showInstructions s"
  "countdownActive (completeSimulation s) = countdownActive s"
  "isAutopilot (completeSimulation s) = isAutopilot s"
  "isCompleteRef (completeSimulation s) = isCompleteRef s"
  "gameStartedRef (completeSimulation s) = gameStartedRef s"
  "startTimeRef (completeSimulation s) = startTimeRef s"
  "autopilotRef (completeSimulation s) = autopilotRef s"
  "autopilotPendingRef (completeSimulation s) = autopilotPendingRef s"
  "scoreRef (completeSimulation s) = scoreRef s"
  "failureLaneHitsRef (completeSimulation s) = failureLaneHitsRef s"
  "notificationsRef (completeSimulation s) = notificationsRef s"
  "lastTabHiddenTimeRef (completeSimulation s) = lastTabHiddenTimeRef s"
  "carGroup (completeSimulation s) = carGroup s"
  "otherCars (completeSimulation s) = otherCars s"
  "lastBlockSpawnZ (completeSimulation s) = lastBlockSpawnZ s"
  "lastLateBlockSpawnZ (completeSimulation s) = lastLateBlockSpawnZ s"
  "lastFinishBurstSpawnZ (completeSimulation s) = lastFinishBurstSpawnZ s"
  "blockSpawnCount (completeSimulation s) = blockSpawnCount s"
  "carVelocity (completeSimulation s) = carVelocity s"
  "carLaneOffset (completeSimulation s) = carLaneOffset s"
  "targetLane (completeSimulation s) = targetLane s"
  "currentLaneIndex (completeSimulation s) = currentLaneIndex s"
  "collisionCooldown (completeSimulation s) = collisionCooldown s"
  "wasAutopilot (completeSimulation s) = wasAutopilot s"
  "finishLineCrossed (completeSimulation s) = finishLineCrossed s"
  "finishLineCrossTime (completeSimulation s) = finishLineCrossTime s"
  "keyArrowUp (completeSimulation s) = keyArrowUp s"
  "keyArrowDown (completeSimulation s) = keyArrowDown s"
  "keyArrowLeft (completeSimulation s) = keyArrowLeft s"
  "keyArrowRight (completeSimulation s) = keyArrowRight s"
  "lastScoreDeduction (completeSimulation s) = lastScoreDeduction s"
  "lastSecondLogged (completeSimulation s) = lastSecondLogged s"
  "notificationsShown (completeSimulation s) = notificationsShown s"
  "shuffledIds (completeSimulation s) = shuffledIds s"
  "autopilotTimer (completeSimulation s) = autopilotTimer s"
  "autopilotDecisionLane (completeSimulation s) = autopilotDecisionLane s"
  "frameCount (completeSimulation s) = frameCount s"
  "lastAnimationTime (completeSimulation s) = lastAnimationTime s"
  by (simp_all add: completeSimulation_def Let_def)

lemma crossFinishLine_unchanged [simp]:
  "showInstructions (crossFinishLine now s) = showInstructions s"
  "countdownActive (crossFinishLine now s) = countdownActive s"
  "isAutopilot (crossFinishLine now s) = isAutopilot s"
  "isCompleteRef (crossFinishLine now s) = isCompleteRef s"
  "gameStartedRef (crossFinishLine now s) = gameStartedRef s"
  "startTimeRef (crossFinishLine now s) = startTimeRef s"
  "autopilotRef (crossFinishLine now s) = autopilotRef s"
  "autopilotPendingRef (crossFinishLine now s) = autopilotPendingRef s"
  "scoreRef (crossFinishLine now s) = scoreRef s"
  "failureLaneHitsRef (crossFinishLine now s) = failureLaneHitsRef s"
  "notificationsRef (crossFinishLine now s) = notificationsRef s"
  "lastTabHiddenTimeRef (crossFinishLine now s) = lastTabHiddenTimeRef s"
  "carGroup (crossFinishLine now s) = carGroup s"
  "otherCars (crossFinishLine now s) = otherCars s"
  "lastBlockSpawnZ (crossFinishLine now s) = lastBlockSpawnZ s"
  "lastLateBlockSpawnZ (crossFinishLine now s) = lastLateBlockSpawnZ s"
  "lastFinishBurstSpawnZ (crossFinishLine now s) = lastFinishBurstSpawnZ s"
  "blockSpawnCount (crossFinishLine now s) = blockSpawnCount s"
  "carVelocity (crossFinishLine now s) = carVelocity s"
  "carLaneOffset (crossFinishLine now s) = carLaneOffset s"
  "targetLane (crossFinishLine now s) = targetLane s"
  "currentLaneIndex (crossFinishLine now s) = currentLaneIndex s"
  "collisionCooldown (crossFinishLine now s) = collisionCooldown s"
  "wasAutopilot (crossFinishLine now s) = wasAutopilot s"
  "keyArrowUp (crossFinishLine now s) = keyArrowUp s"
  "keyArrowDown (crossFinishLine now s) = keyArrowDown s"
  "keyArrowLeft (crossFinishLine now s) = keyArrowLeft s"
  "keyArrowRight (crossFinishLine now s) = keyArrowRight s"
  "lastScoreDeduction (crossFinishLine now s) = lastScoreDeduction s"
  "lastSecondLogged (crossFinishLine now s) = lastSecondLogged s"
  "notificationsShown (crossFinishLine now s) = notificationsShown s"
  "shuffledIds (crossFinishLine now s) = shuffledIds s"
  "autopilotTimer (crossFinishLine now s) = autopilotTimer s"
  "autopilotDecisionLane (crossFinishLine now s) = autopilotDecisionLane s"
  "frameCount (crossFinishLine now s) = frameCount s"
  "lastAnimationTime (crossFinishLine now s) = lastAnimationTime s"
  by (simp_all add: crossFinishLine_def Let_def)

lemma completeWhenAllSeen_unchanged [simp]:
  "showInstructions (completeWhenAllSeen s) = showInstructions s"
  "countdownActive (completeWhenAllSeen s) = countdownActive s"
  "isAutopilot (completeWhenAllSeen s) = isAutopilot s"
  "isCompleteRef (completeWhenAllSeen s) = isCompleteRef s"
  "gameStartedRef (completeWhenAllSeen s) = gameStartedRef s"
  "startTimeRef (completeWhenAllSeen s) = startTimeRef s"
  "autopilotRef (completeWhenAllSeen s) = autopilotRef s"
  "autopilotPendingRef (completeWhenAllSeen s) = autopilotPendingRef s"
  "scoreRef (completeWhenAllSeen s) = scoreRef s"
  "failureLaneHitsRef (completeWhenAllSeen s) = failureLaneHitsRef s"
  "notificationsRef (completeWhenAllSeen s) = notificationsRef s"
  "lastTabHiddenTimeRef (completeWhenAllSeen s) = lastTabHiddenTimeRef s"
  "carGroup (completeWhenAllSeen s) = carGroup s"
  "otherCars (completeWhenAllSeen s) = otherCars s"
  "lastBlockSpawnZ (completeWhenAllSeen s) = lastBlockSpawnZ s"
  "lastLateBlockSpawnZ (completeWhenAllSeen s) = lastLateBlockSpawnZ s"
  "lastFinishBurstSpawnZ (completeWhenAllSeen s) = lastFinishBurstSpawnZ s"
  "blockSpawnCount (completeWhenAllSeen s) = blockSpawnCount s"
  "carVelocity (completeWhenAllSeen s) = carVelocity s"
  "carLaneOffset (completeWhenAllSeen s) = carLaneOffset s"
  "targetLane (completeWhenAllSeen s) = targetLane s"
  "currentLaneIndex (completeWhenAllSeen s) = currentLaneIndex s"
  "collisionCooldown (completeWhenAllSeen s) = collisionCooldown s"
  "wasAutopilot (completeWhenAllSeen s) = wasAutopilot s"
  "finishLineCrossed (completeWhenAllSeen s) = finishLineCrossed s"
  "finishLineCrossTime (completeWhenAllSeen s) = finishLineCrossTime s"
  "keyArrowUp (completeWhenAllSeen s) = keyArrowUp s"
  "keyArrowDown (completeWhenAllSeen s) = keyArrowDown s"
  "keyArrowLeft (completeWhenAllSeen s) = keyArrowLeft s"
  "keyArrowRight (completeWhenAllSeen s) = keyArrowRight s"
  "lastScoreDeduction (completeWhenAllSeen s) = lastScoreDeduction s"
  "lastSecondLogged (completeWhenAllSeen s) = lastSecondLogged s"
  "notificationsShown (completeWhenAllSeen s) = notificationsShown s"
  "shuffledIds (completeWhenAllSeen s) = shuffledIds s"
  "autopilotTimer (completeWhenAllSeen s) = autopilotTimer s"
  "autopilotDecisionLane (completeWhenAllSeen s) = autopilotDecisionLane s"
  "frameCount (completeWhenAllSeen s) = frameCount s"
  "lastAnimationTime (completeWhenAllSeen s) = lastAnimationTime s"
  by (simp_all add: completeWhenAllSeen_def)

lemma stopAfterCoasting_unchanged [simp]:
  "showInstructions (stopAfterCoasting now s) = showInstructions s"
  "countdownActive (stopAfterCoasting now s) = countdownActive s"
  "isAutopilot (stopAfterCoasting now s) = isAutopilot s"
  "isComplete (stopAfterCoasting now s) = isComplete s"
  "isCompleteRef (stopAfterCoasting now s) = isCompleteRef s"
  "gameStartedRef (stopAfterCoasting now s) = gameStartedRef s"
  "startTimeRef (stopAfterCoasting now s) = startTimeRef s"
  "autopilotRef (stopAfterCoasting now s) = autopilotRef s"
  "autopilotPendingRef (stopAfterCoasting now s) = autopilotPendingRef s"
  "scoreRef (stopAfterCoasting now s) = scoreRef s"
  "failureLaneHitsRef (stopAfterCoasting now s) = failureLaneHitsRef s"
  "lastDistanceUnitLoggedRef (stopAfterCoasting now s) = lastDistanceUnitLoggedRef s"
  "notificationsRef (stopAfterCoasting now s) = notificationsRef s"
  "showViewAllNotificationsPopup (stopAfterCoasting now s) = showViewAllNotificationsPopup s"
  "lastTabHiddenTimeRef (stopAfterCoasting now s) = lastTabHiddenTimeRef s"
  "simulationDataRef (stopAfterCoasting now s) = simulationDataRef s"
  "carGroup (stopAfterCoasting now s) = carGroup s"
  "otherCars (stopAfterCoasting now s) = otherCars s"
  "finalBlocks (stopAfterCoasting now s) = finalBlocks s"
  "lastBlockSpawnZ (stopAfterCoasting now s) = lastBlockSpawnZ s"
  "lastLateBlockSpawnZ (stopAfterCoasting now s) = lastLateBlockSpawnZ s"
  "lastFinishBurstSpawnZ (stopAfterCoasting now s) = lastFinishBurstSpawnZ s"
  "blockSpawnCount (stopAfterCoasting now s) = blockSpawnCount s"
  "carLaneOffset (stopAfterCoasting now s) = carLaneOffset s"
  "targetLane (stopAfterCoasting now s) = targetLane s"
  "currentLaneIndex (stopAfterCoasting now s) = currentLaneIndex s"
  "collisionCooldown (stopAfterCoasting now s) = collisionCooldown s"
  "wasAutopilot (stopAfterCoasting now s) = wasAutopilot s"
  "finishLineCrossed (stopAfterCoasting now s) = finishLineCrossed s"
  "finishLineCrossTime (stopAfterCoasting now s) = finishLineCrossTime s"
  "keyArrowUp (stopAfterCoasting now s) = keyArrowUp s"
  "keyArrowDown (stopAfterCoasting now s) = keyArrowDown s"
  "keyArrowLeft (stopAfterCoasting now s) = keyArrowLeft s"
  "keyArrowRight (stopAfterCoasting now s) = keyArrowRight s"
  "lastScoreDeduction (stopAfterCoasting now s) = lastScoreDeduction s"
  "lastSecondLogged (stopAfterCoasting now s) = lastSecondLogged s"
  "notificationsShown (stopAfterCoasting now s) = notificationsShown s"
  "shuffledIds (stopAfterCoasting now s) = shuffledIds s"
  "timerCleared (stopAfterCoasting now s) = timerCleared s"
  "autopilotTimer (stopAfterCoasting now s) = autopilotTimer s"
  "autopilotDecisionLane (stopAfterCoasting now s) = autopilotDecisionLane s"
  "frameCount (stopAfterCoasting now s) = frameCount s"
  "lastAnimationTime (stopAfterCoasting now s) = lastAnimationTime s"
  by (simp_all add: stopAfterCoasting_def Let_def)

lemma triggerNotification_unchanged [simp]:
  "showInstructions (triggerNotification now e i s) = showInstructions s"
  "countdownActive (triggerNotification now e i s) = countdownActive s"
  "isAutopilot (triggerNotification now e i s) = isAutopilot s"
  "isComplete (triggerNotification now e i s) = isComplete s"
  "isCompleteRef (triggerNotification now e i s) = isCompleteRef s"
  "gameStartedRef (triggerNotification now e i s) = gameStartedRef s"
  "startTimeRef (triggerNotification now e i s) = startTimeRef s"
  "autopilotRef (triggerNotification now e i s) = autopilotRef s"
  "autopilotPendingRef (triggerNotification now e i s) = autopilotPendingRef s"
  "scoreRef (triggerNotification now e i s) = scoreRef s"
  "failureLaneHitsRef (triggerNotification now e i s) = failureLaneHitsRef s"
  "lastDistanceUnitLoggedRef (triggerNotification now e i s) = lastDistanceUnitLoggedRef s"
  "showViewAllNotificationsPopup (triggerNotification now e i s) = showViewAllNotificationsPopup s"
  "lastTabHiddenTimeRef (triggerNotification now e i s) = lastTabHiddenTimeRef s"
  "simulationDataRef (triggerNotification now e i s) = simulationDataRef s"
  "carGroup (triggerNotification now e i s) = carGroup s"
  "otherCars (triggerNotification now e i s) = otherCars s"
  "finalBlocks (triggerNotification now e i s) = finalBlocks s"
  "lastBlockSpawnZ (triggerNotification now e i s) = lastBlockSpawnZ s"
  "lastLateBlockSpawnZ (triggerNotification now e i s) = lastLateBlockSpawnZ s"
  "lastFinishBurstSpawnZ (triggerNotification now e i s) = lastFinishBurstSpawnZ s"
  "blockSpawnCount (triggerNotification now e i s) = blockSpawnCount s"
  "carVelocity (triggerNotification now e i s) = carVelocity s"
  "carLaneOffset (triggerNotification now e i s) = carLaneOffset s"
  "targetLane (triggerNotification now e i s) = targetLane s"
  "currentLaneIndex (triggerNotification now e i s) = currentLaneIndex s"
  "collisionCooldown (triggerNotification now e i s) = collisionCooldown s"
  "wasAutopilot (triggerNotification now e i s) = wasAutopilot s"
  "finishLineCrossed (triggerNotification now e i s) = finishLineCrossed s"
  "finishLineCrossTime (triggerNotification now e i s) = finishLineCrossTime s"
  "keyArrowUp (triggerNotification now e i s) = keyArrowUp s"
  "keyArrowDown (triggerNotification now e i s) = keyArrowDown s"
  "keyArrowLeft (triggerNotification now e i s) = keyArrowLeft s"
  "keyArrowRight (triggerNotification now e i s) = keyArrowRight s"
  "lastScoreDeduction (triggerNotification now e i s) = lastScoreDeduction s"
  "lastSecondLogged (triggerNotification now e i s) = lastSecondLogged s"
  "shuffledIds (triggerNotification now e i s) = shuffledIds s"
  "timerCleared (triggerNotification now e i s) = timerCleared s"
  "autopilotTimer (triggerNotification now e i s) = autopilotTimer s"
  "autopilotDecisionLane (triggerNotification now e i s) = autopilotDecisionLane s"
  "frameCount (triggerNotification now e i s) = frameCount s"
  "lastAnimationTime (triggerNotification now e i s) = lastAnimationTime s"
  by (simp_all add: triggerNotification_def Let_def)

lemma fold_triggerNotification_unchanged [simp]:
  "showInstructions (fold (triggerNotification now e) xs s) = showInstructions s"
  "countdownActive (fold (triggerNotification now e) xs s) = countdownActive s"
  "isAutopilot (fold (triggerNotification now e) xs s) = isAutopilot s"
  "isComplete (fold (triggerNotification now e) xs s) = isComplete s"
  "isCompleteRef (fold (triggerNotification now e) xs s) = isCompleteRef s"
  "gameStartedRef (fold (triggerNotification now e) xs s) = gameStartedRef s"
  "startTimeRef (fold (triggerNotification now e) xs s) = startTimeRef s"
  "autopilotRef (fold (triggerNotification now e) xs s) = autopilotRef s"
  "autopilotPendingRef (fold (triggerNotification now e) xs s) = autopilotPendingRef s"
  "scoreRef (fold (triggerNotification now e) xs s) = scoreRef s"
  "failureLaneHitsRef (fold (triggerNotification now e) xs s) = failureLaneHitsRef s"
  "lastDistanceUnitLoggedRef (fold (triggerNotification now e) xs s) = lastDistanceUnitLoggedRef s"
  "showViewAllNotificationsPopup (fold (triggerNotification now e) xs s) = showViewAllNotificationsPopup s"
  "lastTabHiddenTimeRef (fold (triggerNotification now e) xs s) = lastTabHiddenTimeRef s"
  "simulationDataRef (fold (triggerNotification now e) xs s) = simulationDataRef s"
  "carGroup (fold (triggerNotification now e) xs s) = carGroup s"
  "otherCars (fold (triggerNotification now e) xs s) = otherCars s"
  "finalBlocks (fold (triggerNotification now e) xs s) = finalBlocks s"
  "lastBlockSpawnZ (fold (triggerNotification now e) xs s) = lastBlockSpawnZ s"
  "lastLateBlockSpawnZ (fold (triggerNotification now e) xs s) = lastLateBlockSpawnZ s"
  "lastFinishBurstSpawnZ (fold (triggerNotification now e) xs s) = lastFinishBurstSpawnZ s"
  "blockSpawnCount (fold (triggerNotification now e) xs s) = blockSpawnCount s"
  "carVelocity (fold (triggerNotification now e) xs s) = carVelocity s"
  "carLaneOffset (fold (triggerNotification now e) xs s) = carLaneOffset s"
  "targetLane (fold (triggerNotification now e) xs s) = targetLane s"
  "currentLaneIndex (fold (triggerNotification now e) xs s) = currentLaneIndex s"
  "collisionCooldown (fold (triggerNotification now e) xs s) = collisionCooldown s"
  "wasAutopilot (fold (triggerNotification now e) xs s) = wasAutopilot s"
  "finishLineCrossed (fold (triggerNotification now e) xs s) = finishLineCrossed s"
  "finishLineCrossTime (fold (triggerNotification now e) xs s) = finishLineCrossTime s"
  "keyArrowUp (fold (triggerNotification now e) xs s) = keyArrowUp s"
  "keyArrowDown (fold (triggerNotification now e) xs s) = keyArrowDown s"
  "keyArrowLeft (fold (triggerNotification now e) xs s) = keyArrowLeft s"
  "keyArrowRight (fold (triggerNotification now e) xs s) = keyArrowRight s"
  "lastScoreDeduction (fold (triggerNotification now e) xs s) = lastScoreDeduction s"
  "lastSecondLogged (fold (triggerNotification now e) xs s) = lastSecondLogged s"
  "shuffledIds (fold (triggerNotification now e) xs s) = shuffledIds s"
  "timerCleared (fold (triggerNotification now e) xs s) = timerCleared s"
  "autopilotTimer (fold (triggerNotification now e) xs s) = autopilotTimer s"
  "autopilotDecisionLane (fold (triggerNotification now e) xs s) = autopilotDecisionLane s"
  "frameCount (fold (triggerNotification now e) xs s) = frameCount s"
  "lastAnimationTime (fold (triggerNotification now e) xs s) = lastAnimationTime s"
  by (induction xs arbitrary: s) simp_all

lemma triggerNotifications_unchanged [simp]:
  "showInstructions (triggerNotifications now e s) = showInstructions s"
  "countdownActive (triggerNotifications now e s) = countdownActive s"
  "isAutopilot (triggerNotifications now e s) = isAutopilot s"
  "isComplete (triggerNotifications now e s) = isComplete s"
  "isCompleteRef (triggerNotifications now e s) = isCompleteRef s"
  "gameStartedRef (triggerNotifications now e s) = gameStartedRef s"
  "startTimeRef (triggerNotifications now e s) = startTimeRef s"
  "autopilotRef (triggerNotifications now e s) = autopilotRef s"
  "autopilotPendingRef (triggerNotifications now e s) = autopilotPendingRef s"
  "scoreRef (triggerNotifications now e s) = scoreRef s"
  "failureLaneHitsRef (triggerNotifications now e s) = failureLaneHitsRef s"
  "lastDistanceUnitLoggedRef (triggerNotifications now e s) = lastDistanceUnitLoggedRef s"
  "showViewAllNotificationsPopup (triggerNotifications now e s) = showViewAllNotificationsPopup s"
  "lastTabHiddenTimeRef (triggerNotifications now e s) = lastTabHiddenTimeRef s"
  "simulationDataRef (triggerNotifications now e s) = simulationDataRef s"
  "carGroup (triggerNotifications now e s) = carGroup s"
  "otherCars (triggerNotifications now e s) = otherCars s"
  "finalBlocks (triggerNotifications now e s) = finalBlocks s"
  "lastBlockSpawnZ (triggerNotifications now e s) = lastBlockSpawnZ s"
  "lastLateBlockSpawnZ (triggerNotifications now e s) = lastLateBlockSpawnZ s"
  "lastFinishBurstSpawnZ (triggerNotifications now e s) = lastFinishBurstSpawnZ s"
  "blockSpawnCount (triggerNotifications now e s) = blockSpawnCount s"
  "carVelocity (triggerNotifications now e s) = carVelocity s"
  "carLaneOffset (triggerNotifications now e s) = carLaneOffset s"
  "targetLane (triggerNotifications now e s) = targetLane s"
  "currentLaneIndex (triggerNotifications now e s) = currentLaneIndex s"
  "collisionCooldown (triggerNotifications now e s) = collisionCooldown s"
  "wasAutopilot (triggerNotifications now e s) = wasAutopilot s"
  "finishLineCrossed (triggerNotifications now e s) = finishLineCrossed s"
  "finishLineCrossTime (triggerNotifications now e s) = finishLineCrossTime s"
  "keyArrowUp (triggerNotifications now e s) = keyArrowUp s"
  "keyArrowDown (triggerNotifications now e s) = keyArrowDown s"
  "keyArrowLeft (triggerNotifications now e s) = keyArrowLeft s"
  "keyArrowRight (triggerNotifications now e s) = keyArrowRight s"
  "lastScoreDeduction (triggerNotifications now e s) = lastScoreDeduction s"
  "lastSecondLogged (triggerNotifications now e s) = lastSecondLogged s"
  "shuffledIds (triggerNotifications now e s) = shuffledIds s"
  "timerCleared (triggerNotifications now e s) = timerCleared s"
  "autopilotTimer (triggerNotifications now e s) = autopilotTimer s"
  "autopilotDecisionLane (triggerNotifications now e s) = autopilotDecisionLane s"
  "frameCount (triggerNotifications now e s) = frameCount s"
  "lastAnimationTime (triggerNotifications now e s) = lastAnimationTime s"
  by (simp_all only: triggerNotifications_def fold_triggerNotification_unchanged)

lemma ensureModeByUnitComplete_data_unchanged [simp]:
  "modeBySecond (simulationDataRef (ensureModeByUnitComplete s)) = modeBySecond (simulationDataRef s)"
  "whiteBlocksHit (simulationDataRef (ensureModeByUnitComplete s)) = whiteBlocksHit (simulationDataRef s)"
  "failureLaneHits (simulationDataRef (ensureModeByUnitComplete s)) = failureLaneHits (simulationDataRef s)"
  "collisionEvents (simulationDataRef (ensureModeByUnitComplete s)) = collisionEvents (simulationDataRef s)"
  "finalScore (simulationDataRef (ensureModeByUnitComplete s)) = finalScore (simulationDataRef s)"
  "sd_notifications (simulationDataRef (ensureModeByUnitComplete s)) = sd_notifications (simulationDataRef s)"
  "notificationsSeen (simulationDataRef (ensureModeByUnitComplete s)) = notificationsSeen (simulationDataRef s)"
  "notificationsTotal (simulationDataRef (ensureModeByUnitComplete s)) = notificationsTotal (simulationDataRef s)"
  "finishLineCrossSecond (simulationDataRef (ensureModeByUnitComplete s)) = finishLineCrossSecond (simulationDataRef s)"
  by (simp_all add: ensureModeByUnitComplete_def Let_def)

lemma logModeByUnit_data_unchanged [simp]:
  "modeBySecond (simulationDataRef (logModeByUnit s)) = modeBySecond (simulationDataRef s)"
  "whiteBlocksHit (simulationDataRef (logModeByUnit s)) = whiteBlocksHit (simulationDataRef s)"
  "failureLaneHits (simulationDataRef (logModeByUnit s)) = failureLaneHits (simulationDataRef s)"
  "collisionEvents (simulationDataRef (logModeByUnit s)) = collisionEvents (simulationDataRef s)"
  "finalScore (simulationDataRef (logModeByUnit s)) = finalScore (simulationDataRef s)"
  "sd_notifications (simulationDataRef (logModeByUnit s)) = sd_notifications (simulationDataRef s)"
  "notificationsSeen (simulationDataRef (logModeByUnit s)) = notificationsSeen (simulationDataRef s)"
  "notificationsTotal (simulationDataRef (logModeByUnit s)) = notificationsTotal (simulationDataRef s)"
  "finishLineCrossSecond (simulationDataRef (logModeByUnit s)) = finishLineCrossSecond (simulationDataRef s)"
  by (simp_all add: logModeByUnit_def Let_def)

lemma cleanupAfterFinish_data_unchanged [simp]:
  "modeBySecond (simulationDataRef (cleanupAfterFinish s)) = modeBySecond (simulationDataRef s)"
  "whiteBlocksHit (simulationDataRef (cleanupAfterFinish s)) = whiteBlocksHit (simulationDataRef s)"
  "failureLaneHits (simulationDataRef (cleanupAfterFinish s)) = failureLaneHits (simulationDataRef s)"
  "modeByUnit (simulationDataRef (cleanupAfterFinish s)) = modeByUnit (simulationDataRef s)"
  "collisionEvents (simulationDataRef (cleanupAfterFinish s)) = collisionEvents (simulationDataRef s)"
  "finalScore (simulationDataRef (cleanupAfterFinish s)) = finalScore (simulationDataRef s)"
  "finishLineCrossSecond (simulationDataRef (cleanupAfterFinish s)) = finishLineCrossSecond (simulationDataRef s)"
  by (simp_all add: cleanupAfterFinish_def captureNotifications_def)

lemma registerTrafficHit_data_unchanged [simp]:
  "modeBySecond (simulationDataRef (registerTrafficHit i c s)) = modeBySecond (simulationDataRef s)"
  "whiteBlocksHit (simulationDataRef (registerTrafficHit i c s)) = whiteBlocksHit (simulationDataRef s)"
  "failureLaneHits (simulationDataRef (registerTrafficHit i c s)) = failureLaneHits (simulationDataRef s)"
  "modeByUnit (simulationDataRef (registerTrafficHit i c s)) = modeByUnit (simulationDataRef s)"
  "finalScore (simulationDataRef (registerTrafficHit i c s)) = finalScore (simulationDataRef s)"
  "sd_notifications (simulationDataRef (registerTrafficHit i c s)) = sd_notifications (simulationDataRef s)"
  "notificationsSeen (simulationDataRef (registerTrafficHit i c s)) = notificationsSeen (simulationDataRef s)"
  "notificationsTotal (simulationDataRef (registerTrafficHit i c s)) = notificationsTotal (simulationDataRef s)"
  "finishLineCrossSecond (simulationDataRef (registerTrafficHit i c s)) = finishLineCrossSecond (simulationDataRef s)"
  by (simp_all add: registerTrafficHit_def Let_def)

lemma checkTrafficCollision_data_unchanged [simp]:
  "modeBySecond (simulationDataRef (checkTrafficCollision i s)) = modeBySecond (simulationDataRef s)"
  "whiteBlocksHit (simulationDataRef (checkTrafficCollision i s)) = whiteBlocksHit (simulationDataRef s)"
  "failureLaneHits (simulationDataRef (checkTrafficCollision i s)) = failureLaneHits (simulationDataRef s)"
  "modeByUnit (simulationDataRef (checkTrafficCollision i s)) = modeByUnit (simulationDataRef s)"
  "finalScore (simulationDataRef (checkTrafficCollision i s)) = finalScore (simulationDataRef s)"
  "sd_notifications (simulationDataRef (checkTrafficCollision i s)) = sd_notifications (simulationDataRef s)"
  "notificationsSeen (simulationDataRef (checkTrafficCollision i s)) = notificationsSeen (simulationDataRef s)"
  "notificationsTotal (simulationDataRef (checkTrafficCollision i s)) = notificationsTotal (simulationDataRef s)"
  "finishLineCrossSecond (simulationDataRef (checkTrafficCollision i s)) = finishLineCrossSecond (simulationDataRef s)"
  by (simp_all add: checkTrafficCollision_def Let_def)

lemma updateTrafficCar_data_unchanged [simp]:
  "modeBySecond (simulationDataRef (updateTrafficCar i s)) = modeBySecond (simulationDataRef s)"
  "whiteBlocksHit (simulationDataRef (updateTrafficCar i s)) = whiteBlocksHit (simulationDataRef s)"
  "failureLaneHits (simulationDataRef (updateTrafficCar i s)) = failureLaneHits (simulationDataRef s)"
  "modeByUnit (simulationDataRef (updateTrafficCar i s)) = modeByUnit (simulationDataRef s)"
  "finalScore (simulationDataRef (updateTrafficCar i s)) = finalScore (simulationDataRef s)"
  "sd_notifications (simulationDataRef (updateTrafficCar i s)) = sd_notifications (simulationDataRef s)"
  "notificationsSeen (simulationDataRef (updateTrafficCar i s)) = notificationsSeen (simulationDataRef s)"
  "notificationsTotal (simulationDataRef (updateTrafficCar i s)) = notificationsTotal (simulationDataRef s)"
  "finishLineCrossSecond (simulationDataRef (updateTrafficCar i s)) = finishLineCrossSecond (simulationDataRef s)"
  by (simp_all add: updateTrafficCar_def)

lemma fold_updateTrafficCar_data_unchanged [simp]:
  "modeBySecond (simulationDataRef (fold updateTrafficCar xs s)) = modeBySecond (simulationDataRef s)"
  "whiteBlocksHit (simulationDataRef (fold updateTrafficCar xs s)) = whiteBlocksHit (simulationDataRef s)"
  "failureLaneHits (simulationDataRef (fold updateTrafficCar xs s)) = failureLaneHits (simulationDataRef s)"
  "modeByUnit (simulationDataRef (fold updateTrafficCar xs s)) = modeByUnit (simulationDataRef s)"
  "finalScore (simulationDataRef (fold updateTrafficCar xs s)) = finalScore (simulationDataRef s)"
  "sd_notifications (simulationDataRef (fold updateTrafficCar xs s)) = sd_notifications (simulationDataRef s)"
  "notificationsSeen (simulationDataRef (fold updateTrafficCar xs s)) = notificationsSeen (simulationDataRef s)"
  "notificationsTotal (simulationDataRef (fold updateTrafficCar xs s)) = notificationsTotal (simulationDataRef s)"
  "finishLineCrossSecond (simulationDataRef (fold updateTrafficCar xs s)) = finishLineCrossSecond (simulationDataRef s)"
  by (induction xs arbitrary: s) simp_all

lemma updateTraffic_data_unchanged [simp]:
  "modeBySecond (simulationDataRef (updateTraffic s)) = modeBySecond (simulationDataRef s)"
  "whiteBlocksHit (simulationDataRef (updateTraffic s)) = whiteBlocksHit (simulationDataRef s)"
  "failureLaneHits (simulationDataRef (updateTraffic s)) = failureLaneHits (simulationDataRef s)"
  "modeByUnit (simulationDataRef (updateTraffic s)) = modeByUnit (simulationDataRef s)"
  "finalScore (simulationDataRef (updateTraffic s)) = finalScore (simulationDataRef s)"
  "sd_notifications (simulationDataRef (updateTraffic s)) = sd_notifications (simulationDataRef s)"
  "notificationsSeen (simulationDataRef (updateTraffic s)) = notificationsSeen (simulationDataRef s)"
  "notificationsTotal (simulationDataRef (updateTraffic s)) = notificationsTotal (simulationDataRef s)"
  "finishLineCrossSecond (simulationDataRef (updateTraffic s)) = finishLineCrossSecond (simulationDataRef s)"
  by (simp_all add: updateTraffic_def)

lemma registerBlockHit_data_unchanged [simp]:
  "modeBySecond (simulationDataRef (registerBlockHit i b s)) = modeBySecond (simulationDataRef s)"
  "modeByUnit (simulationDataRef (registerBlockHit i b s)) = modeByUnit (simulationDataRef s)"
  "finalScore (simulationDataRef (registerBlockHit i b s)) = finalScore (simulationDataRef s)"
  "sd_notifications (simulationDataRef (registerBlockHit i b s)) = sd_notifications (simulationDataRef s)"
  "notificationsSeen (simulationDataRef (registerBlockHit i b s)) = notificationsSeen (simulationDataRef s)"
  "notificationsTotal (simulationDataRef (registerBlockHit i b s)) = notificationsTotal (simulationDataRef s)"
  "finishLineCrossSecond (simulationDataRef (registerBlockHit i b s)) = finishLineCrossSecond (simulationDataRef s)"
  by (simp_all add: registerBlockHit_def Let_def)

lemma updateBlock_data_unchanged [simp]:
  "modeBySecond (simulationDataRef (updateBlock i s)) = modeBySecond (simulationDataRef s)"
  "modeByUnit (simulationDataRef (updateBlock i s)) = modeByUnit (simulationDataRef s)"
  "finalScore (simulationDataRef (updateBlock i s)) = finalScore (simulationDataRef s)"
  "sd_notifications (simulationDataRef (updateBlock i s)) = sd_notifications (simulationDataRef s)"
  "notificationsSeen (simulationDataRef (updateBlock i s)) = notificationsSeen (simulationDataRef s)"
  "notificationsTotal (simulationDataRef (updateBlock i s)) = notificationsTotal (simulationDataRef s)"
  "finishLineCrossSecond (simulationDataRef (updateBlock i s)) = finishLineCrossSecond (simulationDataRef s)"
  by (simp_all add: updateBlock_def Let_def)

lemma blocksLoop_data_unchanged [simp]:
  "modeBySecond (simulationDataRef (blocksLoop n s)) = modeBySecond (simulationDataRef s)"
  "modeByUnit (simulationDataRef (blocksLoop n s)) = modeByUnit (simulationDataRef s)"
  "finalScore (simulationDataRef (blocksLoop n s)) = finalScore (simulationDataRef s)"
  "sd_notifications (simulationDataRef (blocksLoop n s)) = sd_notifications (simulationDataRef s)"
  "notificationsSeen (simulationDataRef (blocksLoop n s)) = notificationsSeen (simulationDataRef s)"
  "notificationsTotal (simulationDataRef (blocksLoop n s)) = notificationsTotal (simulationDataRef s)"
  "finishLineCrossSecond (simulationDataRef (blocksLoop n s)) = finishLineCrossSecond (simulationDataRef s)"
  by (induction n arbitrary: s) simp_all

lemma updateBlocks_data_unchanged [simp]:
  "modeBySecond (simulationDataRef (updateBlocks s)) = modeBySecond (simulationDataRef s)"
  "modeByUnit (simulationDataRef (updateBlocks s)) = modeByUnit (simulationDataRef s)"
  "finalScore (simulationDataRef (updateBlocks s)) = finalScore (simulationDataRef s)"
  "sd_notifications (simulationDataRef (updateBlocks s)) = sd_notifications (simulationDataRef s)"
  "notificationsSeen (simulationDataRef (updateBlocks s)) = notificationsSeen (simulationDataRef s)"
  "notificationsTotal (simulationDataRef (updateBlocks s)) = notificationsTotal (simulationDataRef s)"
  "finishLineCrossSecond (simulationDataRef (updateBlocks s)) = finishLineCrossSecond (simulationDataRef s)"
  by (simp_all add: updateBlocks_def)

lemma completeSimulation_data_unchanged [simp]:
  "modeBySecond (simulationDataRef (completeSimulation s)) = modeBySecond (simulationDataRef s)"
  "whiteBlocksHit (simulationDataRef (completeSimulation s)) = whiteBlocksHit (simulationDataRef s)"
  "collisionEvents (simulationDataRef (completeSimulation s)) = collisionEvents (simulationDataRef s)"
  "finishLineCrossSecond (simulationDataRef (completeSimulation s)) = finishLineCrossSecond (simulationDataRef s)"
  by (simp_all add: completeSimulation_def Let_def captureNotifications_def)

lemma crossFinishLine_data_unchanged [simp]:
  "modeBySecond (simulationDataRef (crossFinishLine now s)) = modeBySecond (simulationDataRef s)"
  "whiteBlocksHit (simulationDataRef (crossFinishLine now s)) = whiteBlocksHit (simulationDataRef s)"
  "collisionEvents (simulationDataRef (crossFinishLine now s)) = collisionEvents (simulationDataRef s)"
  by (simp_all add: crossFinishLine_def Let_def)

lemma completeWhenAllSeen_data_unchanged [simp]:
  "modeBySecond (simulationDataRef (completeWhenAllSeen s)) = modeBySecond (simulationDataRef s)"
  "whiteBlocksHit (simulationDataRef (completeWhenAllSeen s)) = whiteBlocksHit (simulationDataRef s)"
  "collisionEvents (simulationDataRef (completeWhenAllSeen s)) = collisionEvents (simulationDataRef s)"
  "finishLineCrossSecond (simulationDataRef (completeWhenAllSeen s)) = finishLineCrossSecond (simulationDataRef s)"
  by (simp_all add: completeWhenAllSeen_def)

section \<open>Properties\<close>

text \<open>
  C9.  Under engaged autopilot, whenever the emergency-brake or the light-brake
  branch fires, the velocity it produces is at least 0.2: the emergency brake
  computes the maximum of (velocity - 0.06) and 0.2, the light brake the maximum
  of (velocity - 0.02) and 0.4, so braking never brings the car to a halt.
\<close>

theorem braking_never_halts:
  assumes "shouldEmergencyBrake \<or> immediateObstacleAhead"
  shows "autopilotSpeedControl shouldEmergencyBrake immediateObstacleAhead v
           = (if shouldEmergencyBrake then max (v - 0.06) 0.2 else max (v - 0.02) 0.4)
         \<and> 0.2 \<le> autopilotSpeedControl shouldEmergencyBrake immediateObstacleAhead v
         \<and> 0 < autopilotSpeedControl shouldEmergencyBrake immediateObstacleAhead v"
  using assms by (auto simp: autopilotSpeedControl_def Let_def max_def)

theorem braking_never_halts_witness:
  "(True \<or> False) \<and> autopilotSpeedControl True False 0.21 = 0.2
   \<and> autopilotSpeedControl False True 0 = 0.4"
  using braking_never_halts [of True False "0.21"] braking_never_halts [of False True 0]
  by (simp add: max_def)

subsection \<open>Score\<close>

lemma score_registerTrafficHit:
  "scoreRef (registerTrafficHit i c s) = max 0 (scoreRef s - 10)"
  by (simp add: registerTrafficHit_def Let_def)

lemma score_registerBlockHit:
  "scoreRef (registerBlockHit i b s) = max 0 (scoreRef s - 10)"
  by (simp add: registerBlockHit_def Let_def)

lemma score_updateTrafficCar:
  "0 \<le> scoreRef s \<Longrightarrow>
     0 \<le> scoreRef (updateTrafficCar i s) \<and> scoreRef (updateTrafficCar i s) \<le> scoreRef s"
  by (simp add: updateTrafficCar_def checkTrafficCollision_def Let_def score_registerTrafficHit)

lemma score_fold_updateTrafficCar:
  "0 \<le> scoreRef s \<Longrightarrow>
     0 \<le> scoreRef (fold updateTrafficCar xs s) \<and> scoreRef (fold updateTrafficCar xs s) \<le> scoreRef s"
proof (induction xs arbitrary: s)
  case Nil
  then show ?case by simp
next
  case (Cons i xs)
  from score_updateTrafficCar [OF Cons.prems, of i] Cons.IH [of "updateTrafficCar i s"]
  show ?case by simp
qed

lemma score_updateBlock:
  "0 \<le> scoreRef s \<Longrightarrow>
     0 \<le> scoreRef (updateBlock i s) \<and> scoreRef (updateBlock i s) \<le> scoreRef s"
  by (simp add: updateBlock_def Let_def score_registerBlockHit)

lemma score_blocksLoop:
  "0 \<le> scoreRef s \<Longrightarrow>
     0 \<le> scoreRef (blocksLoop n s) \<and> scoreRef (blocksLoop n s) \<le> scoreRef s"
proof (induction n arbitrary: s)
  case 0
  then show ?case by simp
next
  case (Suc n)
  from score_updateBlock [OF Suc.prems, of n] Suc.IH [of "updateBlock n s"]
  show ?case by simp
qed

lemma score_simulationStep:
  assumes "0 \<le> scoreRef s"
  shows "0 \<le> scoreRef (simulationStep now s) \<and> scoreRef (simulationStep now s) \<le> scoreRef s"
proof (cases "gameStartedRef s")
  case False
  then show ?thesis using assms by (simp add: simulationStep_def Let_def)
next
  case True
  let ?s0 = "s\<lparr>frameCount := frameCount s + 1\<rparr>"
  define s6 where "s6 = moveCar (controlCar (elapsedOf now ?s0)
      (autopilotPendingLogic (elapsedOf now ?s0)
        (spawnBlocks (elapsedOf now ?s0) (logModeByUnit (cleanupAfterFinish ?s0)))))"
  have s6: "scoreRef s6 = scoreRef s" by (simp add: s6_def)
  have eq: "scoreRef (simulationStep now s) = scoreRef (updateBlocks (updateTraffic s6))"
    using True by (simp add: simulationStep_def Let_def s6_def)
  have t: "0 \<le> scoreRef (updateTraffic s6) \<and> scoreRef (updateTraffic s6) \<le> scoreRef s"
    using score_fold_updateTrafficCar [of s6] assms s6 by (simp add: updateTraffic_def)
  have b: "0 \<le> scoreRef (updateBlocks (updateTraffic s6))
         \<and> scoreRef (updateBlocks (updateTraffic s6)) \<le> scoreRef (updateTraffic s6)"
    using score_blocksLoop [of "updateTraffic s6"] t by (simp add: updateBlocks_def)
  show ?thesis using eq t b by simp
qed

lemma score_drainAccumulator:
  "0 \<le> scoreRef s \<Longrightarrow>
     0 \<le> scoreRef (drainAccumulator now s) \<and> scoreRef (drainAccumulator now s) \<le> scoreRef s"
proof (induction now s rule: drainAccumulator.induct)
  case (1 now s)
  show ?case
  proof (cases "accumulatedTime s \<ge> FIXED_DELTA")
    case True
    from score_simulationStep [OF "1.prems", of now]
    have st: "0 \<le> scoreRef (simulationStep now s)" "scoreRef (simulationStep now s) \<le> scoreRef s"
      by simp_all
    from "1.IH" [OF True st(1)] st(2) True show ?thesis
      by (simp add: drainAccumulator.simps [of now s])
  next
    case False
    then show ?thesis using "1.prems" by (simp add: drainAccumulator.simps [of now s])
  qed
qed

lemma score_animate:
  assumes "0 \<le> scoreRef s"
  shows "0 \<le> scoreRef (animate perfNow now s) \<and> scoreRef (animate perfNow now s) \<le> scoreRef s"
proof (cases "lastAnimationTime s")
  case None
  then show ?thesis using assms by (simp add: animate_def)
next
  case (Some t)
  then show ?thesis
    using assms score_drainAccumulator [of "s\<lparr>lastAnimationTime := Some perfNow,
        accumulatedTime := accumulatedTime s + (perfNow - t) / 1000\<rparr>" now]
    by (simp add: animate_def Let_def)
qed

lemma score_timerInterval:
  "0 \<le> scoreRef s \<Longrightarrow>
     0 \<le> scoreRef (timerInterval now s) \<and> scoreRef (timerInterval now s) \<le> scoreRef s"
  by (simp add: timerInterval_def Let_def timeScoreDeduction_def)

lemma score_step:
  assumes "0 \<le> scoreRef s" and "\<forall>now. e = CountdownGo now \<longrightarrow> \<not> countdownActive s"
  shows "0 \<le> scoreRef (step s e) \<and> scoreRef (step s e) \<le> scoreRef s"
proof (cases e)
  case (TimerFire now)
  then show ?thesis using score_timerInterval [OF assms(1)] by simp
next
  case (AnimationFrame perfNow now)
  then show ?thesis using score_animate [OF assms(1)] by simp
qed (use assms in \<open>auto simp: startGame_def countdownGo_def handleKeyDown_def handleKeyUp_def
      handleToggleAutopilot_def clickNotification_def commitEffects_def handleVisibilityChange_def
      Let_def split: key.splits\<close>)

lemma score_step_nonneg: "0 \<le> scoreRef s \<Longrightarrow> 0 \<le> scoreRef (step s e)"
proof (cases "\<exists>now. e = CountdownGo now \<and> countdownActive s")
  case True
  then show ?thesis by (auto simp: countdownGo_def)
next
  case False
  assume "0 \<le> scoreRef s"
  then show ?thesis using score_step [of s e] False by blast
qed

lemma score_foldl_nonneg: "0 \<le> scoreRef s \<Longrightarrow> 0 \<le> scoreRef (foldl step s evs)"
  by (induction evs arbitrary: s) (simp_all add: score_step_nonneg)

lemma score_run_nonneg: "0 \<le> scoreRef (run ids evs)"
  unfolding run_def by (rule score_foldl_nonneg) (simp add: initialState_def)

text \<open>
  C2.  In every run the score is never negative, and no callback other than the
  one that starts the run (and resets the score to 1000) ever increases it: the
  time-based deduction and both collision deductions take the maximum of 0 and
  the lowered score, every other operation leaves the score alone.
\<close>

theorem score_non_increasing_non_negative:
  "0 \<le> scoreRef (run ids evs) \<and>
   ((\<forall>now. e = CountdownGo now \<longrightarrow> \<not> countdownActive (run ids evs))
      \<longrightarrow> scoreRef (run ids (evs @ [e])) \<le> scoreRef (run ids evs))"
  using score_run_nonneg [of ids evs] score_step [of "run ids evs" e]
  by (simp add: run_def)

theorem score_non_increasing_non_negative_witness:
  "0 \<le> scoreRef (run [1, 2, 3, 4, 5] [ClickStart, CountdownGo 1000, TimerFire 1100])
   \<and> scoreRef (run [1, 2, 3, 4, 5] ([ClickStart, CountdownGo 1000, TimerFire 1100] @ [TimerFire 2100]))
        \<le> scoreRef (run [1, 2, 3, 4, 5] [ClickStart, CountdownGo 1000, TimerFire 1100])"
  using score_non_increasing_non_negative
    [of "[1, 2, 3, 4, 5]" "[ClickStart, CountdownGo 1000, TimerFire 1100]" "TimerFire 2100"]
  by simp


subsection \<open>Clock and timer\<close>



lemma FIXED_DELTA_val: "FIXED_DELTA = 1 / 60"
  by (simp add: FIXED_DELTA_def FIXED_FPS_def)











text \<open>
  C5.  The timer of this variant deducts the per-second penalty once per firing,
  however long ago the last deduction was: after a ten-second suspension the
  first firing takes 5 points, not 50.  The 45-second sibling variant does catch
  up (10 points for each of the ten seconds).
\<close>

theorem suspended_timer_deducts_once:
  "scoreRef (run [1, 2, 3, 4, 5] [ClickStart, CountdownGo 1000, TimerFire 1100]) = 1000
   \<and> lastScoreDeduction (run [1, 2, 3, 4, 5] [ClickStart, CountdownGo 1000, TimerFire 1100]) = 1100
   \<and> scoreRef (run [1, 2, 3, 4, 5] [ClickStart, CountdownGo 1000, TimerFire 1100,
        VisibilityChange True 1200, VisibilityChange False 11200, TimerFire 11200]) = 995
   \<and> snd (timeScoreDeductionCatchUp 11200 (1100, 1000)) = 900"
  by code_simp

subsection \<open>Mode-by-unit log\<close>










lemma unitLogInv_unchanged_stages [simp]:
  "unitLogInv (cleanupAfterFinish s) = unitLogInv s"
  "unitLogInv (spawnBlocks e s) = unitLogInv s"
  "unitLogInv (autopilotPendingLogic e s) = unitLogInv s"
  "unitLogInv (controlCar e s) = unitLogInv s"
  "unitLogInv (moveCar s) = unitLogInv s"
  "unitLogInv (updateTraffic s) = unitLogInv s"
  "unitLogInv (updateBlocks s) = unitLogInv s"
  "unitLogInv (stopAfterCoasting now s) = unitLogInv s"
  by (simp_all add: unitLogInv_def)








subsection \<open>Reaching the finish line\<close>


lemma autopilotSpeedControl_lower:
  "0 \<le> v \<Longrightarrow> 0.05 \<le> autopilotSpeedControl e i v"
  by (auto simp: autopilotSpeedControl_def Let_def AUTOPILOT_SPEED_UNITS_def max_def min_def)

lemma elapsedOf_frame:
  "startTimeRef t = startTimeRef s \<Longrightarrow> gameStartedRef t = gameStartedRef s
     \<Longrightarrow> elapsedOf now t = elapsedOf now s"
  by (simp add: elapsedOf_def)

lemma carVelocity_autopilotControl:
  "carVelocity (autopilotControl s)
     = autopilotSpeedControl (emergencyBrakeNeeded s) (immediateObstacle s) (carVelocity s)"
  by (simp add: autopilotControl_def Let_def)

lemma isComplete_completeSimulation [simp]: "isComplete (completeSimulation s)"
  by (simp add: completeSimulation_def Let_def)

lemma cruising_step:
  assumes "cruising now s"
  shows "posZ (carGroup (simulationStep now s)) \<le> posZ (carGroup s) - 0.05
         \<and> notificationsRef (simulationStep now s) = notificationsRef s
         \<and> ((finishLineCrossed (simulationStep now s)
               \<and> (allNotificationsSeen (notificationsRef s) \<longrightarrow> isComplete (simulationStep now s)))
              \<or> cruising now (simulationStep now s))"
proof -
  let ?s0 = "s\<lparr>frameCount := frameCount s + 1\<rparr>"
  let ?e = "elapsedOf now ?s0"
  define s4 where "s4 = autopilotPendingLogic ?e (spawnBlocks ?e (logModeByUnit (cleanupAfterFinish ?s0)))"
  define s5 where "s5 = controlCar ?e s4"
  define s8 where "s8 = updateBlocks (updateTraffic (moveCar s5))"
  define s9 where "s9 = crossFinishLine now s8"
  define s10 where "s10 = completeWhenAllSeen s9"
  from assms have a: "gameStartedRef s" "autopilotRef s" "elapsedOf now s \<ge> 0" "\<not> isCompleteRef s"
    "\<not> finishLineCrossed s" "\<not> isComplete s"
    "0 \<le> carVelocity s" "finishLineZ < posZ (carGroup s)"
    by (simp_all add: cruising_def)
  have e: "?e = elapsedOf now s" by (rule elapsedOf_frame) simp_all
  have step: "simulationStep now s = (stopAfterCoasting now s10)
      \<lparr>accumulatedTime := accumulatedTime (stopAfterCoasting now s10) - FIXED_DELTA\<rparr>"
    using a(1) by (simp add: simulationStep_def Let_def s4_def s5_def s8_def s9_def s10_def)
  have s4: "carGroup s4 = carGroup s" "carVelocity s4 = carVelocity s" "autopilotRef s4"
    "\<not> finishLineCrossed s4"
    using a by (simp_all add: s4_def)
  have s5v: "carVelocity s5 = autopilotSpeedControl (emergencyBrakeNeeded s4) (immediateObstacle s4) (carVelocity s)"
    using s4 a(3) by (simp add: s5_def controlCar_def carVelocity_autopilotControl e)
  have v5: "0.05 \<le> carVelocity s5" unfolding s5v by (rule autopilotSpeedControl_lower [OF a(7)])
  have g5: "carGroup s5 = carGroup s" by (simp add: s5_def s4)
  have z8: "posZ (carGroup s8) = posZ (carGroup s) - carVelocity s5"
    by (simp add: s8_def moveCar_def Let_def g5)
  have f8: "\<not> finishLineCrossed s8" "\<not> isCompleteRef s8" "\<not> isComplete s8" "carVelocity s8 = carVelocity s5"
    "notificationsRef s8 = notificationsRef s" "gameStartedRef s8" "autopilotRef s8"
    "startTimeRef s8 = startTimeRef s"
    using a by (simp_all add: s8_def s5_def s4_def)
  have st: "stopAfterCoasting now s10 = s10"
    using f8(2) by (simp add: stopAfterCoasting_def s10_def s9_def)
  have pos: "carGroup s10 = carGroup s8" by (simp add: s10_def s9_def)
  have misc: "carVelocity s10 = carVelocity s8" "gameStartedRef s10" "autopilotRef s10"
    "\<not> isCompleteRef s10" "notificationsRef s10 = notificationsRef s" "startTimeRef s10 = startTimeRef s"
    using f8 by (simp_all add: s10_def s9_def)
  have fin: "(finishLineCrossed s10 \<and> (allNotificationsSeen (notificationsRef s) \<longrightarrow> isComplete s10))
             \<or> (\<not> finishLineCrossed s10 \<and> \<not> isComplete s10 \<and> finishLineZ < posZ (carGroup s8))"
  proof (cases "posZ (carGroup s8) \<le> finishLineZ")
    case True
    then have 9: "finishLineCrossed s9"
      using f8 by (simp add: s9_def crossFinishLine_def Let_def completeSimulation_def
            ensureModeByUnitComplete_def)
    have "\<not> isCompleteRef s9" using f8 by (simp add: s9_def)
    with 9 have "allNotificationsSeen (notificationsRef s) \<longrightarrow> isComplete s10"
      using f8(5) by (simp add: s10_def completeWhenAllSeen_def s9_def)
    moreover have "finishLineCrossed s10"
      using 9 by (simp add: s10_def completeWhenAllSeen_def completeSimulation_def Let_def
            ensureModeByUnitComplete_def)
    ultimately show ?thesis by simp
  next
    case False
    then have "s9 = s8" using f8 by (simp add: s9_def crossFinishLine_def)
    then have "s10 = s8" using f8 by (simp add: s10_def completeWhenAllSeen_def)
    then show ?thesis using False f8 by simp
  qed
  have z: "posZ (carGroup (simulationStep now s)) \<le> posZ (carGroup s) - 0.05"
    using v5 by (simp add: step st pos z8)
  have n: "notificationsRef (simulationStep now s) = notificationsRef s"
    by (simp add: step st misc)
  have c: "(finishLineCrossed (simulationStep now s)
               \<and> (allNotificationsSeen (notificationsRef s) \<longrightarrow> isComplete (simulationStep now s)))
              \<or> cruising now (simulationStep now s)"
    using fin misc f8 v5 a(1,3) by (auto simp: step st pos cruising_def elapsedOf_def)
  from z n c show ?thesis by blast
qed

lemma isComplete_mono_finish:
  "isComplete s \<Longrightarrow> isComplete (crossFinishLine now s)"
  "isComplete s \<Longrightarrow> isComplete (completeWhenAllSeen s)"
  by (simp_all add: crossFinishLine_def completeWhenAllSeen_def Let_def)

lemma isComplete_simulationStep:
  "isComplete s \<Longrightarrow> isComplete (simulationStep now s)"
  by (simp add: simulationStep_def Let_def isComplete_mono_finish)

lemma isComplete_drainAccumulator:
  "isComplete s \<Longrightarrow> isComplete (drainAccumulator now s)"
proof (induction now s rule: drainAccumulator.induct)
  case (1 now s)
  show ?case
  proof (cases "accumulatedTime s \<ge> FIXED_DELTA")
    case True
    from "1.IH" [OF True isComplete_simulationStep [OF "1.prems"]] True show ?thesis
      by (simp add: drainAccumulator.simps [of now s])
  next
    case False
    then show ?thesis using "1.prems" by (simp add: drainAccumulator.simps [of now s])
  qed
qed

lemma crossed_mono:
  "finishLineCrossed s \<Longrightarrow> finishLineCrossed (simulationStep now s)"
  by (simp add: simulationStep_def Let_def crossFinishLine_def completeWhenAllSeen_def
        completeSimulation_def ensureModeByUnitComplete_def)

lemma notificationsRef_simulationStep [simp]:
  "notificationsRef (simulationStep now s) = notificationsRef s"
  by (simp add: simulationStep_def Let_def)

lemma notificationsRef_drainAccumulator [simp]:
  "notificationsRef (drainAccumulator now s) = notificationsRef s"
proof (induction now s rule: drainAccumulator.induct)
  case (1 now s)
  then show ?case by (cases "accumulatedTime s \<ge> FIXED_DELTA") (simp_all add: drainAccumulator.simps [of now s])
qed

lemma crossed_drainAccumulator:
  "finishLineCrossed s \<Longrightarrow> finishLineCrossed (drainAccumulator now s)"
proof (induction now s rule: drainAccumulator.induct)
  case (1 now s)
  show ?case
  proof (cases "accumulatedTime s \<ge> FIXED_DELTA")
    case True
    from "1.IH" [OF True crossed_mono [OF "1.prems"]] True show ?thesis
      by (simp add: drainAccumulator.simps [of now s])
  next
    case False
    then show ?thesis using "1.prems" by (simp add: drainAccumulator.simps [of now s])
  qed
qed

lemma cruising_drain_crosses:
  assumes "cruising now s"
    and "posZ (carGroup s) - 0.05 * real_of_int \<lfloor>accumulatedTime s / FIXED_DELTA\<rfloor> \<le> finishLineZ"
  shows "finishLineCrossed (drainAccumulator now s)
         \<and> (allNotificationsSeen (notificationsRef s) \<longrightarrow> isComplete (drainAccumulator now s))"
  using assms
proof (induction now s rule: drainAccumulator.induct)
  case (1 now s)
  show ?case
  proof (cases "accumulatedTime s \<ge> FIXED_DELTA")
    case True
    have unf: "drainAccumulator now s = drainAccumulator now (simulationStep now s)"
      using True by (simp add: drainAccumulator.simps [of now s])
    from cruising_step [OF "1.prems"(1)]
    have z: "posZ (carGroup (simulationStep now s)) \<le> posZ (carGroup s) - 0.05"
      and c: "(finishLineCrossed (simulationStep now s)
               \<and> (allNotificationsSeen (notificationsRef s) \<longrightarrow> isComplete (simulationStep now s)))
              \<or> cruising now (simulationStep now s)"
      by simp_all
    from c show ?thesis
    proof
      assume "finishLineCrossed (simulationStep now s)
               \<and> (allNotificationsSeen (notificationsRef s) \<longrightarrow> isComplete (simulationStep now s))"
      then show ?thesis unfolding unf
        using crossed_drainAccumulator isComplete_drainAccumulator by blast
    next
      assume cr: "cruising now (simulationStep now s)"
      have fl: "\<lfloor>accumulatedTime (simulationStep now s) / FIXED_DELTA\<rfloor>
                = \<lfloor>accumulatedTime s / FIXED_DELTA\<rfloor> - 1"
        by (simp add: accumulatedTime_simulationStep FIXED_DELTA_val)
      have "posZ (carGroup (simulationStep now s))
              - 0.05 * real_of_int \<lfloor>accumulatedTime (simulationStep now s) / FIXED_DELTA\<rfloor>
            \<le> finishLineZ"
        using z "1.prems"(2) unfolding fl by (simp add: field_simps)
      from "1.IH" [OF True cr this] show ?thesis unfolding unf by simp
    qed
  next
    case False
    then have "accumulatedTime s / FIXED_DELTA < 1" by (simp add: FIXED_DELTA_val)
    then have "\<lfloor>accumulatedTime s / FIXED_DELTA\<rfloor> \<le> 0" by linarith
    then have "real_of_int \<lfloor>accumulatedTime s / FIXED_DELTA\<rfloor> \<le> 0" by linarith
    then have "posZ (carGroup s) \<le> posZ (carGroup s) - 0.05 * real_of_int \<lfloor>accumulatedTime s / FIXED_DELTA\<rfloor>"
      by simp
    with "1.prems" have False by (simp add: cruising_def)
    then show ?thesis ..
  qed
qed

lemma run_snoc: "run ids (evs @ [e]) = step (run ids evs) e"
  by (simp add: run_def)

lemma animate_after_baseline:
  "lastAnimationTime s = Some t \<Longrightarrow>
     animate perfNow now s = drainAccumulator now
       (s\<lparr>lastAnimationTime := Some perfNow,
          accumulatedTime := accumulatedTime s + (perfNow - t) / 1000\<rparr>)"
  by (simp add: animate_def Let_def)

lemma suspendedRun_state:
  "finishLineCrossed (run [1, 2, 3, 4, 5] suspendedRun)
   \<and> notificationsRef (run [1, 2, 3, 4, 5] suspendedRun) = []"
proof -
  let ?p = "run [1, 2, 3, 4, 5] [ClickStart, CountdownGo 1000, AnimationFrame 0 1000]"
  let ?q = "?p\<lparr>lastAnimationTime := Some 3000000, accumulatedTime := accumulatedTime ?p + (3000000 - 0) / 1000\<rparr>"
  have l: "lastAnimationTime ?p = Some 0" by code_simp
  have "run [1, 2, 3, 4, 5] suspendedRun = run [1, 2, 3, 4, 5]
      ([ClickStart, CountdownGo 1000, AnimationFrame 0 1000] @ [AnimationFrame 3000000 3001000])"
    by (simp add: suspendedRun_def)
  also have "\<dots> = animate 3000000 3001000 ?p"
    by (simp only: run_snoc step.simps)
  finally have r: "run [1, 2, 3, 4, 5] suspendedRun = drainAccumulator 3001000 ?q"
    by (simp only: animate_after_baseline [OF l])
  have c: "cruising 3001000 ?q" by code_simp
  have d: "posZ (carGroup ?q) - 0.05 * real_of_int \<lfloor>accumulatedTime ?q / FIXED_DELTA\<rfloor> \<le> finishLineZ"
    by code_simp
  have n: "notificationsRef ?q = []" by code_simp
  from cruising_drain_crosses [OF c d] n show ?thesis unfolding r by simp
qed



subsection \<open>Completion\<close>

lemma completionInv_completeSimulation:
  assumes "completionInv s" and "gameStartedRef s" and "finishLineCrossed s"
    and "allNotificationsSeen (notificationsRef s)"
  shows "completionInv (completeSimulation s)"
  using assms
  by (simp add: completionInv_def completeSimulation_def Let_def ensureModeByUnitComplete_def)

lemma completionInv_crossFinishLine:
  assumes "completionInv s" and "gameStartedRef s"
  shows "completionInv (crossFinishLine now s)"
proof -
  let ?s1 = "s\<lparr>finishLineCrossed := True, finishLineCrossTime := Some now,
      simulationDataRef := (simulationDataRef s)\<lparr>finishLineCrossSecond :=
        (if truthy (startTimeRef s) \<and> gameStartedRef s
         then Some (real_of_int (now - the (startTimeRef s)) / 1000) else None)\<rparr>\<rparr>"
  have 1: "completionInv ?s1" using assms(1) by (simp add: completionInv_def)
  have 2: "completionInv (?s1\<lparr>showViewAllNotificationsPopup := True\<rparr>)"
    using assms(1) by (simp add: completionInv_def)
  have g: "gameStartedRef ?s1" "finishLineCrossed ?s1" using assms(2) by simp_all
  show ?thesis
    using completionInv_completeSimulation [OF 1 g] 2 assms
    by (simp add: crossFinishLine_def Let_def)
qed

lemma completionInv_completeWhenAllSeen:
  "completionInv s \<Longrightarrow> gameStartedRef s \<Longrightarrow> completionInv (completeWhenAllSeen s)"
  by (simp add: completeWhenAllSeen_def completionInv_completeSimulation)

lemma completionInv_unchanged_stages [simp]:
  "completionInv (logModeByUnit s) = completionInv s"
  "completionInv (spawnBlocks e s) = completionInv s"
  "completionInv (autopilotPendingLogic e s) = completionInv s"
  "completionInv (controlCar e s) = completionInv s"
  "completionInv (moveCar s) = completionInv s"
  "completionInv (updateTraffic s) = completionInv s"
  "completionInv (updateBlocks s) = completionInv s"
  "completionInv (stopAfterCoasting now s) = completionInv s"
  "completionInv (cleanupAfterFinish s) = completionInv s"
  by (simp_all add: completionInv_def)

lemma completionInv_simulationStep:
  assumes "completionInv s"
  shows "completionInv (simulationStep now s)"
proof (cases "gameStartedRef s")
  case False
  then show ?thesis using assms by (simp add: simulationStep_def Let_def completionInv_def)
next
  case True
  let ?s0 = "s\<lparr>frameCount := frameCount s + 1\<rparr>"
  let ?e = "elapsedOf now ?s0"
  define s8 where "s8 = updateBlocks (updateTraffic (moveCar (controlCar ?e
      (autopilotPendingLogic ?e (spawnBlocks ?e (logModeByUnit (cleanupAfterFinish ?s0)))))))"
  have "completionInv ?s0" using assms by (simp add: completionInv_def)
  then have 8: "completionInv s8" by (simp add: s8_def)
  have g8: "gameStartedRef s8" using True by (simp add: s8_def)
  have 9: "completionInv (crossFinishLine now s8)" "gameStartedRef (crossFinishLine now s8)"
    using completionInv_crossFinishLine [OF 8 g8] g8 by simp_all
  have 10: "completionInv (completeWhenAllSeen (crossFinishLine now s8))"
    using completionInv_completeWhenAllSeen [OF 9] .
  have "simulationStep now s = (stopAfterCoasting now (completeWhenAllSeen (crossFinishLine now s8)))
      \<lparr>accumulatedTime := accumulatedTime (stopAfterCoasting now
          (completeWhenAllSeen (crossFinishLine now s8))) - FIXED_DELTA\<rparr>"
    using True by (simp add: simulationStep_def Let_def s8_def)
  then show ?thesis using 10 by (simp add: completionInv_def)
qed

lemma completionInv_drainAccumulator:
  "completionInv s \<Longrightarrow> completionInv (drainAccumulator now s)"
proof (induction now s rule: drainAccumulator.induct)
  case (1 now s)
  show ?case
  proof (cases "accumulatedTime s \<ge> FIXED_DELTA")
    case True
    from "1.IH" [OF True completionInv_simulationStep [OF "1.prems"]] True show ?thesis
      by (simp add: drainAccumulator.simps [of now s])
  next
    case False
    then show ?thesis using "1.prems" by (simp add: drainAccumulator.simps [of now s])
  qed
qed

lemma completionInv_animate: "completionInv s \<Longrightarrow> completionInv (animate perfNow now s)"
proof (cases "lastAnimationTime s")
  case None
  assume "completionInv s"
  then show ?thesis using None by (simp add: animate_def completionInv_def)
next
  case (Some t)
  assume "completionInv s"
  then have "completionInv (s\<lparr>lastAnimationTime := Some perfNow,
        accumulatedTime := accumulatedTime s + (perfNow - t) / 1000\<rparr>)"
    by (simp add: completionInv_def)
  from completionInv_drainAccumulator [OF this] Some show ?thesis
    by (simp add: animate_def Let_def)
qed

lemma completionInv_timerInterval: "completionInv s \<Longrightarrow> completionInv (timerInterval now s)"
  by (auto simp: timerInterval_def Let_def completionInv_def)

lemma seen_markSeen: "seen n \<Longrightarrow> seen (markSeen i c n)"
  by (simp add: markSeen_def)

lemma allNotificationsSeen_map_markSeen:
  "allNotificationsSeen ns \<Longrightarrow> allNotificationsSeen (map (markSeen i c) ns)"
  by (auto simp: allNotificationsSeen_def list_all_iff seen_markSeen)

lemma completionInv_step: "completionInv s \<Longrightarrow> completionInv (step s e)"
proof (cases e)
  case (TimerFire now)
  then show "completionInv s \<Longrightarrow> ?thesis" by (simp add: completionInv_timerInterval)
next
  case (AnimationFrame perfNow now)
  then show "completionInv s \<Longrightarrow> ?thesis" by (simp add: completionInv_animate)
next
  case (ClickNotification i now)
  then show "completionInv s \<Longrightarrow> ?thesis"
    by (auto simp: completionInv_def clickNotification_def Let_def allNotificationsSeen_map_markSeen)
qed (auto simp: completionInv_def startGame_def countdownGo_def handleKeyDown_def handleKeyUp_def
      handleToggleAutopilot_def commitEffects_def handleVisibilityChange_def
      Let_def split: key.splits)

lemma completionInv_foldl: "completionInv s \<Longrightarrow> completionInv (foldl step s evs)"
  by (induction evs arbitrary: s) (simp_all add: completionInv_step)

lemma completionInv_run: "completionInv (run ids evs)"
  unfolding run_def
  by (rule completionInv_foldl) (simp add: completionInv_def initialState_def)



subsection \<open>Lateral offset\<close>











lemma laneInv_unchanged_stages [simp]:
  "laneInv (cleanupAfterFinish s) = laneInv s"
  "laneInv (logModeByUnit s) = laneInv s"
  "laneInv (spawnBlocks e s) = laneInv s"
  "laneInv (autopilotPendingLogic e s) = laneInv s"
  "laneInv (updateTraffic s) = laneInv s"
  "laneInv (updateBlocks s) = laneInv s"
  "laneInv (crossFinishLine now s) = laneInv s"
  "laneInv (completeWhenAllSeen s) = laneInv s"
  "laneInv (stopAfterCoasting now s) = laneInv s"
  by (simp_all add: laneInv_def)












subsection \<open>Completed runs\<close>



text \<open>
  C10.  The completion predicate is false on the empty notification list, so a
  run whose notification list is empty is not complete, whether or not the car
  has crossed the finish line.
\<close>

theorem no_completion_without_notification:
  assumes "notificationsRef (run ids evs) = []"
  shows "\<not> allNotificationsSeen (notificationsRef (run ids evs))
         \<and> \<not> isComplete (run ids evs) \<and> \<not> isCompleteRef (run ids evs)"
  using completionInv_run [of ids evs] assms
  by (auto simp: completionInv_def allNotificationsSeen_def)

theorem no_completion_without_notification_witness:
  "notificationsRef (run [1, 2, 3, 4, 5] suspendedRun) = []
   \<and> finishLineCrossed (run [1, 2, 3, 4, 5] suspendedRun)
   \<and> \<not> isComplete (run [1, 2, 3, 4, 5] suspendedRun)"
  using no_completion_without_notification [of "[1, 2, 3, 4, 5]" suspendedRun]
    suspendedRun_state
  by simp












end
